(* ===== verification/Chalk.thy ===== *)
theory Chalk
  imports Prelude
begin

text \<open>
  The styling collaborator (the \<open>chalk\<close> package, required at line 9 of
  \<open>src/index.js\<close>; not part of this repository, so modelled from the spec's
  interface: named styles that wrap text in presentation markers and are no-ops on
  output without colour support).  A style has an ANSI SGR opening and closing code.
  As chalk 1.x does, a style leaves the text unchanged when colours are disabled or
  the text is empty, and otherwise replaces each occurrence of its closing code
  inside the text by its opening code (so that nested styles re-open), then wraps
  the text in the two codes.  \<open>strip_sgr\<close> removes SGR sequences again; the round
  trip \<open>strip_sgr_style\<close> says that styling is presentation only.
\<close>

definition esc :: char where
  "esc = CHR 0x1B"

definition sgr :: "nat \<Rightarrow> string" where
  "sgr n = esc # CHR ''['' # nat_str n @ ''m''"

record style =
  st_open :: nat
  st_close :: nat

text \<open>\<open>s.replace(/pat/g, rep)\<close>: leftmost non-overlapping occurrences.\<close>

function replace_all :: "string \<Rightarrow> string \<Rightarrow> string \<Rightarrow> string" where
  "replace_all pat rep s =
     (if pat = [] then s
      else case s of
        [] \<Rightarrow> []
      | c # cs \<Rightarrow>
          (if take (length pat) s = pat then rep @ replace_all pat rep (drop (length pat) s)
           else c # replace_all pat rep cs))"
  by pat_completeness auto
termination
  by (relation "measure (\<lambda>(pat, rep, s). length s)") auto

declare replace_all.simps [simp del]

definition chalk_style :: "bool \<Rightarrow> style \<Rightarrow> string \<Rightarrow> string" where
  "chalk_style enabled st s =
     (if \<not> enabled \<or> s = [] then s
      else sgr (st_open st) @ replace_all (sgr (st_close st)) (sgr (st_open st)) s @ sgr (st_close st))"

definition underline :: style where "underline = \<lparr>st_open = 4, st_close = 24\<rparr>"
definition cyan :: style where "cyan = \<lparr>st_open = 36, st_close = 39\<rparr>"
definition green :: style where "green = \<lparr>st_open = 32, st_close = 39\<rparr>"
definition gray :: style where "gray = \<lparr>st_open = 90, st_close = 39\<rparr>"

function strip_sgr :: "string \<Rightarrow> string" where
  "strip_sgr [] = []"
| "strip_sgr (c # cs) =
     (if c = esc then
        (case cs of
          d # r \<Rightarrow>
            (if d = CHR ''['' then
               (case dropWhile dec_digit r of
                  m # r' \<Rightarrow> (if m = CHR ''m'' then strip_sgr r' else c # strip_sgr cs)
                | [] \<Rightarrow> c # strip_sgr cs)
             else c # strip_sgr cs)
        | [] \<Rightarrow> [c])
      else c # strip_sgr cs)"
  by pat_completeness auto
termination
proof (relation "measure length")
  fix c cs d r m r'
  assume "cs = d # r" and "dropWhile dec_digit r = m # r'"
  moreover have "length (dropWhile dec_digit r) \<le> length r" by (rule length_dropWhile_le)
  ultimately show "(r', c # cs) \<in> measure length" by simp
qed auto

subsection \<open>Lemmas\<close>

lemma esc_not_digit: "\<not> dec_digit esc"
  by (simp add: esc_def dec_digit_def)

lemma replace_all_no_esc:
  assumes "pat \<noteq> []" "hd pat = esc" "esc \<notin> set s"
  shows "replace_all pat rep s = s"
  using assms
proof (induction pat rep s rule: replace_all.induct)
  case (1 pat rep s)
  show ?case
  proof (cases s)
    case Nil
    with "1.prems" show ?thesis by (simp add: replace_all.simps)
  next
    case (Cons c cs)
    have "take (length pat) s \<noteq> pat"
    proof
      assume "take (length pat) s = pat"
      then have "hd pat = c" using Cons "1.prems"(1) by (cases pat) auto
      with "1.prems" Cons show False by simp
    qed
    with "1.IH"(2) [OF _ Cons] "1.prems" Cons show ?thesis
      by (subst replace_all.simps) simp
  qed
qed

lemma strip_sgr_sgr_append [simp]: "strip_sgr (sgr n @ x) = strip_sgr x"
proof -
  have "dropWhile dec_digit (nat_str n @ CHR ''m'' # x) = CHR ''m'' # x"
    using nat_str_digits [of n] by (simp add: dropWhile_append dec_digit_def)
  then show ?thesis by (simp add: sgr_def)
qed

lemma strip_sgr_sgr [simp]: "strip_sgr (sgr n) = []"
  using strip_sgr_sgr_append [of n "[]"] by simp

lemma strip_sgr_plain_append: "esc \<notin> set s \<Longrightarrow> strip_sgr (s @ x) = s @ strip_sgr x"
  by (induction s) auto

lemma strip_sgr_plain: "esc \<notin> set s \<Longrightarrow> strip_sgr s = s"
  using strip_sgr_plain_append [of s "[]"] by simp

lemma hd_sgr [simp]: "sgr n \<noteq> [] \<and> hd (sgr n) = esc"
  by (simp add: sgr_def)

text \<open>Removing the markers gives the text back, coloured or not.\<close>

lemma strip_sgr_style:
  assumes "esc \<notin> set s"
  shows "strip_sgr (chalk_style en st s) = s"
proof (cases "\<not> en \<or> s = []")
  case True
  with assms show ?thesis by (simp add: chalk_style_def strip_sgr_plain)
next
  case False
  have "replace_all (sgr (st_close st)) (sgr (st_open st)) s = s"
    using assms by (simp add: replace_all_no_esc)
  with False assms show ?thesis
    by (simp add: chalk_style_def strip_sgr_plain_append)
qed

lemma chalk_style_disabled: "chalk_style False st s = s"
  by (simp add: chalk_style_def)

lemma chalk_style_plain:
  "esc \<notin> set s \<Longrightarrow> s \<noteq> [] \<Longrightarrow>
   chalk_style True st s = sgr (st_open st) @ s @ sgr (st_close st)"
  by (simp add: chalk_style_def replace_all_no_esc)

end
