(* ===== verification/JsValues.thy ===== *)
theory JsValues
  imports Prelude
begin

text \<open>
  The part of JavaScript's semantics that \<open>src/index.js\<close> relies on: its values,
  the heap of objects they point into, property reads and strict-mode property writes
  (the file is \<open>'use strict'\<close>, line 5), \<open>typeof\<close>, the conversion of numbers to
  strings, the \<open>+\<close> of a value and a number (line 63), and the keys a \<open>for..in\<close>
  loop visits (line 46).

  Numbers are modelled by their integer values and \<open>NaN\<close>: the numbers the module
  handles are millisecond timestamps and configuration ids, which are integers well
  below \<open>2^53\<close>, where doubles are exact and print without an exponent.
  An object is its own enumerable property table, in enumeration order; prototypes
  are not modelled (configuration objects are plain objects).  Functions are the
  timestamp closure the module creates (lines 52--59) and any other function, which
  carries its source text.
\<close>

datatype closure =
    TimestampFn string jsval  \<comment> \<open>the closure of lines 52--59: captured \<open>format\<close> and \<open>transport\<close>\<close>
  | OtherFn string            \<comment> \<open>any other function, by its source text\<close>
and jsval =
    JUndef
  | JNull
  | JBool bool
  | JNum int
  | JNaN
  | JStr string
  | JObj addr
  | JFun closure

type_synonym obj = "(string \<times> jsval) list"

text \<open>The heap: objects by address, allocated in order and never freed.\<close>

type_synonym heap = "obj list"

datatype js_error =
    TypeErrorRead string jsval    \<comment> \<open>reading property \<open>k\<close> of \<open>null\<close> or \<open>undefined\<close>\<close>
  | TypeErrorWrite string jsval   \<comment> \<open>strict-mode write of property \<open>k\<close> to a primitive\<close>
  | TypeErrorArg string jsval     \<comment> \<open>Node's \<open>ERR_INVALID_ARG_TYPE\<close>: argument \<open>k\<close> is not a string\<close>

fun typeof :: "jsval \<Rightarrow> string" where
  "typeof JUndef = ''undefined''"
| "typeof JNull = ''object''"
| "typeof (JBool b) = ''boolean''"
| "typeof (JNum n) = ''number''"
| "typeof JNaN = ''number''"
| "typeof (JStr s) = ''string''"
| "typeof (JObj a) = ''object''"
| "typeof (JFun f) = ''function''"

subsection \<open>Conversion to strings and the \<open>+\<close> operator\<close>

definition int_str :: "int \<Rightarrow> string" where
  "int_str i = (if i < 0 then CHR ''-'' # nat_str (nat (- i)) else nat_str (nat i))"

fun fn_source :: "closure \<Rightarrow> string" where
  "fn_source (TimestampFn p a) = ''function(){ var str = dateFormat(new Date(), format); ... }''"
| "fn_source (OtherFn src) = src"

fun js_to_string :: "jsval \<Rightarrow> string" where
  "js_to_string JUndef = ''undefined''"
| "js_to_string JNull = ''null''"
| "js_to_string (JBool b) = (if b then ''true'' else ''false'')"
| "js_to_string (JNum n) = int_str n"
| "js_to_string JNaN = ''NaN''"
| "js_to_string (JStr s) = s"
| "js_to_string (JObj a) = ''[object Object]''"
| "js_to_string (JFun f) = fn_source f"

text \<open>
  \<open>v + t\<close> for a number \<open>t\<close>: string concatenation when \<open>v\<close> converts to a string
  primitive (strings, objects, functions), numeric addition otherwise
  (\<open>undefined\<close> becomes \<open>NaN\<close>, \<open>null\<close> becomes 0, booleans 0 or 1).
\<close>

fun js_add_num :: "jsval \<Rightarrow> int \<Rightarrow> jsval" where
  "js_add_num (JStr s) t = JStr (s @ int_str t)"
| "js_add_num (JObj a) t = JStr (js_to_string (JObj a) @ int_str t)"
| "js_add_num (JFun f) t = JStr (fn_source f @ int_str t)"
| "js_add_num (JNum n) t = JNum (n + t)"
| "js_add_num JNaN t = JNaN"
| "js_add_num JUndef t = JNaN"
| "js_add_num JNull t = JNum t"
| "js_add_num (JBool b) t = JNum (of_bool b + t)"

text \<open>Truthiness, and \<open>a || b\<close>: \<open>a\<close> when it is truthy, \<open>b\<close> otherwise.\<close>

fun js_truthy :: "jsval \<Rightarrow> bool" where
  "js_truthy JUndef \<longleftrightarrow> False"
| "js_truthy JNull \<longleftrightarrow> False"
| "js_truthy (JBool b) \<longleftrightarrow> b"
| "js_truthy (JNum n) \<longleftrightarrow> n \<noteq> 0"
| "js_truthy JNaN \<longleftrightarrow> False"
| "js_truthy (JStr s) \<longleftrightarrow> s \<noteq> []"
| "js_truthy (JObj a) \<longleftrightarrow> True"
| "js_truthy (JFun f) \<longleftrightarrow> True"

definition js_or :: "jsval \<Rightarrow> jsval \<Rightarrow> jsval" where
  "js_or a b = (if js_truthy a then a else b)"

subsection \<open>Objects on the heap\<close>

definition obj_at :: "heap \<Rightarrow> addr \<Rightarrow> obj" where
  "obj_at h a = (if a < length h then h ! a else [])"

definition string_index :: "string \<Rightarrow> string \<Rightarrow> nat option" where
  "string_index s k = find (\<lambda>i. nat_str i = k) [0..<length s]"

text \<open>Property read \<open>v[k]\<close>: a \<open>TypeError\<close> on \<open>null\<close> and \<open>undefined\<close>.\<close>

fun get_prop :: "heap \<Rightarrow> jsval \<Rightarrow> string \<Rightarrow> js_error + jsval" where
  "get_prop h JUndef k = Inl (TypeErrorRead k JUndef)"
| "get_prop h JNull k = Inl (TypeErrorRead k JNull)"
| "get_prop h (JObj a) k = Inr (case map_of (obj_at h a) k of None \<Rightarrow> JUndef | Some v \<Rightarrow> v)"
| "get_prop h (JStr s) k =
     Inr (if k = ''length'' then JNum (int (length s))
          else case string_index s k of Some i \<Rightarrow> JStr [s ! i] | None \<Rightarrow> JUndef)"
| "get_prop h (JBool b) k = Inr JUndef"
| "get_prop h (JNum n) k = Inr JUndef"
| "get_prop h JNaN k = Inr JUndef"
| "get_prop h (JFun f) k = Inr JUndef"

text \<open>
  Strict-mode property write \<open>v[k] = x\<close>: an object's table is updated in place (a
  new key goes last, an existing key keeps its position); a write to a primitive
  throws.  Functions carry no property table in this model: a write to one is dropped.
\<close>

fun put_prop :: "heap \<Rightarrow> jsval \<Rightarrow> string \<Rightarrow> jsval \<Rightarrow> js_error + heap" where
  "put_prop h (JObj a) k x = Inr (h[a := AList.update k x (obj_at h a)])"
| "put_prop h (JFun f) k x = Inr h"
| "put_prop h v k x = Inl (if v = JUndef \<or> v = JNull then TypeErrorRead k v else TypeErrorWrite k v)"

text \<open>The keys \<open>for (var n in v)\<close> visits: none for \<open>null\<close>, \<open>undefined\<close> and
  numbers, the indices of a string, the own enumerable keys of an object.\<close>

fun for_in_keys :: "heap \<Rightarrow> jsval \<Rightarrow> string list" where
  "for_in_keys h (JObj a) = map fst (obj_at h a)"
| "for_in_keys h (JStr s) = map nat_str [0..<length s]"
| "for_in_keys h v = []"

subsection \<open>Well-formed heaps\<close>

text \<open>Every address a value holds is allocated.\<close>

fun val_ok :: "heap \<Rightarrow> jsval \<Rightarrow> bool" where
  "val_ok h (JObj a) \<longleftrightarrow> a < length h"
| "val_ok h (JFun (TimestampFn p v)) \<longleftrightarrow> val_ok h v"
| "val_ok h v \<longleftrightarrow> True"

definition obj_ok :: "heap \<Rightarrow> obj \<Rightarrow> bool" where
  "obj_ok h ob \<longleftrightarrow> list_all (\<lambda>(k, v). val_ok h v) ob"

definition heap_ok :: "heap \<Rightarrow> bool" where
  "heap_ok h \<longleftrightarrow> list_all (obj_ok h) h"

subsection \<open>Lemmas\<close>

lemma int_str_inj: "int_str i = int_str j \<longleftrightarrow> i = j"
proof
  assume eq: "int_str i = int_str j"
  have hd_neg: "hd (int_str k) = CHR ''-'' \<longleftrightarrow> k < 0" for k
    by (simp add: int_str_def nat_str_hd_not_minus)
  show "i = j"
  proof (cases "i < 0")
    case True
    with eq hd_neg have "j < 0" by metis
    with True eq show ?thesis by (simp add: int_str_def nat_str_inj)
  next
    case False
    with eq hd_neg have "\<not> j < 0" by metis
    with False eq show ?thesis by (simp add: int_str_def nat_str_inj)
  qed
qed simp

lemma obj_at_update [js_simps]:
  "obj_at (h[a := ob]) b = (if a = b \<and> a < length h then ob else obj_at h b)"
  by (auto simp: obj_at_def)

lemma put_prop_obj_length [js_simps]:
  "put_prop h v k x = Inr h' \<Longrightarrow> length h' = length h"
  by (cases v) auto

lemma get_put_same [js_simps]:
  "a < length h \<Longrightarrow> put_prop h (JObj a) k x = Inr h' \<Longrightarrow> get_prop h' (JObj a) k = Inr x"
  by (auto simp: obj_at_update)

lemma get_put_other_addr [js_simps]:
  "b \<noteq> a \<Longrightarrow> put_prop h (JObj a) k x = Inr h' \<Longrightarrow> obj_at h' b = obj_at h b"
  by (auto simp: obj_at_update)

lemma get_put_other_key [js_simps]:
  "k' \<noteq> k \<Longrightarrow> put_prop h (JObj a) k x = Inr h' \<Longrightarrow>
   map_of (obj_at h' a) k' = map_of (obj_at h a) k'"
  by (auto simp: obj_at_update)

lemma val_ok_mono: "val_ok h v \<Longrightarrow> length h \<le> length h' \<Longrightarrow> val_ok h' v"
  by (induction h v rule: val_ok.induct) auto

lemma obj_ok_length: "length h' = length h \<Longrightarrow> obj_ok h' ob = obj_ok h ob"
proof -
  assume "length h' = length h"
  then have "val_ok h' v = val_ok h v" for v
    by (metis order_refl val_ok_mono)
  then show ?thesis by (simp add: obj_ok_def)
qed

lemma obj_ok_update:
  "obj_ok h ob \<Longrightarrow> val_ok h x \<Longrightarrow> obj_ok h (AList.update k x ob)"
proof (induction ob)
  case Nil
  then show ?case by (simp add: obj_ok_def)
next
  case (Cons p ob)
  then show ?case by (cases p) (auto simp: obj_ok_def)
qed

lemma obj_ok_obj_at: "heap_ok h \<Longrightarrow> obj_ok h (obj_at h a)"
  by (auto simp: heap_ok_def obj_at_def list_all_length obj_ok_def)

lemma heap_ok_put_prop:
  assumes "heap_ok h" "val_ok h x" "put_prop h v k x = Inr h'"
  shows "heap_ok h'"
proof (cases v)
  case (JObj a)
  with assms(3) have h': "h' = h[a := AList.update k x (obj_at h a)]" by simp
  have upd: "obj_ok h (AList.update k x (obj_at h a))"
    using obj_ok_update obj_ok_obj_at assms(1,2) by blast
  have len: "length h' = length h" using h' by simp
  have all: "\<forall>i<length h. obj_ok h (h ! i)"
    using assms(1) by (simp add: heap_ok_def list_all_length)
  have "obj_ok h (h' ! n)" if "n < length h" for n
    using that all upd unfolding h' by (cases "n = a") simp_all
  then have "list_all (obj_ok h) h'"
    using len by (simp add: list_all_length)
  moreover have "obj_ok h' = obj_ok h"
    using obj_ok_length [OF len] by (rule ext)
  ultimately show ?thesis by (simp add: heap_ok_def)
next
  case (JFun f)
  with assms show ?thesis by simp
qed (use assms(3) in simp_all)

lemma val_ok_get_prop:
  assumes ok: "heap_ok h" and g: "get_prop h v k = Inr x"
  shows "val_ok h x"
proof (cases v)
  case (JObj a)
  from ok have "obj_ok h (obj_at h a)" by (rule obj_ok_obj_at)
  then have "\<forall>(k', y) \<in> set (obj_at h a). val_ok h y" by (simp add: obj_ok_def list_all_iff)
  then have "map_of (obj_at h a) k = Some y \<Longrightarrow> val_ok h y" for y
    by (auto dest: map_of_SomeD)
  with g JObj show ?thesis by (simp split: option.splits)
next
  case (JStr s)
  with g show ?thesis by (auto split: if_splits option.splits)
qed (use g in simp_all)

lemma typeof_string_iff: "typeof v = ''string'' \<longleftrightarrow> (\<exists>s. v = JStr s)"
  by (cases v) simp_all

lemma js_to_string_add_str [js_simps]:
  "js_to_string (js_add_num (JStr s) t) = s @ int_str t"
  by simp

end
