(* ===== verification/TimestampRewrite.thy ===== *)
theory TimestampRewrite
  imports Chalk JsValues
begin

text \<open>
  The rewriting of the transports' \<open>timestamp\<close> options in \<open>_getLogger\<close>
  (\<open>src/index.js\<close>, lines 46--61) and the closure it installs (lines 52--59).
  Besides the definitions that follow the code, the theory has a reference loop,
  \<open>rewrite_ref\<close>, that reads every transport from the heap as it was before the
  loop started and applies the per-object rewrite \<open>rw_obj\<close> afterwards.  The loop
  of the code reads each transport from the heap its earlier iterations already
  changed; the equivalence theorem (claim C4) shows that this makes no difference,
  whatever the aliasing between the configuration's objects.
\<close>

subsection \<open>Timestamp rewriting (lines 46--61)\<close>

text \<open>
  The body of the immediately invoked function of lines 47--60, on one transport
  value: \<open>typeof format !== 'string'\<close> holds exactly when the value read is not a
  string (\<open>typeof_string_iff\<close>); otherwise the property is overwritten by the
  closure, which captures \<open>format\<close> and the \<open>transport\<close> reference.
\<close>

definition rewrite_transport :: "heap \<Rightarrow> jsval \<Rightarrow> js_error + heap" where
  "rewrite_transport h transport =
     (case get_prop h transport ''timestamp'' of
        Inl e \<Rightarrow> Inl e
      | Inr format \<Rightarrow>
          (case format of
             JStr pat \<Rightarrow> put_prop h transport ''timestamp'' (JFun (TimestampFn pat transport))
           | _ \<Rightarrow> Inr h))"

text \<open>
  The loop \<open>for (var n in logOptions)\<close>: the keys are taken when the loop starts,
  each \<open>logOptions[n]\<close> is read from the heap as it is when its turn comes, and the
  first throw ends the loop with the heap as the earlier iterations left it.
\<close>

fun rewrite_loop :: "jsval \<Rightarrow> string list \<Rightarrow> heap \<Rightarrow> js_error option \<times> heap" where
  "rewrite_loop logOptions [] h = (None, h)"
| "rewrite_loop logOptions (n # ns) h =
     (case get_prop h logOptions n of
        Inl e \<Rightarrow> (Some e, h)
      | Inr transport \<Rightarrow>
          (case rewrite_transport h transport of
             Inl e \<Rightarrow> (Some e, h)
           | Inr h' \<Rightarrow> rewrite_loop logOptions ns h'))"

subsection \<open>The timestamp closure (lines 52--59)\<close>

text \<open>
  Calling the closure \<open>TimestampFn format transport\<close> at time \<open>now\<close>: the date is
  formatted by the date-formatting collaborator \<open>dateFormat\<close> (a parameter), and
  \<open>transport.colorize\<close> is read from the heap at the time of the call.
  \<open>colors\<close> is chalk's colour support.
\<close>

definition timestamp_call ::
  "(int \<Rightarrow> string \<Rightarrow> string) \<Rightarrow> bool \<Rightarrow> heap \<Rightarrow> int \<Rightarrow> string \<Rightarrow> jsval \<Rightarrow> js_error + string" where
  "timestamp_call dateFormat colors h now format transport =
     (let str = dateFormat now format in
      case get_prop h transport ''colorize'' of
        Inl e \<Rightarrow> Inl e
      | Inr c \<Rightarrow> Inr (if c = JStr ''true'' then chalk_style colors gray str else str))"

subsection \<open>Reference: the rewrite of one object, and a loop over the initial heap\<close>

text \<open>What the loop does to one transport object at address \<open>a\<close>.\<close>

definition rw_obj :: "addr \<Rightarrow> obj \<Rightarrow> obj" where
  "rw_obj a ob =
     (case map_of ob ''timestamp'' of
        Some (JStr pat) \<Rightarrow> AList.update ''timestamp'' (JFun (TimestampFn pat (JObj a))) ob
      | _ \<Rightarrow> ob)"

definition rw_at :: "addr \<Rightarrow> heap \<Rightarrow> heap" where
  "rw_at a h = h[a := rw_obj a (obj_at h a)]"

definition rw_all :: "addr list \<Rightarrow> heap \<Rightarrow> heap" where
  "rw_all as h = fold rw_at as h"

text \<open>What one iteration does, by the transport value it reads: throw (\<open>null\<close>,
  \<open>undefined\<close>), rewrite an object, or nothing.\<close>

fun transport_effect :: "jsval \<Rightarrow> js_error + addr option" where
  "transport_effect JUndef = Inl (TypeErrorRead ''timestamp'' JUndef)"
| "transport_effect JNull = Inl (TypeErrorRead ''timestamp'' JNull)"
| "transport_effect (JObj a) = Inr (Some a)"
| "transport_effect (JBool b) = Inr None"
| "transport_effect (JNum n) = Inr None"
| "transport_effect JNaN = Inr None"
| "transport_effect (JStr s) = Inr None"
| "transport_effect (JFun f) = Inr None"

definition get_effect :: "heap \<Rightarrow> jsval \<Rightarrow> string \<Rightarrow> js_error + addr option" where
  "get_effect h v k = (case get_prop h v k of Inl e \<Rightarrow> Inl e | Inr x \<Rightarrow> transport_effect x)"

text \<open>The reference loop reads every transport from the initial heap \<open>h\<close> and
  returns the first error, if any, and the objects to rewrite.\<close>

fun rewrite_ref :: "jsval \<Rightarrow> string list \<Rightarrow> heap \<Rightarrow> js_error option \<times> addr list" where
  "rewrite_ref logOptions [] h = (None, [])"
| "rewrite_ref logOptions (n # ns) h =
     (case get_effect h logOptions n of
        Inl e \<Rightarrow> (Some e, [])
      | Inr t \<Rightarrow>
          (case rewrite_ref logOptions ns h of
             (e, as) \<Rightarrow> (e, (case t of None \<Rightarrow> as | Some a \<Rightarrow> a # as))))"

subsection \<open>Lemmas\<close>

lemma string_index_timestamp: "string_index s ''timestamp'' = None"
proof -
  have "nat_str i \<noteq> ''timestamp''" for i
  proof
    assume "nat_str i = ''timestamp''"
    then have "CHR ''t'' \<in> set (nat_str i)" by simp
    with nat_str_digits [of i] show False by (auto simp: dec_digit_def)
  qed
  then show ?thesis by (simp add: string_index_def find_None_iff)
qed

lemma rw_obj_nil [simp]: "rw_obj a [] = []"
  by (simp add: rw_obj_def)

lemma rw_obj_idem [simp]: "rw_obj a (rw_obj a ob) = rw_obj a ob"
  by (auto simp: rw_obj_def split: option.splits jsval.splits)

lemma update_obj_at_id [simp]: "h[a := obj_at h a] = h"
  by (cases "a < length h") (simp_all add: obj_at_def list_update_beyond)

lemma obj_at_rw_at: "obj_at (rw_at a h) b = (if b = a then rw_obj a (obj_at h a) else obj_at h b)"
  by (auto simp: rw_at_def obj_at_update) (simp add: obj_at_def)

lemma length_rw_at [simp]: "length (rw_at a h) = length h"
  by (simp add: rw_at_def)

lemma length_rw_all [simp]: "length (rw_all as h) = length h"
  by (induction as arbitrary: h) (simp_all add: rw_all_def)

lemma rw_all_Cons: "rw_all (a # as) h = rw_all as (rw_at a h)"
  by (simp add: rw_all_def)

lemma rw_all_append: "rw_all (as @ bs) h = rw_all bs (rw_all as h)"
  by (simp add: rw_all_def)

lemma obj_at_rw_all:
  "obj_at (rw_all as h) b = (if b \<in> set as then rw_obj b (obj_at h b) else obj_at h b)"
  by (induction as arbitrary: h) (auto simp: rw_all_def obj_at_rw_at)

text \<open>One transport, by its effect.\<close>

lemma rewrite_transport_effect:
  "rewrite_transport h v =
     (case transport_effect v of
        Inl e \<Rightarrow> Inl e
      | Inr None \<Rightarrow> Inr h
      | Inr (Some a) \<Rightarrow> Inr (rw_at a h))"
proof (cases v)
  case (JObj a)
  show ?thesis
  proof (cases "a < length h")
    case True
    with JObj show ?thesis
      by (auto simp: rewrite_transport_def rw_at_def rw_obj_def split: option.splits jsval.splits)
  next
    case False
    then have "obj_at h a = []" and "rw_at a h = h"
      by (simp_all add: obj_at_def rw_at_def list_update_beyond)
    with JObj show ?thesis by (simp add: rewrite_transport_def)
  qed
next
  case (JStr s)
  then show ?thesis by (simp add: rewrite_transport_def string_index_timestamp)
qed (simp_all add: rewrite_transport_def)

lemma rewrite_loop_Cons_effect:
  "rewrite_loop logOptions (n # ns) h =
     (case get_effect h logOptions n of
        Inl e \<Rightarrow> (Some e, h)
      | Inr None \<Rightarrow> rewrite_loop logOptions ns h
      | Inr (Some a) \<Rightarrow> rewrite_loop logOptions ns (rw_at a h))"
  by (auto simp: get_effect_def rewrite_transport_effect split: sum.splits option.splits)

text \<open>Rewriting an object changes a string \<open>timestamp\<close> into a function and
  nothing else, so what a later iteration does is what it would have done on the
  initial heap.\<close>

lemma transport_effect_rw_obj:
  "(case map_of (rw_obj a ob) k of None \<Rightarrow> JUndef | Some v \<Rightarrow> v) = x \<Longrightarrow>
   transport_effect x = transport_effect (case map_of ob k of None \<Rightarrow> JUndef | Some v \<Rightarrow> v)"
  by (cases "k = ''timestamp''")
     (auto simp: rw_obj_def update_conv' split: option.splits jsval.splits)

lemma get_effect_rw_at: "get_effect (rw_at a h) v k = get_effect h v k"
proof (cases v)
  case (JObj b)
  show ?thesis
  proof (cases "b = a")
    case True
    with JObj show ?thesis
      by (simp add: get_effect_def obj_at_rw_at transport_effect_rw_obj)
  next
    case False
    with JObj show ?thesis by (simp add: get_effect_def obj_at_rw_at)
  qed
qed (simp_all add: get_effect_def)

lemma get_effect_rw_all: "get_effect (rw_all as h) v k = get_effect h v k"
  by (induction as arbitrary: h) (simp_all add: rw_all_Cons get_effect_rw_at rw_all_def)

lemma rewrite_loop_ref_gen:
  "rewrite_loop logOptions ns (rw_all as0 h) =
     (case rewrite_ref logOptions ns h of (e, as) \<Rightarrow> (e, rw_all (as0 @ as) h))"
proof (induction ns arbitrary: as0)
  case Nil
  then show ?case by simp
next
  case (Cons n ns)
  have IH_a: "rewrite_loop logOptions ns (rw_at a (rw_all as0 h)) =
      (case rewrite_ref logOptions ns h of (e, as) \<Rightarrow> (e, rw_all ((as0 @ [a]) @ as) h))" for a
    using Cons.IH [of "as0 @ [a]"] by (simp add: rw_all_append rw_all_def)
  show ?case
    unfolding rewrite_loop_Cons_effect get_effect_rw_all
    by (auto simp: Cons.IH IH_a split: sum.splits option.splits prod.splits)
qed

lemma rewrite_ref_addr:
  "rewrite_ref logOptions ns h = (None, as) \<Longrightarrow> n \<in> set ns \<Longrightarrow>
   get_effect h logOptions n = Inr (Some a) \<Longrightarrow> a \<in> set as"
  by (induction ns arbitrary: as) (auto split: sum.splits option.splits prod.splits)

lemma rewrite_ref_rewrites:
  "rewrite_ref logOptions ns h = (e, as) \<Longrightarrow> a \<in> set as \<Longrightarrow>
   \<exists>n \<in> set ns. get_effect h logOptions n = Inr (Some a)"
  by (induction ns arbitrary: e as) (auto split: sum.splits option.splits prod.splits)

lemma rewrite_ref_ok_iff:
  "fst (rewrite_ref logOptions ns h) = None \<longleftrightarrow> (\<forall>n \<in> set ns. \<not> isl (get_effect h logOptions n))"
  by (induction ns) (auto split: sum.splits option.splits prod.splits)

lemma rw_obj_other: "(\<nexists>pat. map_of ob ''timestamp'' = Some (JStr pat)) \<Longrightarrow> rw_obj a ob = ob"
  by (auto simp: rw_obj_def split: option.splits jsval.splits)

lemma get_effect_obj:
  "get_prop h v n = Inr (JObj a) \<Longrightarrow> get_effect h v n = Inr (Some a)"
  by (simp add: get_effect_def)

text \<open>The objects a loop over \<open>ks1 @ ks2\<close> rewrites include those of a prefix
  \<open>ks1\<close> that does not throw.\<close>

lemma rewrite_ref_prefix:
  "(\<forall>k \<in> set ks1. \<not> isl (get_effect h lo k)) \<Longrightarrow> m \<in> set ks1 \<Longrightarrow>
   get_effect h lo m = Inr (Some a) \<Longrightarrow> a \<in> set (snd (rewrite_ref lo (ks1 @ ks2) h))"
  by (induction ks1) (auto split: sum.splits option.splits prod.splits)

lemma heap_eqI: "length h1 = length h2 \<Longrightarrow> (\<forall>b. obj_at h1 b = obj_at h2 b) \<Longrightarrow> h1 = h2"
  by (metis nth_equalityI obj_at_def)

lemma rw_all_idem [simp]: "rw_all as (rw_all as h) = rw_all as h"
  by (rule heap_eqI) (simp_all add: obj_at_rw_all)

lemma rw_obj_keys [simp]: "map fst (rw_obj a ob) = map fst ob"
proof (cases "map_of ob ''timestamp''")
  case (Some v)
  then have "''timestamp'' \<in> fst ` set ob" by (metis map_of_eq_None_iff option.distinct(1))
  then show ?thesis by (auto simp: rw_obj_def split: option.splits jsval.splits)
qed (simp add: rw_obj_def)

text \<open>A completed loop, run again on the heap it produced, changes nothing: the
  closures it installed are not strings.\<close>

lemma rewrite_loop_idem:
  assumes "rewrite_loop lo ks h = (None, h')"
  shows "rewrite_loop lo ks h' = (None, h')"
proof -
  obtain as where ref: "rewrite_ref lo ks h = (None, as)" and h': "h' = rw_all as h"
    using assms rewrite_loop_ref_gen [of lo ks "[]" h] by (auto simp: rw_all_def split: prod.splits)
  show ?thesis
    using rewrite_loop_ref_gen [of lo ks as h] ref h' by (simp add: rw_all_append)
qed

subsection \<open>Properties of the loop\<close>

text \<open>C4: the loop of the code, which reads every transport from the heap the earlier
  iterations changed, does what the reference loop over the initial heap does: the
  same error, if any, and the rewrite of the same objects.\<close>

theorem rewrite_loop_eq_ref:
  "rewrite_loop logOptions ns h =
     (case rewrite_ref logOptions ns h of (e, as) \<Rightarrow> (e, rw_all as h))"
  using rewrite_loop_ref_gen [of logOptions ns "[]" h] by (simp add: rw_all_def)

lemma rewrite_loop_obj_at:
  "rewrite_loop logOptions ns h = (e, h') \<Longrightarrow>
   \<exists>as. rewrite_ref logOptions ns h = (e, as) \<and>
        (\<forall>b. obj_at h' b = (if b \<in> set as then rw_obj b (obj_at h b) else obj_at h b))"
  using rewrite_loop_ref_gen [of logOptions ns "[]" h]
  by (auto simp: rw_all_def obj_at_rw_all [unfolded rw_all_def] split: prod.splits)

text \<open>After a completed loop, a transport it visited is the rewrite of what it was.\<close>

lemma rewrite_loop_visited:
  assumes "rewrite_loop lo ns h = (None, h')" and "n \<in> set ns" and "get_prop h lo n = Inr (JObj a)"
  shows "obj_at h' a = rw_obj a (obj_at h a)"
proof -
  obtain as where ref: "rewrite_ref lo ns h = (None, as)"
    and at: "\<forall>b. obj_at h' b = (if b \<in> set as then rw_obj b (obj_at h b) else obj_at h b)"
    using rewrite_loop_obj_at [OF assms(1)] by blast
  have "a \<in> set as" using rewrite_ref_addr [OF ref assms(2) get_effect_obj [OF assms(3)]] .
  with at show ?thesis by simp
qed

lemma for_in_keys_rewrite_loop:
  "rewrite_loop lo ks h = (e, h') \<Longrightarrow> for_in_keys h' v = for_in_keys h v"
  by (drule rewrite_loop_obj_at) (cases v; auto)

text \<open>C5: when the loop completes, every transport whose \<open>timestamp\<close> was a string
  pattern holds the closure of that pattern over the transport itself.\<close>

theorem rewrite_loop_string_timestamp:
  assumes "rewrite_loop logOptions ns h = (None, h')"
    and "n \<in> set ns" and "get_prop h logOptions n = Inr (JObj a)"
    and "map_of (obj_at h a) ''timestamp'' = Some (JStr pat)"
  shows "get_prop h' (JObj a) ''timestamp'' = Inr (JFun (TimestampFn pat (JObj a)))"
  using rewrite_loop_visited [OF assms(1-3)] assms(4) by (simp add: rw_obj_def)

theorem rewrite_loop_string_timestamp_witness:
  "rewrite_loop (JObj 0) [''console''] [[(''console'', JObj 1)], [(''timestamp'', JStr ''HH'')]]
     = (None, [[(''console'', JObj 1)], [(''timestamp'', JFun (TimestampFn ''HH'' (JObj 1)))]]) \<and>
   ''console'' \<in> set [''console''] \<and>
   get_prop [[(''console'', JObj 1)], [(''timestamp'', JStr ''HH'')]] (JObj 0) ''console'' = Inr (JObj 1) \<and>
   map_of (obj_at [[(''console'', JObj 1)], [(''timestamp'', JStr ''HH'')]] 1) ''timestamp'' = Some (JStr ''HH'') \<and>
   get_prop [[(''console'', JObj 1)], [(''timestamp'', JFun (TimestampFn ''HH'' (JObj 1)))]] (JObj 1) ''timestamp''
     = Inr (JFun (TimestampFn ''HH'' (JObj 1)))"
proof -
  have run: "rewrite_loop (JObj 0) [''console''] [[(''console'', JObj 1)], [(''timestamp'', JStr ''HH'')]]
     = (None, [[(''console'', JObj 1)], [(''timestamp'', JFun (TimestampFn ''HH'' (JObj 1)))]])"
    by (simp add: rewrite_transport_def obj_at_def)
  have get: "get_prop [[(''console'', JObj 1)], [(''timestamp'', JStr ''HH'')]] (JObj 0) ''console'' = Inr (JObj 1)"
    by (simp add: obj_at_def)
  have ts: "map_of (obj_at [[(''console'', JObj 1)], [(''timestamp'', JStr ''HH'')]] 1) ''timestamp'' = Some (JStr ''HH'')"
    by (simp add: obj_at_def)
  show ?thesis
    using run get ts rewrite_loop_string_timestamp [OF run _ get ts] by simp
qed

text \<open>C6: an object whose \<open>timestamp\<close> is not a string is left exactly as it was, also
  when the loop throws.\<close>

theorem rewrite_loop_keeps_nonstring:
  assumes "rewrite_loop logOptions ns h = (e, h')"
    and "\<nexists>pat. map_of (obj_at h b) ''timestamp'' = Some (JStr pat)"
  shows "obj_at h' b = obj_at h b"
  using rewrite_loop_obj_at [OF assms(1)] rw_obj_other [OF assms(2)] by auto

theorem rewrite_loop_keeps_nonstring_witness:
  "rewrite_loop (JObj 0) [''file''] [[(''file'', JObj 1)], [(''timestamp'', JBool True)]]
     = (None, [[(''file'', JObj 1)], [(''timestamp'', JBool True)]]) \<and>
   (\<nexists>pat. map_of (obj_at [[(''file'', JObj 1)], [(''timestamp'', JBool True)]] 1) ''timestamp'' = Some (JStr pat)) \<and>
   obj_at [[(''file'', JObj 1)], [(''timestamp'', JBool True)]] 1 = [(''timestamp'', JBool True)]"
proof -
  have run: "rewrite_loop (JObj 0) [''file''] [[(''file'', JObj 1)], [(''timestamp'', JBool True)]]
     = (None, [[(''file'', JObj 1)], [(''timestamp'', JBool True)]])"
    by (simp add: rewrite_transport_def obj_at_def)
  have ns: "\<nexists>pat. map_of (obj_at [[(''file'', JObj 1)], [(''timestamp'', JBool True)]] 1) ''timestamp'' = Some (JStr pat)"
    by (simp add: obj_at_def)
  show ?thesis
    using run ns rewrite_loop_keeps_nonstring [OF run ns] by (simp add: obj_at_def)
qed

text \<open>C7: the loop throws exactly when one of the transports, read from the initial
  heap, is \<open>null\<close> or \<open>undefined\<close>; the throw is the \<open>TypeError\<close> of reading its
  \<open>timestamp\<close>.\<close>

theorem rewrite_loop_throws_iff:
  "fst (rewrite_loop logOptions ns h) = None \<longleftrightarrow>
   (\<forall>n \<in> set ns. \<not> isl (get_effect h logOptions n))"
  using rewrite_loop_ref_gen [of logOptions ns "[]" h]
  by (simp add: rw_all_def rewrite_ref_ok_iff [symmetric] split: prod.splits)

theorem rewrite_loop_throws_iff_witness:
  "fst (rewrite_loop (JObj 0) [''console''] [[(''console'', JNull)]]) \<noteq> None \<and>
   \<not> (\<forall>n \<in> set [''console'']. \<not> isl (get_effect [[(''console'', JNull)]] (JObj 0) n))"
proof -
  have l: "fst (rewrite_loop (JObj 0) [''console''] [[(''console'', JNull)]]) \<noteq> None"
    by (simp add: rewrite_transport_def obj_at_def)
  have "\<not> (\<forall>n \<in> set [''console'']. \<not> isl (get_effect [[(''console'', JNull)]] (JObj 0) n))"
    using l unfolding rewrite_loop_throws_iff [of "JObj 0" "[''console'']" "[[(''console'', JNull)]]", symmetric]
    by simp
  with l show ?thesis by blast
qed

subsection \<open>Properties of the closure\<close>

text \<open>C8: with \<open>colorize\<close> equal to the string \<open>'true'\<close>, the closure returns the
  formatted date in gray markers (with colours on and a non-empty date without
  escape characters, exactly the gray opening code, the date and the closing code).\<close>

theorem timestamp_call_colorized:
  assumes "get_prop h transport ''colorize'' = Inr (JStr ''true'')"
    and "esc \<notin> set (dateFormat now format)" and "dateFormat now format \<noteq> []"
  shows "timestamp_call dateFormat True h now format transport =
           Inr (sgr 90 @ dateFormat now format @ sgr 39)"
  using assms by (simp add: timestamp_call_def chalk_style_plain gray_def)

theorem timestamp_call_colorized_witness:
  "get_prop [[(''colorize'', JStr ''true'')]] (JObj 0) ''colorize'' = Inr (JStr ''true'') \<and>
   esc \<notin> set ((\<lambda>t p. p) (0::int) ''HH:MM'') \<and> (\<lambda>t p. p) (0::int) ''HH:MM'' \<noteq> [] \<and>
   timestamp_call (\<lambda>t p. p) True [[(''colorize'', JStr ''true'')]] 0 ''HH:MM'' (JObj 0) =
     Inr (sgr 90 @ ''HH:MM'' @ sgr 39)"
proof -
  have g: "get_prop [[(''colorize'', JStr ''true'')]] (JObj 0) ''colorize'' = Inr (JStr ''true'')"
    by (simp add: obj_at_def)
  have e: "esc \<notin> set ((\<lambda>t p. p) (0::int) ''HH:MM'')" by (simp add: esc_def)
  have n: "(\<lambda>t p. p) (0::int) ''HH:MM'' \<noteq> []" by simp
  show ?thesis
    using g e n timestamp_call_colorized [where dateFormat = "\<lambda>t p. p" and now = 0
        and format = "''HH:MM''", OF g e n] by simp
qed

text \<open>C9: with any other \<open>colorize\<close> value, the boolean \<open>true\<close> included, the closure
  returns exactly the formatted date.\<close>

theorem timestamp_call_plain:
  assumes "get_prop h transport ''colorize'' = Inr c" and "c \<noteq> JStr ''true''"
  shows "timestamp_call dateFormat colors h now format transport = Inr (dateFormat now format)"
  using assms by (simp add: timestamp_call_def)

theorem timestamp_call_plain_witness:
  "get_prop [[(''colorize'', JBool True)]] (JObj 0) ''colorize'' = Inr (JBool True) \<and>
   JBool True \<noteq> JStr ''true'' \<and>
   timestamp_call (\<lambda>t p. p) True [[(''colorize'', JBool True)]] 0 ''HH:MM'' (JObj 0) = Inr ''HH:MM''"
proof -
  have g: "get_prop [[(''colorize'', JBool True)]] (JObj 0) ''colorize'' = Inr (JBool True)"
    by (simp add: obj_at_def)
  have c: "JBool True \<noteq> JStr ''true''" by simp
  show ?thesis using g c timestamp_call_plain [OF g c, of "\<lambda>t p. p" True 0 "''HH:MM''"] by simp
qed

end
