(* ===== verification/TimestampPolicy.thy ===== *)
theory TimestampPolicy
  imports TimestampRewrite
begin

text \<open>
  Section 9 of the spec describes the timestamp rewriting of \<open>_getLogger\<close> as a
  policy resolved once, at construction: \<open>Raw\<close> for a transport whose timestamp is
  left alone, \<open>Formatted pattern colorized\<close> otherwise, rendered per log line by a
  pure function.  This theory states that design (\<open>timestamp_policy\<close>, the
  abstraction \<open>policy_of\<close> of a transport object as it is before the loop, and
  \<open>render_timestamp\<close>) and relates it to the code: what the backend obtains from a
  transport's \<open>timestamp\<close> option when it writes a line (\<open>stamp_at\<close>) is the
  rendering of the policy resolved when the logger was built, provided the
  transport's \<open>colorize\<close> has not changed since (claim C10 shows that otherwise the stamp departs from the policy) and
  its \<open>timestamp\<close> option is the one the loop left.
\<close>

datatype timestamp_policy = Raw | Formatted string bool

definition policy_of :: "obj \<Rightarrow> timestamp_policy" where
  "policy_of ob =
     (case map_of ob ''timestamp'' of
        Some (JStr pat) \<Rightarrow> Formatted pat (map_of ob ''colorize'' = Some (JStr ''true''))
      | _ \<Rightarrow> Raw)"

definition render_timestamp ::
  "(int \<Rightarrow> string \<Rightarrow> string) \<Rightarrow> bool \<Rightarrow> timestamp_policy \<Rightarrow> int \<Rightarrow> string option" where
  "render_timestamp dateFormat colors pol now =
     (case pol of
        Raw \<Rightarrow> None
      | Formatted pat c \<Rightarrow>
          Some (if c then chalk_style colors gray (dateFormat now pat) else dateFormat now pat))"

text \<open>The backend, writing a line on the transport object at \<open>a\<close>, calls the
  transport's \<open>timestamp\<close> option when it is the closure of lines 52--59 (a
  zero-argument function, section 4.2); other values give no stamp of this module.\<close>

definition stamp_at ::
  "(int \<Rightarrow> string \<Rightarrow> string) \<Rightarrow> bool \<Rightarrow> heap \<Rightarrow> int \<Rightarrow> addr \<Rightarrow> (js_error + string) option" where
  "stamp_at dateFormat colors h now a =
     (case map_of (obj_at h a) ''timestamp'' of
        Some (JFun (TimestampFn pat t)) \<Rightarrow> Some (timestamp_call dateFormat colors h now pat t)
      | _ \<Rightarrow> None)"

text \<open>A transport object that holds none of the module's closures yet.\<close>

definition no_closure :: "obj \<Rightarrow> bool" where
  "no_closure ob \<longleftrightarrow>
     (case map_of ob ''timestamp'' of Some (JFun (TimestampFn pat t)) \<Rightarrow> False | _ \<Rightarrow> True)"

subsection \<open>Lemmas\<close>

text \<open>The refinement on one object: the object the loop made of \<open>ob\<close>, read later
  with the same \<open>colorize\<close>, stamps as the policy of \<open>ob\<close> renders.\<close>

lemma stamp_at_rw_obj:
  assumes "no_closure ob"
    and "map_of (obj_at h2 a) ''timestamp'' = map_of (rw_obj a ob) ''timestamp''"
    and "map_of (obj_at h2 a) ''colorize'' = map_of ob ''colorize''"
  shows "stamp_at dateFormat colors h2 now a =
           map_option Inr (render_timestamp dateFormat colors (policy_of ob) now)"
proof (cases "map_of ob ''timestamp''")
  case (Some v)
  then show ?thesis
  proof (cases v)
    case (JStr pat)
    with Some assms(2,3) show ?thesis
      by (auto simp: stamp_at_def rw_obj_def policy_of_def render_timestamp_def timestamp_call_def
          Let_def split: option.splits)
  next
    case (JFun f)
    with Some assms show ?thesis
      by (cases f) (auto simp: stamp_at_def rw_obj_def policy_of_def render_timestamp_def no_closure_def)
  qed (use Some assms(2) in \<open>auto simp: stamp_at_def rw_obj_def policy_of_def render_timestamp_def\<close>)
qed (use assms(2) in \<open>auto simp: stamp_at_def rw_obj_def policy_of_def render_timestamp_def\<close>)

subsection \<open>Colour read at call time\<close>

text \<open>C10: the closure reads \<open>colorize\<close> when it is called, not when it is installed,
  so the code departs from the policy of section 9 as soon as \<open>colorize\<close> changes:
  for a transport the completed loop rewrote while its \<open>colorize\<close> was not
  \<open>'true'\<close>, setting \<open>colorize\<close> to \<open>'true'\<close> later makes the stamp the backend
  gets gray, while the policy resolved at construction renders the plain date.\<close>

theorem colorize_change_departs_from_policy:
  assumes "rewrite_loop lo ns h = (None, h')" and "n \<in> set ns"
    and "get_prop h lo n = Inr (JObj a)"
    and "policy_of (obj_at h a) = Formatted pat False"
    and "map_of (obj_at hl a) ''timestamp'' = map_of (obj_at h' a) ''timestamp''"
    and "map_of (obj_at hl a) ''colorize'' = Some (JStr ''true'')"
  shows "stamp_at dateFormat colors hl now a = Some (Inr (chalk_style colors gray (dateFormat now pat))) \<and>
         render_timestamp dateFormat colors (policy_of (obj_at h a)) now = Some (dateFormat now pat)"
proof -
  have ts: "map_of (obj_at h a) ''timestamp'' = Some (JStr pat)"
    using assms(4) by (auto simp: policy_of_def split: option.splits jsval.splits)
  have "obj_at h' a = rw_obj a (obj_at h a)" using rewrite_loop_visited [OF assms(1-3)] .
  with ts assms(5) have "map_of (obj_at hl a) ''timestamp'' = Some (JFun (TimestampFn pat (JObj a)))"
    by (simp add: rw_obj_def)
  with assms(4,6) show ?thesis
    by (simp add: stamp_at_def timestamp_call_def render_timestamp_def)
qed

theorem colorize_change_departs_from_policy_witness:
  "rewrite_loop (JObj 0) [''console''] [[(''console'', JObj 1)], [(''timestamp'', JStr ''HH''), (''colorize'', JStr ''false'')]]
     = (None, [[(''console'', JObj 1)], [(''timestamp'', JFun (TimestampFn ''HH'' (JObj 1))), (''colorize'', JStr ''false'')]]) \<and>
   policy_of (obj_at [[(''console'', JObj 1)], [(''timestamp'', JStr ''HH''), (''colorize'', JStr ''false'')]] 1) = Formatted ''HH'' False \<and>
   stamp_at (\<lambda>t p. p) True [[(''console'', JObj 1)], [(''timestamp'', JFun (TimestampFn ''HH'' (JObj 1))), (''colorize'', JStr ''true'')]] 0 1
     = Some (Inr (chalk_style True gray ''HH'')) \<and>
   chalk_style True gray ''HH'' \<noteq> ''HH''"
proof -
  have run: "rewrite_loop (JObj 0) [''console''] [[(''console'', JObj 1)], [(''timestamp'', JStr ''HH''), (''colorize'', JStr ''false'')]]
     = (None, [[(''console'', JObj 1)], [(''timestamp'', JFun (TimestampFn ''HH'' (JObj 1))), (''colorize'', JStr ''false'')]])"
    by (simp add: rewrite_transport_def obj_at_def)
  have g: "get_prop [[(''console'', JObj 1)], [(''timestamp'', JStr ''HH''), (''colorize'', JStr ''false'')]] (JObj 0) ''console'' = Inr (JObj 1)"
    by (simp add: obj_at_def)
  have p: "policy_of (obj_at [[(''console'', JObj 1)], [(''timestamp'', JStr ''HH''), (''colorize'', JStr ''false'')]] 1) = Formatted ''HH'' False"
    by (simp add: policy_of_def obj_at_def)
  have "stamp_at (\<lambda>t p. p) True [[(''console'', JObj 1)], [(''timestamp'', JFun (TimestampFn ''HH'' (JObj 1))), (''colorize'', JStr ''true'')]] 0 1
     = Some (Inr (chalk_style True gray ''HH''))"
    using colorize_change_departs_from_policy [OF run _ g p, where
        hl = "[[(''console'', JObj 1)], [(''timestamp'', JFun (TimestampFn ''HH'' (JObj 1))), (''colorize'', JStr ''true'')]]"
        and dateFormat = "\<lambda>t p. p" and colors = True and now = 0]
    by (simp add: obj_at_def)
  moreover have "chalk_style True gray ''HH'' \<noteq> ''HH''"
    by (simp add: chalk_style_def gray_def sgr_def)
  ultimately show ?thesis using run p by simp
qed

end
