(* ===== verification/Winston.thy ===== *)
theory Winston
  imports JsValues
begin

text \<open>
  The logging backend (the \<open>winston\<close> package, required at line 8 of
  \<open>src/index.js\<close>; not part of this repository, so modelled from the spec's
  interface, section 6 and 9).  The process-wide registry \<open>winston.loggers\<close> maps a
  logger id (a property key, so the id converted to a string) to a logger;
  \<open>add(id, options)\<close> retrieves the logger already registered under that key, or
  creates and registers one with the given options.  A logger's \<open>log\<close> method is
  observed as a call record appended to the sequence of calls the backend received;
  what the transports then write is the backend's business and not modelled.
\<close>

record logger =
  lg_name :: string
  lg_opts :: jsval

type_synonym registry = "string \<rightharpoonup> logger"

definition loggers_add :: "registry \<Rightarrow> jsval \<Rightarrow> jsval \<Rightarrow> logger \<times> registry" where
  "loggers_add reg logId options =
     (let k = js_to_string logId in
      case reg k of
        Some l \<Rightarrow> (l, reg)
      | None \<Rightarrow> (let l = \<lparr>lg_name = k, lg_opts = options\<rparr> in (l, reg(k \<mapsto> l))))"

record log_call =
  call_logger :: string
  call_args :: "jsval list"

definition logger_log :: "logger \<Rightarrow> jsval list \<Rightarrow> log_call list \<Rightarrow> log_call list" where
  "logger_log l args calls = calls @ [\<lparr>call_logger = lg_name l, call_args = args\<rparr>]"

text \<open>Every registered logger is registered under its own name.\<close>

definition reg_ok :: "registry \<Rightarrow> bool" where
  "reg_ok reg \<longleftrightarrow> (\<forall>k l. reg k = Some l \<longrightarrow> lg_name l = k)"

subsection \<open>Lemmas\<close>

lemma loggers_add_registered:
  "loggers_add reg logId opts = (l, reg') \<Longrightarrow> reg' (js_to_string logId) = Some l"
  by (auto simp: loggers_add_def Let_def split: option.splits)

lemma loggers_add_grows:
  "loggers_add reg logId opts = (l, reg') \<Longrightarrow> reg \<subseteq>\<^sub>m reg'"
  by (auto simp: loggers_add_def Let_def map_le_upd_fresh split: option.splits)

lemma loggers_add_existing:
  "reg (js_to_string logId) = Some l \<Longrightarrow> loggers_add reg logId opts = (l, reg)"
  by (simp add: loggers_add_def)

lemma loggers_add_fresh:
  "reg (js_to_string logId) = None \<Longrightarrow>
   loggers_add reg logId opts =
     (\<lparr>lg_name = js_to_string logId, lg_opts = opts\<rparr>,
      reg(js_to_string logId \<mapsto> \<lparr>lg_name = js_to_string logId, lg_opts = opts\<rparr>))"
  by (simp add: loggers_add_def Let_def)

lemma reg_ok_add:
  "loggers_add reg logId opts = (l, reg') \<Longrightarrow> reg_ok reg \<Longrightarrow> reg_ok reg'"
  by (auto simp: loggers_add_def Let_def reg_ok_def split: option.splits if_splits)

lemma loggers_add_name:
  "loggers_add reg logId opts = (l, reg') \<Longrightarrow> reg_ok reg \<Longrightarrow> lg_name l = js_to_string logId"
  by (auto simp: loggers_add_def Let_def reg_ok_def split: option.splits)

end
