(* ===== verification/LoggerPlugin.thy ===== *)
theory LoggerPlugin
  imports TimestampPolicy Winston
begin

text \<open>
  The logger facade of \<open>src/index.js\<close> (\<open>LoggerPlugin\<close>, lines 32--110).
  A facade object holds its configuration and the cached logger (\<open>this._logger\<close>,
  \<open>null\<close> until the first log call); the rest of the world it touches is the heap of
  configuration objects, the backend's logger registry, the clock read by
  \<open>new Date()\<close> and the sequence of calls the backend's loggers received.
  Every method takes the facade and the world and returns its outcome (a
  \<open>js_error\<close> when it throws), the facade and the world afterwards: a throw does not
  undo the mutations made before it.

  The configuration collaborator is a record of the value of \<open>config.id\<close> and of
  the value \<open>config.get('log', {recursive: true})\<close> returns, which points into the
  heap; a change of the configuration's data between calls is a change of the heap.
  The \<open>helper\<close> field (line 35) is the same constant object for every facade and is
  modelled in theory \<open>Helper\<close>.
\<close>

record config =
  cfg_id :: jsval
  cfg_log :: jsval

record plugin =
  config :: config
  logger_slot :: "logger option"

record world =
  heap :: heap
  registry :: registry
  clock :: int
  emitted :: "log_call list"

type_synonym 'a outcome = "(js_error + 'a) \<times> plugin \<times> world"

subsection \<open>Construction (lines 32--36)\<close>

definition new_plugin :: "config \<Rightarrow> plugin" where
  "new_plugin cfg = \<lparr>config = cfg, logger_slot = None\<rparr>"

subsection \<open>The logger (lines 38--67)\<close>

definition log_id :: "config \<Rightarrow> int \<Rightarrow> jsval" where
  "log_id cfg now = js_add_num (cfg_id cfg) now"

definition get_logger :: "plugin \<Rightarrow> world \<Rightarrow> logger outcome" where
  "get_logger p w =
     (case logger_slot p of
        Some l \<Rightarrow> (Inr l, p, w)
      | None \<Rightarrow>
          (let logOptions = cfg_log (config p) in
           case rewrite_loop logOptions (for_in_keys (heap w) logOptions) (heap w) of
             (Some e, h') \<Rightarrow> (Inl e, p, w\<lparr>heap := h'\<rparr>)
           | (None, h') \<Rightarrow>
               (let logId = log_id (config p) (clock w);
                    (l, reg') = loggers_add (registry w) logId logOptions
                in (Inr l, p\<lparr>logger_slot := Some l\<rparr>, w\<lparr>heap := h', registry := reg'\<rparr>))))"

subsection \<open>Logging (lines 69--110)\<close>

text \<open>\<open>log\<close> forwards all its arguments, the level first, to the logger.\<close>

definition plugin_log :: "plugin \<Rightarrow> world \<Rightarrow> jsval list \<Rightarrow> unit outcome" where
  "plugin_log p w args =
     (case get_logger p w of
        (Inl e, p', w') \<Rightarrow> (Inl e, p', w')
      | (Inr l, p', w') \<Rightarrow> (Inr (), p', w'\<lparr>emitted := logger_log l args (emitted w')\<rparr>))"

definition silly :: "plugin \<Rightarrow> world \<Rightarrow> jsval list \<Rightarrow> unit outcome" where
  "silly p w args = plugin_log p w (JStr ''silly'' # args)"

definition debug :: "plugin \<Rightarrow> world \<Rightarrow> jsval list \<Rightarrow> unit outcome" where
  "debug p w args = plugin_log p w (JStr ''debug'' # args)"

definition verbose :: "plugin \<Rightarrow> world \<Rightarrow> jsval list \<Rightarrow> unit outcome" where
  "verbose p w args = plugin_log p w (JStr ''verbose'' # args)"

definition info :: "plugin \<Rightarrow> world \<Rightarrow> jsval list \<Rightarrow> unit outcome" where
  "info p w args = plugin_log p w (JStr ''info'' # args)"

definition warn :: "plugin \<Rightarrow> world \<Rightarrow> jsval list \<Rightarrow> unit outcome" where
  "warn p w args = plugin_log p w (JStr ''warn'' # args)"

definition error :: "plugin \<Rightarrow> world \<Rightarrow> jsval list \<Rightarrow> unit outcome" where
  "error p w args = plugin_log p w (JStr ''error'' # args)"

text \<open>The six level methods as one family, for statements about all of them.\<close>

datatype level = Silly | Debug | Verbose | Info | Warn | Error

fun level_name :: "level \<Rightarrow> string" where
  "level_name Silly = ''silly''"
| "level_name Debug = ''debug''"
| "level_name Verbose = ''verbose''"
| "level_name Info = ''info''"
| "level_name Warn = ''warn''"
| "level_name Error = ''error''"

fun level_method :: "level \<Rightarrow> plugin \<Rightarrow> world \<Rightarrow> jsval list \<Rightarrow> unit outcome" where
  "level_method Silly = silly"
| "level_method Debug = debug"
| "level_method Verbose = verbose"
| "level_method Info = info"
| "level_method Warn = warn"
| "level_method Error = error"

subsection \<open>Lemmas\<close>

lemma get_logger_Inr:
  assumes "get_logger p w = (Inr l, p', w')"
  shows "logger_slot p' = Some l \<and> config p' = config p"
  using assms by (auto simp: get_logger_def Let_def split: option.splits prod.splits)

lemma get_logger_emitted:
  "get_logger p w = (r, p', w') \<Longrightarrow> emitted w' = emitted w \<and> clock w' = clock w"
  by (auto simp: get_logger_def Let_def split: option.splits prod.splits)

lemma get_logger_fresh_ok:
  assumes "logger_slot p = None"
    and "rewrite_loop (cfg_log (config p)) (for_in_keys (heap w) (cfg_log (config p))) (heap w) = (None, h')"
  shows "get_logger p w =
     (Inr (fst (loggers_add (registry w) (log_id (config p) (clock w)) (cfg_log (config p)))),
      p\<lparr>logger_slot := Some (fst (loggers_add (registry w) (log_id (config p) (clock w)) (cfg_log (config p))))\<rparr>,
      w\<lparr>heap := h', registry := snd (loggers_add (registry w) (log_id (config p) (clock w)) (cfg_log (config p)))\<rparr>)"
  using assms by (simp add: get_logger_def split: prod.splits)

text \<open>A first successful \<open>_getLogger\<close> leaves the registry \<open>winston.loggers.add\<close>
  returned for the id of its clock.\<close>

lemma get_logger_fresh_add:
  "logger_slot p = None \<Longrightarrow> get_logger p w = (Inr l, p', w') \<Longrightarrow>
   loggers_add (registry w) (log_id (config p) (clock w)) (cfg_log (config p)) = (l, registry w')"
  by (auto simp: get_logger_def Let_def split: option.splits prod.splits)

text \<open>A first successful \<open>_getLogger\<close> ran the loop to completion.\<close>

lemma get_logger_fresh_loop:
  "logger_slot p = None \<Longrightarrow> get_logger p w = (Inr l, p', w') \<Longrightarrow>
   rewrite_loop (cfg_log (config p)) (for_in_keys (heap w) (cfg_log (config p))) (heap w) = (None, heap w')"
  by (auto simp: get_logger_def Let_def split: option.splits prod.splits)

text \<open>\<open>_getLogger\<close> without a cached logger leaves the heap its loop produced,
  whether the loop completed or threw.\<close>

lemma get_logger_fresh_heap:
  "logger_slot p = None \<Longrightarrow> get_logger p w = (r, p', w') \<Longrightarrow>
   heap w' = snd (rewrite_loop (cfg_log (config p)) (for_in_keys (heap w) (cfg_log (config p))) (heap w))"
  by (auto simp: get_logger_def Let_def split: option.splits prod.splits)

text \<open>What \<open>_getLogger\<close> does to the registry: nothing, or, on a first call, the
  entry of the logger it caches.\<close>

lemma get_logger_registry:
  "get_logger p w = (r, p', w') \<Longrightarrow>
   registry w' = registry w \<or>
   (logger_slot p = None \<and> (\<exists>l. logger_slot p' = Some l \<and> registry w' = (registry w)(lg_name l \<mapsto> l)))"
  by (auto simp: get_logger_def Let_def loggers_add_def split: option.splits prod.splits)

lemma level_method_log:
  "level_method lv p w args = plugin_log p w (JStr (level_name lv) # args)"
  by (cases lv) (simp_all add: silly_def debug_def verbose_def info_def warn_def error_def)

subsection \<open>Properties of the facade\<close>

text \<open>C1: once the facade holds a logger, \<open>_getLogger\<close> returns it and changes
  nothing, whatever the configuration and the world are by then.\<close>

theorem get_logger_reuses_cached:
  "logger_slot p = Some l \<Longrightarrow> get_logger p w = (Inr l, p, w)"
  by (simp add: get_logger_def)

theorem get_logger_reuses_cached_witness:
  "logger_slot \<lparr>config = \<lparr>cfg_id = JStr ''app'', cfg_log = JNull\<rparr>,
       logger_slot = Some \<lparr>lg_name = ''app1'', lg_opts = JNull\<rparr>\<rparr> = Some \<lparr>lg_name = ''app1'', lg_opts = JNull\<rparr> \<and>
   get_logger \<lparr>config = \<lparr>cfg_id = JStr ''app'', cfg_log = JNull\<rparr>,
       logger_slot = Some \<lparr>lg_name = ''app1'', lg_opts = JNull\<rparr>\<rparr>
     \<lparr>heap = [], registry = Map.empty, clock = 5, emitted = []\<rparr> =
   (Inr \<lparr>lg_name = ''app1'', lg_opts = JNull\<rparr>,
    \<lparr>config = \<lparr>cfg_id = JStr ''app'', cfg_log = JNull\<rparr>,
       logger_slot = Some \<lparr>lg_name = ''app1'', lg_opts = JNull\<rparr>\<rparr>,
    \<lparr>heap = [], registry = Map.empty, clock = 5, emitted = []\<rparr>)"
  using get_logger_reuses_cached [of "\<lparr>config = \<lparr>cfg_id = JStr ''app'', cfg_log = JNull\<rparr>,
       logger_slot = Some \<lparr>lg_name = ''app1'', lg_opts = JNull\<rparr>\<rparr>" "\<lparr>lg_name = ''app1'', lg_opts = JNull\<rparr>"
       "\<lparr>heap = [], registry = Map.empty, clock = 5, emitted = []\<rparr>"]
  by simp

text \<open>C2: the first successful \<open>_getLogger\<close> caches its logger, and every later call,
  in any world (configuration data, clock and registry changed or not), returns that
  same logger and changes nothing.\<close>

theorem get_logger_idempotent:
  assumes "get_logger p w = (Inr l, p', w')"
  shows "logger_slot p' = Some l \<and> get_logger p' w2 = (Inr l, p', w2)"
proof -
  have "logger_slot p' = Some l" using get_logger_Inr [OF assms] by simp
  then show ?thesis by (simp add: get_logger_def)
qed

theorem get_logger_idempotent_witness:
  "get_logger \<lparr>config = \<lparr>cfg_id = JStr ''app'', cfg_log = JObj 0\<rparr>, logger_slot = None\<rparr>
     \<lparr>heap = [[]], registry = Map.empty, clock = 7, emitted = []\<rparr> =
   (Inr \<lparr>lg_name = ''app7'', lg_opts = JObj 0\<rparr>,
    \<lparr>config = \<lparr>cfg_id = JStr ''app'', cfg_log = JObj 0\<rparr>, logger_slot = Some \<lparr>lg_name = ''app7'', lg_opts = JObj 0\<rparr>\<rparr>,
    \<lparr>heap = [[]], registry = [''app7'' \<mapsto> \<lparr>lg_name = ''app7'', lg_opts = JObj 0\<rparr>], clock = 7, emitted = []\<rparr>) \<and>
   get_logger \<lparr>config = \<lparr>cfg_id = JStr ''app'', cfg_log = JObj 0\<rparr>, logger_slot = Some \<lparr>lg_name = ''app7'', lg_opts = JObj 0\<rparr>\<rparr>
     \<lparr>heap = [], registry = Map.empty, clock = 9, emitted = []\<rparr> =
   (Inr \<lparr>lg_name = ''app7'', lg_opts = JObj 0\<rparr>,
    \<lparr>config = \<lparr>cfg_id = JStr ''app'', cfg_log = JObj 0\<rparr>, logger_slot = Some \<lparr>lg_name = ''app7'', lg_opts = JObj 0\<rparr>\<rparr>,
    \<lparr>heap = [], registry = Map.empty, clock = 9, emitted = []\<rparr>)"
proof -
  have first: "get_logger \<lparr>config = \<lparr>cfg_id = JStr ''app'', cfg_log = JObj 0\<rparr>, logger_slot = None\<rparr>
     \<lparr>heap = [[]], registry = Map.empty, clock = 7, emitted = []\<rparr> =
   (Inr \<lparr>lg_name = ''app7'', lg_opts = JObj 0\<rparr>,
    \<lparr>config = \<lparr>cfg_id = JStr ''app'', cfg_log = JObj 0\<rparr>, logger_slot = Some \<lparr>lg_name = ''app7'', lg_opts = JObj 0\<rparr>\<rparr>,
    \<lparr>heap = [[]], registry = [''app7'' \<mapsto> \<lparr>lg_name = ''app7'', lg_opts = JObj 0\<rparr>], clock = 7, emitted = []\<rparr>)"
    by (simp add: get_logger_def log_id_def loggers_add_def obj_at_def int_str_def nat_str.simps
        Let_def)
  show ?thesis
    using first get_logger_idempotent [OF first, of "\<lparr>heap = [], registry = Map.empty, clock = 9, emitted = []\<rparr>"]
    by simp
qed

text \<open>C3: a level method (\<open>silly\<close>, \<open>debug\<close>, \<open>verbose\<close>, \<open>info\<close>, \<open>warn\<close>,
  \<open>error\<close>) that returns has made exactly one call on the facade's logger, with the
  level's name before the caller's arguments.\<close>

theorem level_method_forwards:
  assumes "level_method lv p w args = (Inr (), p', w')"
  shows "\<exists>l. logger_slot p' = Some l \<and>
           emitted w' = emitted w @ [\<lparr>call_logger = lg_name l, call_args = JStr (level_name lv) # args\<rparr>]"
proof -
  obtain r q v where g: "get_logger p w = (r, q, v)" by (cases "get_logger p w") auto
  from assms g obtain l where r: "r = Inr l"
    and res: "p' = q" "w' = v\<lparr>emitted := logger_log l (JStr (level_name lv) # args) (emitted v)\<rparr>"
    by (auto simp: level_method_log plugin_log_def split: sum.splits)
  from g r have "logger_slot q = Some l" using get_logger_Inr by blast
  moreover from g have "emitted v = emitted w" using get_logger_emitted by blast
  ultimately show ?thesis using res by (simp add: logger_log_def)
qed

theorem level_method_forwards_witness:
  "level_method Info \<lparr>config = \<lparr>cfg_id = JStr ''app'', cfg_log = JNull\<rparr>,
       logger_slot = Some \<lparr>lg_name = ''app1'', lg_opts = JNull\<rparr>\<rparr>
     \<lparr>heap = [], registry = Map.empty, clock = 5, emitted = []\<rparr> [JStr ''hello'']
   = (Inr (), \<lparr>config = \<lparr>cfg_id = JStr ''app'', cfg_log = JNull\<rparr>,
       logger_slot = Some \<lparr>lg_name = ''app1'', lg_opts = JNull\<rparr>\<rparr>,
      \<lparr>heap = [], registry = Map.empty, clock = 5,
       emitted = [\<lparr>call_logger = ''app1'', call_args = [JStr ''info'', JStr ''hello'']\<rparr>]\<rparr>) \<and>
   (\<exists>l. logger_slot \<lparr>config = \<lparr>cfg_id = JStr ''app'', cfg_log = JNull\<rparr>,
       logger_slot = Some \<lparr>lg_name = ''app1'', lg_opts = JNull\<rparr>\<rparr> = Some l \<and>
     [\<lparr>call_logger = ''app1'', call_args = [JStr ''info'', JStr ''hello'']\<rparr>] =
       [] @ [\<lparr>call_logger = lg_name l, call_args = JStr (level_name Info) # [JStr ''hello'']\<rparr>])"
proof -
  have run: "level_method Info \<lparr>config = \<lparr>cfg_id = JStr ''app'', cfg_log = JNull\<rparr>,
       logger_slot = Some \<lparr>lg_name = ''app1'', lg_opts = JNull\<rparr>\<rparr>
     \<lparr>heap = [], registry = Map.empty, clock = 5, emitted = []\<rparr> [JStr ''hello'']
   = (Inr (), \<lparr>config = \<lparr>cfg_id = JStr ''app'', cfg_log = JNull\<rparr>,
       logger_slot = Some \<lparr>lg_name = ''app1'', lg_opts = JNull\<rparr>\<rparr>,
      \<lparr>heap = [], registry = Map.empty, clock = 5,
       emitted = [\<lparr>call_logger = ''app1'', call_args = [JStr ''info'', JStr ''hello'']\<rparr>]\<rparr>)"
    by (simp add: info_def plugin_log_def get_logger_def logger_log_def)
  show ?thesis using run level_method_forwards [OF run] by simp
qed

text \<open>C11: when \<open>_getLogger\<close> throws, the facade keeps no logger (the next call
  starts over), the registry, the clock and the calls emitted are as before; only
  the heap may have changed.\<close>

theorem get_logger_throws:
  assumes "get_logger p w = (Inl e, p', w')"
  shows "p' = p \<and> logger_slot p = None \<and> registry w' = registry w \<and>
         emitted w' = emitted w \<and> clock w' = clock w"
  using assms by (auto simp: get_logger_def Let_def split: option.splits prod.splits)

theorem get_logger_throws_witness:
  "get_logger \<lparr>config = \<lparr>cfg_id = JStr ''app'', cfg_log = JObj 0\<rparr>, logger_slot = None\<rparr>
     \<lparr>heap = [[(''console'', JNull)]], registry = Map.empty, clock = 7, emitted = []\<rparr> =
   (Inl (TypeErrorRead ''timestamp'' JNull), \<lparr>config = \<lparr>cfg_id = JStr ''app'', cfg_log = JObj 0\<rparr>, logger_slot = None\<rparr>,
    \<lparr>heap = [[(''console'', JNull)]], registry = Map.empty, clock = 7, emitted = []\<rparr>) \<and>
   logger_slot \<lparr>config = \<lparr>cfg_id = JStr ''app'', cfg_log = JObj 0\<rparr>, logger_slot = None\<rparr> = None"
proof -
  have run: "get_logger \<lparr>config = \<lparr>cfg_id = JStr ''app'', cfg_log = JObj 0\<rparr>, logger_slot = None\<rparr>
     \<lparr>heap = [[(''console'', JNull)]], registry = Map.empty, clock = 7, emitted = []\<rparr> =
   (Inl (TypeErrorRead ''timestamp'' JNull), \<lparr>config = \<lparr>cfg_id = JStr ''app'', cfg_log = JObj 0\<rparr>, logger_slot = None\<rparr>,
    \<lparr>heap = [[(''console'', JNull)]], registry = Map.empty, clock = 7, emitted = []\<rparr>)"
    by (simp add: get_logger_def obj_at_def rewrite_transport_def)
  show ?thesis using run get_logger_throws [OF run] by simp
qed

text \<open>C12: a configuration without a \<open>log\<close> namespace (\<open>get\<close> returns \<open>undefined\<close>
  or \<open>null\<close>) does not make \<open>_getLogger\<close> throw: \<open>for..in\<close> visits nothing and the
  logger is registered with these options.\<close>

theorem get_logger_missing_log:
  assumes "logger_slot p = None" and "cfg_log (config p) = JUndef \<or> cfg_log (config p) = JNull"
  shows "\<exists>l. get_logger p w =
           (Inr l, p\<lparr>logger_slot := Some l\<rparr>,
            w\<lparr>registry := snd (loggers_add (registry w) (log_id (config p) (clock w)) (cfg_log (config p)))\<rparr>)"
proof -
  have "for_in_keys (heap w) (cfg_log (config p)) = []" using assms(2) by auto
  then have "rewrite_loop (cfg_log (config p)) (for_in_keys (heap w) (cfg_log (config p))) (heap w)
      = (None, heap w)" by simp
  from get_logger_fresh_ok [OF assms(1) this] show ?thesis by simp
qed

theorem get_logger_missing_log_witness:
  "logger_slot \<lparr>config = \<lparr>cfg_id = JStr ''app'', cfg_log = JUndef\<rparr>, logger_slot = None\<rparr> = None \<and>
   (cfg_log (config \<lparr>config = \<lparr>cfg_id = JStr ''app'', cfg_log = JUndef\<rparr>, logger_slot = None\<rparr>) = JUndef \<or>
    cfg_log (config \<lparr>config = \<lparr>cfg_id = JStr ''app'', cfg_log = JUndef\<rparr>, logger_slot = None\<rparr>) = JNull) \<and>
   (\<exists>l. get_logger \<lparr>config = \<lparr>cfg_id = JStr ''app'', cfg_log = JUndef\<rparr>, logger_slot = None\<rparr>
          \<lparr>heap = [], registry = Map.empty, clock = 3, emitted = []\<rparr> =
        (Inr l, \<lparr>config = \<lparr>cfg_id = JStr ''app'', cfg_log = JUndef\<rparr>, logger_slot = Some l\<rparr>,
         \<lparr>heap = [], registry = snd (loggers_add Map.empty (log_id \<lparr>cfg_id = JStr ''app'', cfg_log = JUndef\<rparr> 3) JUndef),
          clock = 3, emitted = []\<rparr>))"
  using get_logger_missing_log [of "\<lparr>config = \<lparr>cfg_id = JStr ''app'', cfg_log = JUndef\<rparr>, logger_slot = None\<rparr>"
      "\<lparr>heap = [], registry = Map.empty, clock = 3, emitted = []\<rparr>"]
  by simp

text \<open>C13: with a string \<open>config.id\<close>, the logger id is the id followed by the decimal
  digits of the time in milliseconds (so it starts with the id).\<close>

theorem log_id_string:
  "cfg_id cfg = JStr s \<Longrightarrow> js_to_string (log_id cfg now) = s @ int_str now"
  by (simp add: log_id_def)

theorem log_id_string_witness:
  "cfg_id \<lparr>cfg_id = JStr ''app'', cfg_log = JUndef\<rparr> = JStr ''app'' \<and>
   js_to_string (log_id \<lparr>cfg_id = JStr ''app'', cfg_log = JUndef\<rparr> 1700000000123) = ''app1700000000123''"
  using log_id_string [of "\<lparr>cfg_id = JStr ''app'', cfg_log = JUndef\<rparr>" "''app''" 1700000000123]
  by (simp add: int_str_def nat_str.simps)

text \<open>C14: with a string \<open>config.id\<close>, two different times give two different logger
  ids: such facades never collide in the registry unless created in the same
  millisecond.\<close>

theorem log_id_string_distinct:
  assumes "cfg_id cfg = JStr s" and "cfg_id cfg' = JStr s" and "t1 \<noteq> t2"
  shows "js_to_string (log_id cfg t1) \<noteq> js_to_string (log_id cfg' t2)"
  using assms by (simp add: log_id_def int_str_inj)

theorem log_id_string_distinct_witness:
  "cfg_id \<lparr>cfg_id = JStr ''app'', cfg_log = JUndef\<rparr> = JStr ''app'' \<and> (1::int) \<noteq> 2 \<and>
   js_to_string (log_id \<lparr>cfg_id = JStr ''app'', cfg_log = JUndef\<rparr> 1)
     \<noteq> js_to_string (log_id \<lparr>cfg_id = JStr ''app'', cfg_log = JUndef\<rparr> 2)"
  using log_id_string_distinct [of "\<lparr>cfg_id = JStr ''app'', cfg_log = JUndef\<rparr>" "''app''"
      "\<lparr>cfg_id = JStr ''app'', cfg_log = JUndef\<rparr>" 1 2]
  by simp

text \<open>C15: with numeric \<open>config.id\<close>s, line 63 adds instead of concatenating:
  two facades get the same logger id exactly when id plus time agree, so different
  ids collide whenever their first calls are as many milliseconds apart as the ids
  differ.\<close>

theorem log_id_numeric_collision:
  "cfg_id c1 = JNum i1 \<Longrightarrow> cfg_id c2 = JNum i2 \<Longrightarrow>
   js_to_string (log_id c1 t1) = js_to_string (log_id c2 t2) \<longleftrightarrow> i1 + t1 = i2 + t2"
  by (simp add: log_id_def int_str_inj)

theorem log_id_numeric_collision_witness:
  "cfg_id \<lparr>cfg_id = JNum 1, cfg_log = JUndef\<rparr> = JNum 1 \<and> cfg_id \<lparr>cfg_id = JNum 2, cfg_log = JUndef\<rparr> = JNum 2 \<and>
   js_to_string (log_id \<lparr>cfg_id = JNum 1, cfg_log = JUndef\<rparr> 1000)
     = js_to_string (log_id \<lparr>cfg_id = JNum 2, cfg_log = JUndef\<rparr> 999)"
  using log_id_numeric_collision [of "\<lparr>cfg_id = JNum 1, cfg_log = JUndef\<rparr>" 1
      "\<lparr>cfg_id = JNum 2, cfg_log = JUndef\<rparr>" 2 1000 999]
  by simp

text \<open>C16: without a \<open>config.id\<close> (\<open>undefined\<close>), the logger id is \<open>NaN\<close> at every
  time, so every such facade gets the logger registered first under \<open>NaN\<close>.\<close>

theorem log_id_undefined:
  "cfg_id cfg = JUndef \<Longrightarrow> js_to_string (log_id cfg now) = ''NaN''"
  by (simp add: log_id_def)

theorem log_id_undefined_witness:
  "cfg_id \<lparr>cfg_id = JUndef, cfg_log = JUndef\<rparr> = JUndef \<and>
   js_to_string (log_id \<lparr>cfg_id = JUndef, cfg_log = JUndef\<rparr> 42) = ''NaN''"
  using log_id_undefined [of "\<lparr>cfg_id = JUndef, cfg_log = JUndef\<rparr>" 42] by simp

text \<open>C17: a facade whose first \<open>_getLogger\<close> succeeds holds the logger registered
  under its id's string, and the registry only grew.\<close>

theorem get_logger_registers:
  assumes "logger_slot p = None" and "get_logger p w = (Inr l, p', w')"
  shows "registry w' (js_to_string (log_id (config p) (clock w))) = Some l \<and> registry w \<subseteq>\<^sub>m registry w'"
  using loggers_add_registered loggers_add_grows get_logger_fresh_add [OF assms] by blast

theorem get_logger_registers_witness:
  "logger_slot \<lparr>config = \<lparr>cfg_id = JStr ''a'', cfg_log = JUndef\<rparr>, logger_slot = None\<rparr> = None \<and>
   get_logger \<lparr>config = \<lparr>cfg_id = JStr ''a'', cfg_log = JUndef\<rparr>, logger_slot = None\<rparr>
     \<lparr>heap = [], registry = Map.empty, clock = 4, emitted = []\<rparr> =
   (Inr \<lparr>lg_name = ''a4'', lg_opts = JUndef\<rparr>,
    \<lparr>config = \<lparr>cfg_id = JStr ''a'', cfg_log = JUndef\<rparr>, logger_slot = Some \<lparr>lg_name = ''a4'', lg_opts = JUndef\<rparr>\<rparr>,
    \<lparr>heap = [], registry = [''a4'' \<mapsto> \<lparr>lg_name = ''a4'', lg_opts = JUndef\<rparr>], clock = 4, emitted = []\<rparr>) \<and>
   [''a4'' \<mapsto> \<lparr>lg_name = ''a4'', lg_opts = JUndef\<rparr>] ''a4'' = Some \<lparr>lg_name = ''a4'', lg_opts = JUndef\<rparr>"
proof -
  have s: "logger_slot \<lparr>config = \<lparr>cfg_id = JStr ''a'', cfg_log = JUndef\<rparr>, logger_slot = None\<rparr> = None" by simp
  have run: "get_logger \<lparr>config = \<lparr>cfg_id = JStr ''a'', cfg_log = JUndef\<rparr>, logger_slot = None\<rparr>
     \<lparr>heap = [], registry = Map.empty, clock = 4, emitted = []\<rparr> =
   (Inr \<lparr>lg_name = ''a4'', lg_opts = JUndef\<rparr>,
    \<lparr>config = \<lparr>cfg_id = JStr ''a'', cfg_log = JUndef\<rparr>, logger_slot = Some \<lparr>lg_name = ''a4'', lg_opts = JUndef\<rparr>\<rparr>,
    \<lparr>heap = [], registry = [''a4'' \<mapsto> \<lparr>lg_name = ''a4'', lg_opts = JUndef\<rparr>], clock = 4, emitted = []\<rparr>)"
    by (simp add: get_logger_def log_id_def loggers_add_def int_str_def nat_str.simps Let_def)
  show ?thesis using s run get_logger_registers [OF s run] by (simp add: log_id_def int_str_def nat_str.simps)
qed

text \<open>C18: two facades with the same string \<open>config.id\<close> whose first log calls fall in
  the same millisecond share one logger: the second gets the first's logger, built
  with the first's options, and its own options are not used.\<close>

theorem get_logger_same_millisecond:
  assumes "logger_slot p1 = None" and "get_logger p1 w = (Inr l1, p1', w1)"
    and "logger_slot p2 = None" and "cfg_id (config p2) = cfg_id (config p1)"
    and "get_logger p2 w1 = (Inr l2, p2', w2)"
  shows "l2 = l1 \<and> registry w2 = registry w1"
proof -
  have reg: "registry w1 (js_to_string (log_id (config p1) (clock w))) = Some l1"
    using loggers_add_registered get_logger_fresh_add [OF assms(1,2)] by blast
  have "clock w1 = clock w" using get_logger_emitted [OF assms(2)] by simp
  then have key: "log_id (config p2) (clock w1) = log_id (config p1) (clock w)"
    using assms(4) by (simp add: log_id_def)
  show ?thesis
    using assms(3,5) reg key
    by (auto simp: get_logger_def Let_def loggers_add_existing split: option.splits prod.splits)
qed

theorem get_logger_same_millisecond_witness:
  "logger_slot \<lparr>config = \<lparr>cfg_id = JStr ''a'', cfg_log = JUndef\<rparr>, logger_slot = None\<rparr> = None \<and>
   get_logger \<lparr>config = \<lparr>cfg_id = JStr ''a'', cfg_log = JUndef\<rparr>, logger_slot = None\<rparr>
     \<lparr>heap = [], registry = Map.empty, clock = 4, emitted = []\<rparr> =
   (Inr \<lparr>lg_name = ''a4'', lg_opts = JUndef\<rparr>,
    \<lparr>config = \<lparr>cfg_id = JStr ''a'', cfg_log = JUndef\<rparr>, logger_slot = Some \<lparr>lg_name = ''a4'', lg_opts = JUndef\<rparr>\<rparr>,
    \<lparr>heap = [], registry = [''a4'' \<mapsto> \<lparr>lg_name = ''a4'', lg_opts = JUndef\<rparr>], clock = 4, emitted = []\<rparr>) \<and>
   logger_slot \<lparr>config = \<lparr>cfg_id = JStr ''a'', cfg_log = JNull\<rparr>, logger_slot = None\<rparr> = None \<and>
   cfg_id (config \<lparr>config = \<lparr>cfg_id = JStr ''a'', cfg_log = JNull\<rparr>, logger_slot = None\<rparr>) =
     cfg_id (config \<lparr>config = \<lparr>cfg_id = JStr ''a'', cfg_log = JUndef\<rparr>, logger_slot = None\<rparr>) \<and>
   get_logger \<lparr>config = \<lparr>cfg_id = JStr ''a'', cfg_log = JNull\<rparr>, logger_slot = None\<rparr>
     \<lparr>heap = [], registry = [''a4'' \<mapsto> \<lparr>lg_name = ''a4'', lg_opts = JUndef\<rparr>], clock = 4, emitted = []\<rparr> =
   (Inr \<lparr>lg_name = ''a4'', lg_opts = JUndef\<rparr>,
    \<lparr>config = \<lparr>cfg_id = JStr ''a'', cfg_log = JNull\<rparr>, logger_slot = Some \<lparr>lg_name = ''a4'', lg_opts = JUndef\<rparr>\<rparr>,
    \<lparr>heap = [], registry = [''a4'' \<mapsto> \<lparr>lg_name = ''a4'', lg_opts = JUndef\<rparr>], clock = 4, emitted = []\<rparr>)"
proof -
  have s1: "logger_slot \<lparr>config = \<lparr>cfg_id = JStr ''a'', cfg_log = JUndef\<rparr>, logger_slot = None\<rparr> = None" by simp
  have r1: "get_logger \<lparr>config = \<lparr>cfg_id = JStr ''a'', cfg_log = JUndef\<rparr>, logger_slot = None\<rparr>
     \<lparr>heap = [], registry = Map.empty, clock = 4, emitted = []\<rparr> =
   (Inr \<lparr>lg_name = ''a4'', lg_opts = JUndef\<rparr>,
    \<lparr>config = \<lparr>cfg_id = JStr ''a'', cfg_log = JUndef\<rparr>, logger_slot = Some \<lparr>lg_name = ''a4'', lg_opts = JUndef\<rparr>\<rparr>,
    \<lparr>heap = [], registry = [''a4'' \<mapsto> \<lparr>lg_name = ''a4'', lg_opts = JUndef\<rparr>], clock = 4, emitted = []\<rparr>)"
    by (simp add: get_logger_def log_id_def loggers_add_def int_str_def nat_str.simps Let_def)
  have s2: "logger_slot \<lparr>config = \<lparr>cfg_id = JStr ''a'', cfg_log = JNull\<rparr>, logger_slot = None\<rparr> = None" by simp
  have c: "cfg_id (config \<lparr>config = \<lparr>cfg_id = JStr ''a'', cfg_log = JNull\<rparr>, logger_slot = None\<rparr>) =
     cfg_id (config \<lparr>config = \<lparr>cfg_id = JStr ''a'', cfg_log = JUndef\<rparr>, logger_slot = None\<rparr>)" by simp
  have r2: "get_logger \<lparr>config = \<lparr>cfg_id = JStr ''a'', cfg_log = JNull\<rparr>, logger_slot = None\<rparr>
     \<lparr>heap = [], registry = [''a4'' \<mapsto> \<lparr>lg_name = ''a4'', lg_opts = JUndef\<rparr>], clock = 4, emitted = []\<rparr> =
   (Inr \<lparr>lg_name = ''a4'', lg_opts = JUndef\<rparr>,
    \<lparr>config = \<lparr>cfg_id = JStr ''a'', cfg_log = JNull\<rparr>, logger_slot = Some \<lparr>lg_name = ''a4'', lg_opts = JUndef\<rparr>\<rparr>,
    \<lparr>heap = [], registry = [''a4'' \<mapsto> \<lparr>lg_name = ''a4'', lg_opts = JUndef\<rparr>], clock = 4, emitted = []\<rparr>)"
    by (simp add: get_logger_def log_id_def loggers_add_def int_str_def nat_str.simps Let_def)
  show ?thesis using s1 r1 s2 c r2 get_logger_same_millisecond [OF s1 r1 s2 c r2] by simp
qed

text \<open>C19: a throw in the loop does not undo the rewrites before it: every transport
  visited before the first key whose transport is \<open>null\<close> or \<open>undefined\<close> holds its
  closure after \<open>_getLogger\<close>, whether it returned or threw, and a later call runs
  the loop again on that mutated configuration.\<close>

theorem get_logger_throw_after_rewrite:
  assumes "logger_slot p = None" and "get_logger p w = (r, p', w')"
    and "for_in_keys (heap w) (cfg_log (config p)) = vis @ rest"
    and "\<forall>k \<in> set vis. \<not> isl (get_effect (heap w) (cfg_log (config p)) k)"
    and "m \<in> set vis" and "get_prop (heap w) (cfg_log (config p)) m = Inr (JObj a)"
    and "map_of (obj_at (heap w) a) ''timestamp'' = Some (JStr pat)"
  shows "get_prop (heap w') (JObj a) ''timestamp'' = Inr (JFun (TimestampFn pat (JObj a)))"
proof -
  obtain e h' where loop:
    "rewrite_loop (cfg_log (config p)) (vis @ rest) (heap w) = (e, h')" by fastforce
  then have hw': "heap w' = h'" using get_logger_fresh_heap [OF assms(1,2)] assms(3) by simp
  obtain as where ref: "rewrite_ref (cfg_log (config p)) (vis @ rest) (heap w) = (e, as)"
    and at: "\<forall>b. obj_at h' b = (if b \<in> set as then rw_obj b (obj_at (heap w) b) else obj_at (heap w) b)"
    using rewrite_loop_obj_at [OF loop] by blast
  have "a \<in> set as"
    using rewrite_ref_prefix [OF assms(4,5) get_effect_obj [OF assms(6)], of rest] ref by simp
  with at assms(7) show ?thesis by (simp add: hw' rw_obj_def)
qed

theorem get_logger_throw_after_rewrite_witness:
  "logger_slot \<lparr>config = \<lparr>cfg_id = JStr ''a'', cfg_log = JObj 0\<rparr>, logger_slot = None\<rparr> = None \<and>
   get_logger \<lparr>config = \<lparr>cfg_id = JStr ''a'', cfg_log = JObj 0\<rparr>, logger_slot = None\<rparr>
     \<lparr>heap = [[(''console'', JObj 1), (''file'', JNull)], [(''timestamp'', JStr ''HH'')]],
      registry = Map.empty, clock = 4, emitted = []\<rparr> =
   (Inl (TypeErrorRead ''timestamp'' JNull),
    \<lparr>config = \<lparr>cfg_id = JStr ''a'', cfg_log = JObj 0\<rparr>, logger_slot = None\<rparr>,
    \<lparr>heap = [[(''console'', JObj 1), (''file'', JNull)], [(''timestamp'', JFun (TimestampFn ''HH'' (JObj 1)))]],
     registry = Map.empty, clock = 4, emitted = []\<rparr>) \<and>
   get_prop [[(''console'', JObj 1), (''file'', JNull)], [(''timestamp'', JFun (TimestampFn ''HH'' (JObj 1)))]]
     (JObj 1) ''timestamp'' = Inr (JFun (TimestampFn ''HH'' (JObj 1)))"
proof -
  have s: "logger_slot \<lparr>config = \<lparr>cfg_id = JStr ''a'', cfg_log = JObj 0\<rparr>, logger_slot = None\<rparr> = None" by simp
  have run: "get_logger \<lparr>config = \<lparr>cfg_id = JStr ''a'', cfg_log = JObj 0\<rparr>, logger_slot = None\<rparr>
     \<lparr>heap = [[(''console'', JObj 1), (''file'', JNull)], [(''timestamp'', JStr ''HH'')]],
      registry = Map.empty, clock = 4, emitted = []\<rparr> =
   (Inl (TypeErrorRead ''timestamp'' JNull),
    \<lparr>config = \<lparr>cfg_id = JStr ''a'', cfg_log = JObj 0\<rparr>, logger_slot = None\<rparr>,
    \<lparr>heap = [[(''console'', JObj 1), (''file'', JNull)], [(''timestamp'', JFun (TimestampFn ''HH'' (JObj 1)))]],
     registry = Map.empty, clock = 4, emitted = []\<rparr>)"
    by (simp add: get_logger_def obj_at_def rewrite_transport_def)
  have "get_prop [[(''console'', JObj 1), (''file'', JNull)], [(''timestamp'', JFun (TimestampFn ''HH'' (JObj 1)))]]
     (JObj 1) ''timestamp'' = Inr (JFun (TimestampFn ''HH'' (JObj 1)))"
    using get_logger_throw_after_rewrite [OF s run, where vis = "[''console'']" and rest = "[''file'']"
        and m = "''console''" and a = 1 and pat = "''HH''"]
    by (simp add: obj_at_def get_effect_def)
  with s run show ?thesis by simp
qed

text \<open>C35: the logger a first successful \<open>_getLogger\<close> builds implements the
  timestamp policy of section 9 of the spec.  For every transport object of the
  configuration that held no closure of the module, the stamp the backend gets from
  it for a line, at any later time and colour support, is the rendering of the policy
  resolved from the transport as it was when the logger was built: none for \<open>Raw\<close>,
  the formatted date (gray when \<open>colorize\<close> was the string \<open>'true'\<close>) for
  \<open>Formatted\<close>.  This holds in every later heap that keeps the transport's
  \<open>timestamp\<close> option as the loop left it and its \<open>colorize\<close> as it was.\<close>

theorem get_logger_refines_policy:
  assumes "logger_slot p = None" and "get_logger p w = (Inr l, p', w')"
    and "n \<in> set (for_in_keys (heap w) (cfg_log (config p)))"
    and "get_prop (heap w) (cfg_log (config p)) n = Inr (JObj a)"
    and "no_closure (obj_at (heap w) a)"
    and "map_of (obj_at hl a) ''timestamp'' = map_of (obj_at (heap w') a) ''timestamp''"
    and "map_of (obj_at hl a) ''colorize'' = map_of (obj_at (heap w) a) ''colorize''"
  shows "stamp_at dateFormat colors hl now a =
           map_option Inr (render_timestamp dateFormat colors (policy_of (obj_at (heap w) a)) now)"
proof -
  have "obj_at (heap w') a = rw_obj a (obj_at (heap w) a)"
    using rewrite_loop_visited [OF get_logger_fresh_loop [OF assms(1,2)] assms(3,4)] .
  with assms(5-7) show ?thesis by (simp add: stamp_at_rw_obj)
qed

theorem get_logger_refines_policy_witness:
  "logger_slot \<lparr>config = \<lparr>cfg_id = JStr ''a'', cfg_log = JObj 0\<rparr>, logger_slot = None\<rparr> = None \<and>
   get_logger \<lparr>config = \<lparr>cfg_id = JStr ''a'', cfg_log = JObj 0\<rparr>, logger_slot = None\<rparr>
     \<lparr>heap = [[(''console'', JObj 1)], [(''timestamp'', JStr ''HH''), (''colorize'', JStr ''true'')]],
      registry = Map.empty, clock = 4, emitted = []\<rparr> =
   (Inr \<lparr>lg_name = ''a4'', lg_opts = JObj 0\<rparr>,
    \<lparr>config = \<lparr>cfg_id = JStr ''a'', cfg_log = JObj 0\<rparr>, logger_slot = Some \<lparr>lg_name = ''a4'', lg_opts = JObj 0\<rparr>\<rparr>,
    \<lparr>heap = [[(''console'', JObj 1)], [(''timestamp'', JFun (TimestampFn ''HH'' (JObj 1))), (''colorize'', JStr ''true'')]],
     registry = [''a4'' \<mapsto> \<lparr>lg_name = ''a4'', lg_opts = JObj 0\<rparr>], clock = 4, emitted = []\<rparr>) \<and>
   ''console'' \<in> set (for_in_keys [[(''console'', JObj 1)], [(''timestamp'', JStr ''HH''), (''colorize'', JStr ''true'')]] (JObj 0)) \<and>
   get_prop [[(''console'', JObj 1)], [(''timestamp'', JStr ''HH''), (''colorize'', JStr ''true'')]] (JObj 0) ''console'' = Inr (JObj 1) \<and>
   no_closure (obj_at [[(''console'', JObj 1)], [(''timestamp'', JStr ''HH''), (''colorize'', JStr ''true'')]] 1) \<and>
   stamp_at (\<lambda>t p. p) True
     [[(''console'', JObj 1)], [(''timestamp'', JFun (TimestampFn ''HH'' (JObj 1))), (''colorize'', JStr ''true'')]] 0 1
     = Some (Inr (chalk_style True gray ''HH''))"
proof -
  have s: "logger_slot \<lparr>config = \<lparr>cfg_id = JStr ''a'', cfg_log = JObj 0\<rparr>, logger_slot = None\<rparr> = None" by simp
  have run: "get_logger \<lparr>config = \<lparr>cfg_id = JStr ''a'', cfg_log = JObj 0\<rparr>, logger_slot = None\<rparr>
     \<lparr>heap = [[(''console'', JObj 1)], [(''timestamp'', JStr ''HH''), (''colorize'', JStr ''true'')]],
      registry = Map.empty, clock = 4, emitted = []\<rparr> =
   (Inr \<lparr>lg_name = ''a4'', lg_opts = JObj 0\<rparr>,
    \<lparr>config = \<lparr>cfg_id = JStr ''a'', cfg_log = JObj 0\<rparr>, logger_slot = Some \<lparr>lg_name = ''a4'', lg_opts = JObj 0\<rparr>\<rparr>,
    \<lparr>heap = [[(''console'', JObj 1)], [(''timestamp'', JFun (TimestampFn ''HH'' (JObj 1))), (''colorize'', JStr ''true'')]],
     registry = [''a4'' \<mapsto> \<lparr>lg_name = ''a4'', lg_opts = JObj 0\<rparr>], clock = 4, emitted = []\<rparr>)"
    by (simp add: get_logger_def log_id_def loggers_add_def int_str_def nat_str.simps Let_def
        obj_at_def rewrite_transport_def)
  have k: "''console'' \<in> set (for_in_keys [[(''console'', JObj 1)], [(''timestamp'', JStr ''HH''), (''colorize'', JStr ''true'')]] (JObj 0))"
    by (simp add: obj_at_def)
  have g: "get_prop [[(''console'', JObj 1)], [(''timestamp'', JStr ''HH''), (''colorize'', JStr ''true'')]] (JObj 0) ''console'' = Inr (JObj 1)"
    by (simp add: obj_at_def)
  have nc: "no_closure (obj_at [[(''console'', JObj 1)], [(''timestamp'', JStr ''HH''), (''colorize'', JStr ''true'')]] 1)"
    by (simp add: obj_at_def no_closure_def)
  have "stamp_at (\<lambda>t p. p) True
     [[(''console'', JObj 1)], [(''timestamp'', JFun (TimestampFn ''HH'' (JObj 1))), (''colorize'', JStr ''true'')]] 0 1
     = map_option Inr (render_timestamp (\<lambda>t p. p) True
         (policy_of (obj_at [[(''console'', JObj 1)], [(''timestamp'', JStr ''HH''), (''colorize'', JStr ''true'')]] 1)) 0)"
    using get_logger_refines_policy [OF s run, where n = "''console''" and a = 1
        and hl = "[[(''console'', JObj 1)], [(''timestamp'', JFun (TimestampFn ''HH'' (JObj 1))), (''colorize'', JStr ''true'')]]"
        and dateFormat = "\<lambda>t p. p" and colors = True and now = 0] k g nc
    by (simp add: obj_at_def)
  then show ?thesis using s run k g nc by (simp add: render_timestamp_def policy_of_def obj_at_def)
qed

text \<open>C29: two facades over the same configuration object: the second facade's first
  call finds the closures the first facade installed (\<open>typeof\<close> gives
  \<open>'function'\<close>), leaves the configuration exactly as the first call left it and
  succeeds; the closures are not wrapped twice.\<close>

theorem get_logger_shared_config:
  assumes "logger_slot p1 = None" and "get_logger p1 w = (Inr l1, p1', w1)"
    and "logger_slot p2 = None" and "cfg_log (config p2) = cfg_log (config p1)"
    and "get_logger p2 w1 = (r, p2', w2)"
  shows "(\<exists>l2. r = Inr l2) \<and> heap w2 = heap w1"
proof -
  let ?lo = "cfg_log (config p1)"
  have loop1: "rewrite_loop ?lo (for_in_keys (heap w) ?lo) (heap w) = (None, heap w1)"
    using get_logger_fresh_loop [OF assms(1,2)] .
  have "for_in_keys (heap w1) ?lo = for_in_keys (heap w) ?lo"
    using for_in_keys_rewrite_loop [OF loop1] .
  with loop1 have "rewrite_loop ?lo (for_in_keys (heap w1) ?lo) (heap w1) = (None, heap w1)"
    by (simp add: rewrite_loop_idem)
  with assms(3-5) show ?thesis
    by (auto simp: get_logger_def Let_def split: prod.splits)
qed

theorem get_logger_shared_config_witness:
  "logger_slot \<lparr>config = \<lparr>cfg_id = JStr ''a'', cfg_log = JObj 0\<rparr>, logger_slot = None\<rparr> = None \<and>
   get_logger \<lparr>config = \<lparr>cfg_id = JStr ''a'', cfg_log = JObj 0\<rparr>, logger_slot = None\<rparr>
     \<lparr>heap = [[(''console'', JObj 1)], [(''timestamp'', JStr ''HH'')]], registry = Map.empty, clock = 4, emitted = []\<rparr> =
   (Inr \<lparr>lg_name = ''a4'', lg_opts = JObj 0\<rparr>,
    \<lparr>config = \<lparr>cfg_id = JStr ''a'', cfg_log = JObj 0\<rparr>, logger_slot = Some \<lparr>lg_name = ''a4'', lg_opts = JObj 0\<rparr>\<rparr>,
    \<lparr>heap = [[(''console'', JObj 1)], [(''timestamp'', JFun (TimestampFn ''HH'' (JObj 1)))]],
     registry = [''a4'' \<mapsto> \<lparr>lg_name = ''a4'', lg_opts = JObj 0\<rparr>], clock = 4, emitted = []\<rparr>) \<and>
   get_logger \<lparr>config = \<lparr>cfg_id = JStr ''b'', cfg_log = JObj 0\<rparr>, logger_slot = None\<rparr>
     \<lparr>heap = [[(''console'', JObj 1)], [(''timestamp'', JFun (TimestampFn ''HH'' (JObj 1)))]],
      registry = [''a4'' \<mapsto> \<lparr>lg_name = ''a4'', lg_opts = JObj 0\<rparr>], clock = 4, emitted = []\<rparr> =
   (Inr \<lparr>lg_name = ''b4'', lg_opts = JObj 0\<rparr>,
    \<lparr>config = \<lparr>cfg_id = JStr ''b'', cfg_log = JObj 0\<rparr>, logger_slot = Some \<lparr>lg_name = ''b4'', lg_opts = JObj 0\<rparr>\<rparr>,
    \<lparr>heap = [[(''console'', JObj 1)], [(''timestamp'', JFun (TimestampFn ''HH'' (JObj 1)))]],
     registry = [''a4'' \<mapsto> \<lparr>lg_name = ''a4'', lg_opts = JObj 0\<rparr>, ''b4'' \<mapsto> \<lparr>lg_name = ''b4'', lg_opts = JObj 0\<rparr>],
     clock = 4, emitted = []\<rparr>)"
proof -
  have s1: "logger_slot \<lparr>config = \<lparr>cfg_id = JStr ''a'', cfg_log = JObj 0\<rparr>, logger_slot = None\<rparr> = None" by simp
  have r1: "get_logger \<lparr>config = \<lparr>cfg_id = JStr ''a'', cfg_log = JObj 0\<rparr>, logger_slot = None\<rparr>
     \<lparr>heap = [[(''console'', JObj 1)], [(''timestamp'', JStr ''HH'')]], registry = Map.empty, clock = 4, emitted = []\<rparr> =
   (Inr \<lparr>lg_name = ''a4'', lg_opts = JObj 0\<rparr>,
    \<lparr>config = \<lparr>cfg_id = JStr ''a'', cfg_log = JObj 0\<rparr>, logger_slot = Some \<lparr>lg_name = ''a4'', lg_opts = JObj 0\<rparr>\<rparr>,
    \<lparr>heap = [[(''console'', JObj 1)], [(''timestamp'', JFun (TimestampFn ''HH'' (JObj 1)))]],
     registry = [''a4'' \<mapsto> \<lparr>lg_name = ''a4'', lg_opts = JObj 0\<rparr>], clock = 4, emitted = []\<rparr>)"
    by (simp add: get_logger_def log_id_def loggers_add_def int_str_def nat_str.simps Let_def
        obj_at_def rewrite_transport_def)
  have s2: "logger_slot \<lparr>config = \<lparr>cfg_id = JStr ''b'', cfg_log = JObj 0\<rparr>, logger_slot = None\<rparr> = None" by simp
  have c: "cfg_log (config \<lparr>config = \<lparr>cfg_id = JStr ''b'', cfg_log = JObj 0\<rparr>, logger_slot = None\<rparr>) =
     cfg_log (config \<lparr>config = \<lparr>cfg_id = JStr ''a'', cfg_log = JObj 0\<rparr>, logger_slot = None\<rparr>)" by simp
  have r2: "get_logger \<lparr>config = \<lparr>cfg_id = JStr ''b'', cfg_log = JObj 0\<rparr>, logger_slot = None\<rparr>
     \<lparr>heap = [[(''console'', JObj 1)], [(''timestamp'', JFun (TimestampFn ''HH'' (JObj 1)))]],
      registry = [''a4'' \<mapsto> \<lparr>lg_name = ''a4'', lg_opts = JObj 0\<rparr>], clock = 4, emitted = []\<rparr> =
   (Inr \<lparr>lg_name = ''b4'', lg_opts = JObj 0\<rparr>,
    \<lparr>config = \<lparr>cfg_id = JStr ''b'', cfg_log = JObj 0\<rparr>, logger_slot = Some \<lparr>lg_name = ''b4'', lg_opts = JObj 0\<rparr>\<rparr>,
    \<lparr>heap = [[(''console'', JObj 1)], [(''timestamp'', JFun (TimestampFn ''HH'' (JObj 1)))]],
     registry = [''a4'' \<mapsto> \<lparr>lg_name = ''a4'', lg_opts = JObj 0\<rparr>, ''b4'' \<mapsto> \<lparr>lg_name = ''b4'', lg_opts = JObj 0\<rparr>],
     clock = 4, emitted = []\<rparr>)"
    by (simp add: get_logger_def log_id_def loggers_add_def int_str_def nat_str.simps Let_def
        obj_at_def rewrite_transport_def)
  have "(\<exists>l2. Inr \<lparr>lg_name = ''b4'', lg_opts = JObj 0\<rparr> = (Inr l2 :: js_error + logger)) \<and>
     heap \<lparr>heap = [[(''console'', JObj 1)], [(''timestamp'', JFun (TimestampFn ''HH'' (JObj 1)))]],
     registry = [''a4'' \<mapsto> \<lparr>lg_name = ''a4'', lg_opts = JObj 0\<rparr>, ''b4'' \<mapsto> \<lparr>lg_name = ''b4'', lg_opts = JObj 0\<rparr>],
     clock = 4, emitted = []\<rparr> =
     heap \<lparr>heap = [[(''console'', JObj 1)], [(''timestamp'', JFun (TimestampFn ''HH'' (JObj 1)))]],
     registry = [''a4'' \<mapsto> \<lparr>lg_name = ''a4'', lg_opts = JObj 0\<rparr>], clock = 4, emitted = []\<rparr>"
    by (rule get_logger_shared_config [OF s1 r1 s2 c r2])
  with s1 r1 r2 show ?thesis by simp
qed

end
