(* ===== verification/FacadeSystem.thy ===== *)
theory FacadeSystem
  imports LoggerPlugin
begin

text \<open>
  The module as a running program: the facades built by \<open>new LoggerPlugin(config)\<close>
  (lines 32--36) live in one process and share the world of \<open>LoggerPlugin\<close> (the
  configuration heap, the registry \<open>winston.loggers\<close>, the clock and the calls the
  backend received).  An \<open>event\<close> is one thing that can happen: the host constructs a
  facade, calls a level method of the \<open>i\<close>-th facade, writes a property of a
  configuration object, allocates an object, or time passes.  \<open>exec_event\<close> runs
  one event (\<open>None\<close> for an event that cannot happen in that state: a facade index
  out of range, or a host action naming an object that does not exist); the
  reachable states are those of \<open>reachable\<close>, built by rule from a well-formed
  initial heap.  The invariant \<open>sys_inv\<close> says that the heap is well formed, every
  registered logger is registered under its name, every backend call names a
  registered logger, and every facade's configuration and cached logger are
  consistent with the world.
\<close>

record sys =
  facades :: "plugin list"
  world :: world

datatype event =
    Construct config
  | Call nat level "jsval list"
  | HostWrite jsval string jsval
  | HostAlloc obj
  | ClockSet int

text \<open>A value holds no forged closure: the module's timestamp closure always
  captures the transport object it was made for.  The host can copy closures it
  read, but not make new ones.\<close>

fun fn_ok :: "jsval \<Rightarrow> bool" where
  "fn_ok (JFun (TimestampFn p t)) = (case t of JObj a \<Rightarrow> True | _ \<Rightarrow> False)"
| "fn_ok v = True"

definition obj_fns_ok :: "obj \<Rightarrow> bool" where
  "obj_fns_ok ob \<longleftrightarrow> list_all (\<lambda>(k, v). fn_ok v) ob"

definition heap_fns_ok :: "heap \<Rightarrow> bool" where
  "heap_fns_ok h \<longleftrightarrow> list_all obj_fns_ok h"

fun exec_event :: "event \<Rightarrow> sys \<Rightarrow> ((js_error + unit) \<times> sys) option" where
  "exec_event (Construct cfg) s =
     (if val_ok (heap (world s)) (cfg_log cfg)
      then Some (Inr (), s\<lparr>facades := facades s @ [new_plugin cfg]\<rparr>) else None)"
| "exec_event (Call i lv args) s =
     (if i < length (facades s)
      then (case level_method lv (facades s ! i) (world s) args of
              (r, p', w') \<Rightarrow> Some (r, s\<lparr>facades := (facades s)[i := p'], world := w'\<rparr>))
      else None)"
| "exec_event (HostWrite v k x) s =
     (if val_ok (heap (world s)) x \<and> fn_ok x
      then (case put_prop (heap (world s)) v k x of
              Inl e \<Rightarrow> Some (Inl e, s)
            | Inr h' \<Rightarrow> Some (Inr (), s\<lparr>world := (world s)\<lparr>heap := h'\<rparr>\<rparr>))
      else None)"
| "exec_event (HostAlloc ob) s =
     (if obj_ok (heap (world s) @ [ob]) ob \<and> obj_fns_ok ob
      then Some (Inr (), s\<lparr>world := (world s)\<lparr>heap := heap (world s) @ [ob]\<rparr>\<rparr>) else None)"
| "exec_event (ClockSet t) s = Some (Inr (), s\<lparr>world := (world s)\<lparr>clock := t\<rparr>\<rparr>)"

text \<open>A sequence of events run in order; the results are collected in order.\<close>

fun exec_events :: "event list \<Rightarrow> sys \<Rightarrow> ((js_error + unit) list \<times> sys) option" where
  "exec_events [] s = Some ([], s)"
| "exec_events (e # es) s =
     (case exec_event e s of
        None \<Rightarrow> None
      | Some (r, s') \<Rightarrow>
          (case exec_events es s' of
             None \<Rightarrow> None
           | Some (rs, s'') \<Rightarrow> Some (r # rs, s'')))"

definition init_sys :: "heap \<Rightarrow> int \<Rightarrow> sys" where
  "init_sys h t = \<lparr>facades = [], world = \<lparr>heap = h, registry = Map.empty, clock = t, emitted = []\<rparr>\<rparr>"

text \<open>A small configuration for concrete runs: the \<open>log\<close> section (object 0) has
  one transport \<open>console\<close> (object 1) with a string timestamp and \<open>colorize\<close>.\<close>

definition demo_heap :: heap where
  "demo_heap = [[(''console'', JObj 1)], [(''timestamp'', JStr ''HH:MM''), (''colorize'', JStr ''true'')]]"

definition demo_config :: config where
  "demo_config = \<lparr>cfg_id = JStr ''app'', cfg_log = JObj 0\<rparr>"

definition demo_events :: "event list" where
  "demo_events = [Construct demo_config, Call 0 Info [JStr ''hi''], ClockSet 9, Call 0 Warn [JStr ''bye'']]"

text \<open>The state after the first \<open>info\<close> call of the demo run: the facade holds
  logger \<open>app7\<close>, registered, and the timestamp is a closure.\<close>

definition demo_logger :: logger where
  "demo_logger = \<lparr>lg_name = ''app7'', lg_opts = JObj 0\<rparr>"

definition demo_ready :: sys where
  "demo_ready =
     \<lparr>facades = [\<lparr>config = demo_config, logger_slot = Some demo_logger\<rparr>],
      world = \<lparr>heap = [[(''console'', JObj 1)],
                       [(''timestamp'', JFun (TimestampFn ''HH:MM'' (JObj 1))), (''colorize'', JStr ''true'')]],
               registry = [''app7'' \<mapsto> demo_logger], clock = 7,
               emitted = [\<lparr>call_logger = ''app7'', call_args = [JStr ''info'', JStr ''hi'']\<rparr>]\<rparr>\<rparr>"

definition demo_after_warn :: sys where
  "demo_after_warn =
     demo_ready\<lparr>world := (world demo_ready)\<lparr>emitted :=
        emitted (world demo_ready) @ [\<lparr>call_logger = ''app7'', call_args = [JStr ''warn'', JStr ''bye'']\<rparr>]\<rparr>\<rparr>"

inductive reachable :: "sys \<Rightarrow> bool" where
  init: "heap_ok h \<Longrightarrow> heap_fns_ok h \<Longrightarrow> reachable (init_sys h t)"
| step: "reachable s \<Longrightarrow> exec_event e s = Some (r, s') \<Longrightarrow> reachable s'"

subsection \<open>The invariant\<close>

definition slot_ok :: "registry \<Rightarrow> plugin \<Rightarrow> bool" where
  "slot_ok reg p \<longleftrightarrow> (case logger_slot p of None \<Rightarrow> True | Some l \<Rightarrow> reg (lg_name l) = Some l)"

definition fac_ok :: "world \<Rightarrow> plugin \<Rightarrow> bool" where
  "fac_ok w p \<longleftrightarrow> val_ok (heap w) (cfg_log (config p)) \<and> slot_ok (registry w) p"

definition world_ok :: "world \<Rightarrow> bool" where
  "world_ok w \<longleftrightarrow> heap_ok (heap w) \<and> reg_ok (registry w) \<and>
     (\<forall>c \<in> set (emitted w). registry w (call_logger c) \<noteq> None)"

definition sys_inv :: "sys \<Rightarrow> bool" where
  "sys_inv s \<longleftrightarrow> world_ok (world s) \<and> (\<forall>p \<in> set (facades s). fac_ok (world s) p)"

subsection \<open>Lemmas\<close>

lemma rewrite_transport_heap_ok:
  assumes "heap_ok h" "val_ok h t" "rewrite_transport h t = Inr h1"
  shows "heap_ok h1 \<and> length h1 = length h"
proof (cases "get_prop h t ''timestamp''")
  case (Inr fmt)
  show ?thesis
  proof (cases fmt)
    case (JStr pat)
    then have put: "put_prop h t ''timestamp'' (JFun (TimestampFn pat t)) = Inr h1"
      using Inr assms(3) by (simp add: rewrite_transport_def)
    have "val_ok h (JFun (TimestampFn pat t))" using assms(2) by simp
    then show ?thesis using assms(1) put heap_ok_put_prop put_prop_obj_length by blast
  qed (use Inr assms in \<open>auto simp: rewrite_transport_def\<close>)
qed (use assms(3) in \<open>simp add: rewrite_transport_def\<close>)

lemma rewrite_loop_heap_ok:
  "heap_ok h \<Longrightarrow> val_ok h lo \<Longrightarrow> rewrite_loop lo ks h = (r, h') \<Longrightarrow>
   heap_ok h' \<and> length h' = length h"
proof (induction lo ks h rule: rewrite_loop.induct)
  case (2 lo n ns h)
  show ?case
  proof (cases "get_prop h lo n")
    case get: (Inr t)
    have t: "val_ok h t" using "2.prems"(1) get by (rule val_ok_get_prop)
    show ?thesis
    proof (cases "rewrite_transport h t")
      case rw: (Inr h1)
      have h1: "heap_ok h1 \<and> length h1 = length h"
        using "2.prems"(1) t rw by (rule rewrite_transport_heap_ok)
      moreover have "val_ok h1 lo" using "2.prems"(2) h1 val_ok_mono by simp
      ultimately show ?thesis using "2.IH" [OF get rw] get rw "2.prems"(3) by simp
    qed (use "2.prems" get in simp)
  qed (use "2.prems" in simp)
qed simp

lemma slot_ok_mono: "slot_ok reg p \<Longrightarrow> reg \<subseteq>\<^sub>m reg' \<Longrightarrow> slot_ok reg' p"
  by (simp add: slot_ok_def split: option.splits) (metis domI map_le_def)

lemma fac_ok_mono:
  "fac_ok w q \<Longrightarrow> registry w \<subseteq>\<^sub>m registry w' \<Longrightarrow> length (heap w) \<le> length (heap w') \<Longrightarrow>
   fac_ok w' q"
  by (auto simp: fac_ok_def intro: slot_ok_mono val_ok_mono)

lemma calls_registered_mono:
  "\<forall>c \<in> set cs. reg (call_logger c) \<noteq> None \<Longrightarrow> reg \<subseteq>\<^sub>m reg' \<Longrightarrow>
   \<forall>c \<in> set cs. reg' (call_logger c) \<noteq> None"
  by (metis domD domIff map_le_implies_dom_le subsetD)

text \<open>What \<open>_getLogger\<close> does to the world, on every branch: the invariant is
  kept, the registry only grows, no object is allocated, no call is emitted.\<close>

lemma get_logger_world:
  assumes ok: "world_ok w" "fac_ok w p" and g: "get_logger p w = (r, p', w')"
  shows "world_ok w' \<and> fac_ok w' p' \<and> registry w \<subseteq>\<^sub>m registry w' \<and>
         length (heap w') = length (heap w) \<and> emitted w' = emitted w \<and> config p' = config p"
proof (cases "logger_slot p")
  case None
  obtain e h' where loop: "rewrite_loop (cfg_log (config p)) (for_in_keys (heap w) (cfg_log (config p))) (heap w) = (e, h')"
    by fastforce
  have h': "heap_ok h' \<and> length h' = length (heap w)"
    using rewrite_loop_heap_ok [OF _ _ loop] ok unfolding world_ok_def fac_ok_def by blast
  show ?thesis
  proof (cases e)
    case None
    obtain l reg' where add: "loggers_add (registry w) (log_id (config p) (clock w)) (cfg_log (config p)) = (l, reg')"
      by fastforce
    have grow: "registry w \<subseteq>\<^sub>m reg'" using add by (rule loggers_add_grows)
    have reg': "reg_ok reg'" using add ok(1) by (auto simp: world_ok_def intro: reg_ok_add)
    have "reg' (lg_name l) = Some l"
      using add loggers_add_registered loggers_add_name ok(1) by (fastforce simp: world_ok_def)
    then have "slot_ok reg' (p\<lparr>logger_slot := Some l\<rparr>)" by (simp add: slot_ok_def)
    moreover have "\<forall>c \<in> set (emitted w). reg' (call_logger c) \<noteq> None"
      using ok(1) grow calls_registered_mono unfolding world_ok_def by blast
    ultimately show ?thesis using g \<open>logger_slot p = None\<close> loop None add h' grow reg' ok
      by (auto simp: get_logger_def world_ok_def fac_ok_def intro: val_ok_mono)
  next
    case (Some err)
    with g \<open>logger_slot p = None\<close> loop h' ok show ?thesis
      by (auto simp: get_logger_def world_ok_def fac_ok_def slot_ok_def intro: val_ok_mono)
  qed
next
  case (Some l)
  with g ok show ?thesis by (simp add: get_logger_def)
qed

lemma get_logger_cached:
  "logger_slot p = Some l \<Longrightarrow> get_logger p w = (r, p', w') \<Longrightarrow> r = Inr l \<and> p' = p \<and> w' = w"
  by (simp add: get_logger_def)

text \<open>What \<open>log\<close> does to the world: the invariant is kept, the registry only grows,
  no object is allocated, at most one call is appended, and a cached logger stays.\<close>

lemma plugin_log_world:
  assumes ok: "world_ok w" "fac_ok w p" and lg: "plugin_log p w args = (r, p', w')"
  shows "world_ok w' \<and> fac_ok w' p' \<and> registry w \<subseteq>\<^sub>m registry w' \<and>
         length (heap w') = length (heap w) \<and>
         (\<exists>xs. emitted w' = emitted w @ xs \<and> length xs \<le> 1) \<and>
         (\<forall>l. logger_slot p = Some l \<longrightarrow> logger_slot p' = Some l)"
proof -
  obtain r1 p1 w1 where g: "get_logger p w = (r1, p1, w1)" by (cases "get_logger p w") auto
  have gw: "world_ok w1 \<and> fac_ok w1 p1 \<and> registry w \<subseteq>\<^sub>m registry w1 \<and>
            length (heap w1) = length (heap w) \<and> emitted w1 = emitted w \<and> config p1 = config p"
    using ok g by (rule get_logger_world)
  have keep: "logger_slot p1 = Some l" if "logger_slot p = Some l" for l
    using get_logger_cached [OF that g] that by simp
  show ?thesis
  proof (cases r1)
    case (Inl e)
    with lg g gw keep show ?thesis by (auto simp: plugin_log_def)
  next
    case (Inr l)
    then have "logger_slot p1 = Some l" using g get_logger_Inr by blast
    then have reg: "registry w1 (lg_name l) \<noteq> None"
      using gw by (simp add: fac_ok_def slot_ok_def)
    have "w' = w1\<lparr>emitted := logger_log l args (emitted w1)\<rparr>" "p' = p1"
      using lg g Inr by (simp_all add: plugin_log_def)
    with gw reg keep show ?thesis
      by (auto simp: world_ok_def fac_ok_def slot_ok_def logger_log_def)
  qed
qed

lemma level_method_world:
  "world_ok w \<Longrightarrow> fac_ok w p \<Longrightarrow> level_method lv p w args = (r, p', w') \<Longrightarrow>
   world_ok w' \<and> fac_ok w' p' \<and> registry w \<subseteq>\<^sub>m registry w' \<and>
   length (heap w') = length (heap w) \<and>
   (\<exists>xs. emitted w' = emitted w @ xs \<and> length xs \<le> 1) \<and>
   (\<forall>l. logger_slot p = Some l \<longrightarrow> logger_slot p' = Some l)"
  unfolding level_method_log by (rule plugin_log_world)

lemma obj_ok_mono: "obj_ok h ob \<Longrightarrow> length h \<le> length h' \<Longrightarrow> obj_ok h' ob"
  by (auto simp: obj_ok_def list_all_iff intro: val_ok_mono)

lemma heap_ok_alloc: "heap_ok h \<Longrightarrow> obj_ok (h @ [ob]) ob \<Longrightarrow> heap_ok (h @ [ob])"
  by (auto simp: heap_ok_def list_all_iff intro: obj_ok_mono)

lemma facades_ok_mono:
  "\<forall>q \<in> set qs. fac_ok w q \<Longrightarrow> registry w \<subseteq>\<^sub>m registry w' \<Longrightarrow> length (heap w) \<le> length (heap w') \<Longrightarrow>
   \<forall>q \<in> set qs. fac_ok w' q"
  using fac_ok_mono by blast

lemma exec_call_inv:
  assumes inv: "sys_inv s" and i: "i < length (facades s)"
    and m: "level_method lv (facades s ! i) (world s) args = (r, p', w')"
  shows "sys_inv (s\<lparr>facades := (facades s)[i := p'], world := w'\<rparr>)"
proof -
  have all: "\<forall>q \<in> set (facades s). fac_ok (world s) q" and ok: "world_ok (world s)"
    using inv by (simp_all add: sys_inv_def)
  have w': "world_ok w'" "fac_ok w' p'" "registry (world s) \<subseteq>\<^sub>m registry w'"
    "length (heap w') = length (heap (world s))"
    using level_method_world [OF ok _ m] all i by simp_all
  have "\<forall>q \<in> set (facades s). fac_ok w' q"
    using facades_ok_mono [OF all w'(3)] w'(4) by simp
  then have "\<forall>q \<in> set ((facades s)[i := p']). fac_ok w' q"
    using w'(2) set_update_subset_insert [of "facades s" i p'] by blast
  then show ?thesis using w'(1) by (simp add: sys_inv_def)
qed

lemma exec_write_inv:
  assumes inv: "sys_inv s" and x: "val_ok (heap (world s)) x"
    and put: "put_prop (heap (world s)) v k x = Inr h'"
  shows "sys_inv (s\<lparr>world := (world s)\<lparr>heap := h'\<rparr>\<rparr>)"
proof -
  have "heap_ok h'" using inv x put heap_ok_put_prop by (auto simp: sys_inv_def world_ok_def)
  moreover have "length h' = length (heap (world s))" using put by (rule put_prop_obj_length)
  ultimately show ?thesis using inv facades_ok_mono [of "facades s" "world s" "(world s)\<lparr>heap := h'\<rparr>"]
    by (simp add: sys_inv_def world_ok_def)
qed

lemma exec_alloc_inv:
  assumes inv: "sys_inv s" and ob: "obj_ok (heap (world s) @ [ob]) ob"
  shows "sys_inv (s\<lparr>world := (world s)\<lparr>heap := heap (world s) @ [ob]\<rparr>\<rparr>)"
proof -
  have "heap_ok (heap (world s) @ [ob])"
    using inv ob heap_ok_alloc by (auto simp: sys_inv_def world_ok_def)
  then show ?thesis
    using inv facades_ok_mono [of "facades s" "world s" "(world s)\<lparr>heap := heap (world s) @ [ob]\<rparr>"]
    by (simp add: sys_inv_def world_ok_def)
qed

lemma exec_event_inv: "sys_inv s \<Longrightarrow> exec_event e s = Some (r, s') \<Longrightarrow> sys_inv s'"
proof (induction e)
  case (Construct cfg)
  then have "s' = s\<lparr>facades := facades s @ [new_plugin cfg]\<rparr>" "val_ok (heap (world s)) (cfg_log cfg)"
    by (simp_all split: if_splits)
  with Construct.prems(1) show ?case
    by (simp add: sys_inv_def fac_ok_def slot_ok_def new_plugin_def)
next
  case (Call i lv args)
  then show ?case by (auto split: if_splits prod.splits intro: exec_call_inv)
next
  case (HostWrite v k x)
  then show ?case by (auto split: if_splits sum.splits intro: exec_write_inv)
next
  case (HostAlloc ob)
  then show ?case by (auto split: if_splits intro: exec_alloc_inv)
next
  case (ClockSet t)
  then show ?case by (auto simp: sys_inv_def world_ok_def fac_ok_def)
qed

lemma init_sys_inv: "heap_ok h \<Longrightarrow> sys_inv (init_sys h t)"
  by (simp add: init_sys_def sys_inv_def world_ok_def reg_ok_def)

lemma get_logger_registry_grows:
  "get_logger p w = (r, p', w') \<Longrightarrow> registry w \<subseteq>\<^sub>m registry w'"
  by (auto simp: get_logger_def Let_def split: option.splits prod.splits
           dest: loggers_add_grows)

text \<open>What \<open>log\<close> does to the registry, the calls and the cache, whatever the
  state: the registry only grows, at most one call is appended, a cached logger
  stays.\<close>

lemma plugin_log_effects:
  assumes lg: "plugin_log p w args = (r, p', w')"
  shows "registry w \<subseteq>\<^sub>m registry w' \<and> (\<exists>xs. emitted w' = emitted w @ xs \<and> length xs \<le> 1) \<and>
         (\<forall>l. logger_slot p = Some l \<longrightarrow> logger_slot p' = Some l)"
proof -
  obtain r1 p1 w1 where g: "get_logger p w = (r1, p1, w1)" by (cases "get_logger p w") auto
  have grow: "registry w \<subseteq>\<^sub>m registry w1" using g by (rule get_logger_registry_grows)
  have em: "emitted w1 = emitted w" using g get_logger_emitted by blast
  have keep: "logger_slot p1 = Some l" if "logger_slot p = Some l" for l
    using get_logger_cached [OF that g] that by simp
  show ?thesis
  proof (cases r1)
    case (Inl e)
    with lg g grow em keep show ?thesis by (auto simp: plugin_log_def)
  next
    case (Inr l)
    with lg g grow em keep show ?thesis by (auto simp: plugin_log_def logger_log_def)
  qed
qed

lemma exec_event_effects:
  assumes ex: "exec_event e s = Some (r, s')"
  shows "registry (world s) \<subseteq>\<^sub>m registry (world s') \<and>
         (\<exists>xs. emitted (world s') = emitted (world s) @ xs \<and> length xs \<le> 1) \<and>
         length (facades s) \<le> length (facades s') \<and>
         (\<forall>i l. i < length (facades s) \<longrightarrow> logger_slot (facades s ! i) = Some l \<longrightarrow>
                logger_slot (facades s' ! i) = Some l)"
proof (cases e)
  case (Call i lv args)
  obtain p' w' where m: "level_method lv (facades s ! i) (world s) args = (r, p', w')"
    and i: "i < length (facades s)" and s': "s' = s\<lparr>facades := (facades s)[i := p'], world := w'\<rparr>"
    using ex Call by (auto split: if_splits prod.splits)
  have "plugin_log (facades s ! i) (world s) (JStr (level_name lv) # args) = (r, p', w')"
    using m by (simp add: level_method_log)
  note pl = plugin_log_effects [OF this]
  show ?thesis
  proof (intro conjI allI impI)
    fix j l assume "j < length (facades s)" "logger_slot (facades s ! j) = Some l"
    then show "logger_slot (facades s' ! j) = Some l" using pl s' by (cases "j = i") auto
  qed (use pl s' in auto)
qed (use ex in \<open>auto simp: nth_append split: if_splits sum.splits\<close>)


lemma plugin_log_registry:
  "plugin_log p w args = (r, p', w') \<Longrightarrow>
   registry w' = registry w \<or>
   (logger_slot p = None \<and> (\<exists>l. logger_slot p' = Some l \<and> registry w' = (registry w)(lg_name l \<mapsto> l)))"
  by (auto simp: plugin_log_def split: prod.splits sum.splits dest!: get_logger_registry)

lemma reachable_exec_events:
  "reachable s \<Longrightarrow> exec_events es s = Some (rs, s') \<Longrightarrow> reachable s'"
proof (induction es arbitrary: s rs)
  case (Cons e es)
  then obtain r s1 rs1 where "exec_event e s = Some (r, s1)" "exec_events es s1 = Some (rs1, s')"
    by (auto split: option.splits prod.splits)
  with Cons show ?case by (blast intro: reachable.step)
qed simp

lemmas demo_simps = demo_heap_def demo_config_def demo_events_def init_sys_def new_plugin_def
  demo_logger_def demo_ready_def demo_after_warn_def
  get_logger_def plugin_log_def info_def warn_def log_id_def loggers_add_def rewrite_transport_def
  obj_at_def logger_log_def int_str_def nat_str.simps

subsection \<open>Properties of the running module\<close>

text \<open>C30: in every reachable state the invariant holds: the heap is well formed,
  the registry maps each id to the logger of that name, every backend call names a
  registered logger, and every facade's cached logger is the one registered under
  its name.\<close>

theorem reachable_sys_inv: "reachable s \<Longrightarrow> sys_inv s"
proof (induction rule: reachable.induct)
  case (init h t)
  then show ?case by (simp add: init_sys_inv)
next
  case (step s e r s')
  then show ?case by (blast intro: exec_event_inv)
qed

theorem reachable_sys_inv_witness:
  "reachable (snd (the (exec_events demo_events (init_sys demo_heap 7)))) \<and>
   sys_inv (snd (the (exec_events demo_events (init_sys demo_heap 7))))"
proof -
  have h: "heap_ok demo_heap" by (simp add: demo_heap_def heap_ok_def obj_ok_def)
  have f: "heap_fns_ok demo_heap" by (simp add: demo_heap_def heap_fns_ok_def obj_fns_ok_def)
  have "\<exists>rs s'. exec_events demo_events (init_sys demo_heap 7) = Some (rs, s')"
    by (simp add: demo_simps Let_def)
  then have "reachable (snd (the (exec_events demo_events (init_sys demo_heap 7))))"
    using reachable_exec_events [OF reachable.init [OF h f]] by fastforce
  with reachable_sys_inv show ?thesis by blast
qed

text \<open>C31: the registry changes only on a facade's first successful call, and then
  by the one entry of the logger the facade now caches; every other event (a call
  of a facade that holds a logger, a failed call, construction, host actions, time)
  leaves it as it was.\<close>

theorem exec_event_registry_changes_once:
  assumes "exec_event e s = Some (r, s')"
  shows "registry (world s') = registry (world s) \<or>
         (\<exists>i lv args l. e = Call i lv args \<and> logger_slot (facades s ! i) = None \<and>
            logger_slot (facades s' ! i) = Some l \<and>
            registry (world s') = (registry (world s))(lg_name l \<mapsto> l))"
proof (cases e)
  case (Call i lv args)
  obtain p' w' where m: "level_method lv (facades s ! i) (world s) args = (r, p', w')"
    and i: "i < length (facades s)" and s': "s' = s\<lparr>facades := (facades s)[i := p'], world := w'\<rparr>"
    using assms Call by (auto split: if_splits prod.splits)
  have "plugin_log (facades s ! i) (world s) (JStr (level_name lv) # args) = (r, p', w')"
    using m by (simp add: level_method_log)
  from plugin_log_registry [OF this] show ?thesis using Call i s' by auto
qed (use assms in \<open>auto split: if_splits sum.splits\<close>)

theorem exec_event_registry_changes_once_witness:
  "exec_event (Call 0 Info [JStr ''hi'']) ((init_sys demo_heap 7)\<lparr>facades := [new_plugin demo_config]\<rparr>) =
     Some (Inr (), demo_ready) \<and>
   registry (world demo_ready) \<noteq> registry (world ((init_sys demo_heap 7)\<lparr>facades := [new_plugin demo_config]\<rparr>)) \<and>
   logger_slot ([new_plugin demo_config] ! 0) = None \<and> logger_slot (facades demo_ready ! 0) = Some demo_logger \<and>
   registry (world demo_ready) =
     (registry (world ((init_sys demo_heap 7)\<lparr>facades := [new_plugin demo_config]\<rparr>)))(lg_name demo_logger \<mapsto> demo_logger)"
proof -
  have ex: "exec_event (Call 0 Info [JStr ''hi'']) ((init_sys demo_heap 7)\<lparr>facades := [new_plugin demo_config]\<rparr>) =
     Some (Inr (), demo_ready)"
    by (simp add: demo_simps Let_def)
  note c = exec_event_registry_changes_once [OF ex]
  have "registry (world demo_ready) \<noteq> registry (world ((init_sys demo_heap 7)\<lparr>facades := [new_plugin demo_config]\<rparr>))"
    by (simp add: demo_simps fun_eq_iff)
  with c ex show ?thesis by (auto simp: demo_simps)
qed

text \<open>C32: once a facade holds a logger, no event (its own later calls, other
  facades, writes to the configuration, time) takes it away or replaces it.\<close>

theorem exec_event_keeps_logger:
  "exec_event e s = Some (r, s') \<Longrightarrow> i < length (facades s) \<Longrightarrow>
   logger_slot (facades s ! i) = Some l \<Longrightarrow>
   i < length (facades s') \<and> logger_slot (facades s' ! i) = Some l"
  using exec_event_effects by fastforce

theorem exec_event_keeps_logger_witness:
  "exec_event (Call 0 Warn [JStr ''bye'']) demo_ready = Some (Inr (), demo_after_warn) \<and>
   0 < length (facades demo_ready) \<and> logger_slot (facades demo_ready ! 0) = Some demo_logger \<and>
   0 < length (facades demo_after_warn) \<and> logger_slot (facades demo_after_warn ! 0) = Some demo_logger"
proof -
  have ex: "exec_event (Call 0 Warn [JStr ''bye'']) demo_ready = Some (Inr (), demo_after_warn)"
    by (simp add: demo_simps)
  moreover have a: "0 < length (facades demo_ready)" "logger_slot (facades demo_ready ! 0) = Some demo_logger"
    by (simp_all add: demo_ready_def)
  moreover have "0 < length (facades demo_after_warn) \<and> logger_slot (facades demo_after_warn ! 0) = Some demo_logger"
    by (rule exec_event_keeps_logger [OF ex a])
  ultimately show ?thesis by simp
qed

text \<open>C33: each event appends at most one call to what the backend received, and
  never changes the calls already made.\<close>

theorem exec_event_emits_at_most_one:
  "exec_event e s = Some (r, s') \<Longrightarrow>
   \<exists>xs. emitted (world s') = emitted (world s) @ xs \<and> length xs \<le> 1"
  using exec_event_effects by blast

theorem exec_event_emits_at_most_one_witness:
  "exec_event (Call 0 Warn [JStr ''bye'']) demo_ready = Some (Inr (), demo_after_warn) \<and>
   (\<exists>xs. emitted (world demo_after_warn) = emitted (world demo_ready) @ xs \<and> length xs \<le> 1)"
proof -
  have ex: "exec_event (Call 0 Warn [JStr ''bye'']) demo_ready = Some (Inr (), demo_after_warn)"
    by (simp add: demo_simps)
  then show ?thesis using exec_event_emits_at_most_one [OF ex] by simp
qed

text \<open>C34: in a state satisfying the invariant, a level method of a facade that
  holds a logger always succeeds and makes one backend call to that logger, which is
  registered.\<close>

theorem call_with_logger_logs:
  assumes inv: "sys_inv s" and i: "i < length (facades s)" and l: "logger_slot (facades s ! i) = Some l"
  shows "\<exists>s'. exec_event (Call i lv args) s = Some (Inr (), s') \<and>
           emitted (world s') = emitted (world s) @
             [\<lparr>call_logger = lg_name l, call_args = JStr (level_name lv) # args\<rparr>] \<and>
           registry (world s') (lg_name l) = Some l"
proof -
  have "registry (world s) (lg_name l) = Some l"
  proof -
    have "fac_ok (world s) (facades s ! i)" using inv i by (simp add: sys_inv_def)
    with l show ?thesis by (simp add: fac_ok_def slot_ok_def)
  qed
  with i l show ?thesis
    by (simp add: level_method_log plugin_log_def get_logger_def logger_log_def)
qed


theorem call_with_logger_logs_witness:
  "sys_inv demo_ready \<and> 0 < length (facades demo_ready) \<and>
   logger_slot (facades demo_ready ! 0) = Some demo_logger \<and>
   (\<exists>s'. exec_event (Call 0 Warn [JStr ''bye'']) demo_ready = Some (Inr (), s') \<and>
         emitted (world s') = emitted (world demo_ready) @
           [\<lparr>call_logger = lg_name demo_logger, call_args = JStr (level_name Warn) # [JStr ''bye'']\<rparr>] \<and>
         registry (world s') (lg_name demo_logger) = Some demo_logger)"
proof -
  have inv: "sys_inv demo_ready"
    by (simp add: demo_simps sys_inv_def world_ok_def heap_ok_def obj_ok_def reg_ok_def
                  fac_ok_def slot_ok_def)
  have "0 < length (facades demo_ready)" "logger_slot (facades demo_ready ! 0) = Some demo_logger"
    by (simp_all add: demo_ready_def)
  with inv show ?thesis using call_with_logger_logs [OF inv] by blast
qed

text \<open>An end-to-end run of the module: constructing a facade, an \<open>info\<close> call at
  time 7, the clock moving to 9 and a \<open>warn\<close> call.  The first call rewrites the
  transport's timestamp into the closure, registers logger \<open>app7\<close> and sends it the
  call; the second goes to the same logger although the time changed.\<close>

theorem demo_run:
  "exec_events demo_events (init_sys demo_heap 7) =
     Some ([Inr (), Inr (), Inr (), Inr ()], demo_after_warn\<lparr>world := (world demo_after_warn)\<lparr>clock := 9\<rparr>\<rparr>)"
  by (simp add: demo_simps Let_def)

end
