(* ===== verification/FacadeSpec.thy ===== *)
theory FacadeSpec
  imports FacadeSystem
begin

text \<open>
  The contract of sections 4.2, 4.3 and 9 of the spec, stated without heaps,
  transports or times: each facade is bound to at most one logger name, fixed at its
  first successful log call; the backend's registry is a set of names that only
  grows (retrieve-or-create); every successful log call sends one call, the level
  first, to the facade's logger.  A first call may also fail, with nothing visible
  at this level; host actions are invisible.  \<open>abs_sys\<close> reads this abstract state
  off a state of \<open>FacadeSystem\<close>, and the refinement theorem says that every event
  of the detailed model is a step the contract allows.
\<close>

record asys =
  a_bound :: "string option list"
  a_names :: "string set"
  a_calls :: "(string \<times> jsval list) list"

definition abs_sys :: "sys \<Rightarrow> asys" where
  "abs_sys s =
     \<lparr>a_bound = map (\<lambda>p. map_option lg_name (logger_slot p)) (facades s),
      a_names = dom (registry (world s)),
      a_calls = map (\<lambda>c. (call_logger c, call_args c)) (emitted (world s))\<rparr>"

inductive aspec_step :: "event \<Rightarrow> asys \<Rightarrow> js_error + unit \<Rightarrow> asys \<Rightarrow> bool" where
  construct: "aspec_step (Construct cfg) a (Inr ()) (a\<lparr>a_bound := a_bound a @ [None]\<rparr>)"
| call_bound: "i < length (a_bound a) \<Longrightarrow> a_bound a ! i = Some n \<Longrightarrow>
    aspec_step (Call i lv args) a (Inr ())
      (a\<lparr>a_calls := a_calls a @ [(n, JStr (level_name lv) # args)]\<rparr>)"
| call_first: "i < length (a_bound a) \<Longrightarrow> a_bound a ! i = None \<Longrightarrow>
    aspec_step (Call i lv args) a (Inr ())
      (a\<lparr>a_bound := (a_bound a)[i := Some n], a_names := insert n (a_names a),
          a_calls := a_calls a @ [(n, JStr (level_name lv) # args)]\<rparr>)"
| call_fails: "i < length (a_bound a) \<Longrightarrow> a_bound a ! i = None \<Longrightarrow>
    aspec_step (Call i lv args) a (Inl e) a"
| host_write: "aspec_step (HostWrite v k x) a r a"
| host_alloc: "aspec_step (HostAlloc ob) a (Inr ()) a"
| clock_set: "aspec_step (ClockSet t) a (Inr ()) a"

text \<open>Runs of the contract: the events in order, with their results.\<close>

inductive aspec_run :: "event list \<Rightarrow> asys \<Rightarrow> (js_error + unit) list \<Rightarrow> asys \<Rightarrow> bool" where
  nil: "aspec_run [] a [] a"
| cons: "aspec_step e a r a1 \<Longrightarrow> aspec_run es a1 rs a2 \<Longrightarrow> aspec_run (e # es) a (r # rs) a2"

text \<open>The number of facades that hold a logger, and the bound it puts on the
  registry.\<close>

definition initialised :: "plugin list \<Rightarrow> nat" where
  "initialised ps = length (filter (\<lambda>p. logger_slot p \<noteq> None) ps)"

definition registry_bounded :: "sys \<Rightarrow> bool" where
  "registry_bounded s \<longleftrightarrow>
     finite (dom (registry (world s))) \<and> card (dom (registry (world s))) \<le> initialised (facades s)"

subsection \<open>Lemmas\<close>

lemma loggers_add_dom:
  "reg_ok reg \<Longrightarrow> loggers_add reg logId opts = (l, reg') \<Longrightarrow> dom reg' = insert (lg_name l) (dom reg)"
  by (auto simp: loggers_add_def Let_def reg_ok_def split: option.splits)

text \<open>The three outcomes of \<open>log\<close> as the contract sees them.\<close>

lemma plugin_log_outcomes:
  assumes ok: "reg_ok (registry w)" and lg: "plugin_log p w args = (r, p', w')"
  shows "(\<exists>l. logger_slot p = Some l \<and> r = Inr () \<and> logger_slot p' = Some l \<and>
              registry w' = registry w \<and> emitted w' = logger_log l args (emitted w)) \<or>
         (\<exists>l. logger_slot p = None \<and> r = Inr () \<and> logger_slot p' = Some l \<and>
              dom (registry w') = insert (lg_name l) (dom (registry w)) \<and>
              emitted w' = logger_log l args (emitted w)) \<or>
         (\<exists>e. logger_slot p = None \<and> r = Inl e \<and> logger_slot p' = None \<and>
              registry w' = registry w \<and> emitted w' = emitted w)"
proof (cases "logger_slot p")
  case (Some l)
  with lg show ?thesis by (auto simp: plugin_log_def get_logger_def)
next
  case None
  obtain e h' where loop:
    "rewrite_loop (cfg_log (config p)) (for_in_keys (heap w) (cfg_log (config p))) (heap w) = (e, h')"
    by fastforce
  show ?thesis
  proof (cases e)
    case None
    obtain l reg' where add: "loggers_add (registry w) (log_id (config p) (clock w)) (cfg_log (config p)) = (l, reg')"
      by fastforce
    have "dom reg' = insert (lg_name l) (dom (registry w))" using ok add by (rule loggers_add_dom)
    with lg \<open>logger_slot p = None\<close> loop None add show ?thesis
      by (auto simp: plugin_log_def get_logger_def)
  next
    case (Some err)
    with lg \<open>logger_slot p = None\<close> loop show ?thesis
      by (auto simp: plugin_log_def get_logger_def)
  qed
qed

lemma abs_sys_call:
  "i < length (facades s) \<Longrightarrow>
   abs_sys (s\<lparr>facades := (facades s)[i := p'], world := w'\<rparr>) =
   \<lparr>a_bound = (a_bound (abs_sys s))[i := map_option lg_name (logger_slot p')],
    a_names = dom (registry w'),
    a_calls = map (\<lambda>c. (call_logger c, call_args c)) (emitted w')\<rparr>"
  by (simp add: abs_sys_def map_update)

lemma exec_call_refines:
  assumes inv: "sys_inv s" and i: "i < length (facades s)"
    and m: "level_method lv (facades s ! i) (world s) args = (r, p', w')"
  shows "aspec_step (Call i lv args) (abs_sys s) r (abs_sys (s\<lparr>facades := (facades s)[i := p'], world := w'\<rparr>))"
proof -
  have ok: "reg_ok (registry (world s))" using inv by (simp add: sys_inv_def world_ok_def)
  have lg: "plugin_log (facades s ! i) (world s) (JStr (level_name lv) # args) = (r, p', w')"
    using m by (simp add: level_method_log)
  have len: "i < length (a_bound (abs_sys s))" and
    bnd: "a_bound (abs_sys s) ! i = map_option lg_name (logger_slot (facades s ! i))"
    using i by (simp_all add: abs_sys_def)
  note abs = abs_sys_call [OF i]
  from plugin_log_outcomes [OF ok lg] show ?thesis
  proof (elim disjE exE conjE)
    fix l assume "logger_slot (facades s ! i) = Some l" "r = Inr ()" "logger_slot p' = Some l"
      "registry w' = registry (world s)" "emitted w' = logger_log l (JStr (level_name lv) # args) (emitted (world s))"
    with len bnd abs show ?thesis
      using aspec_step.call_bound [of i "abs_sys s" "lg_name l" lv args]
      by (simp add: abs_sys_def logger_log_def map_update_same)
  next
    fix l assume "logger_slot (facades s ! i) = None" "r = Inr ()" "logger_slot p' = Some l"
      "dom (registry w') = insert (lg_name l) (dom (registry (world s)))"
      "emitted w' = logger_log l (JStr (level_name lv) # args) (emitted (world s))"
    with len bnd abs show ?thesis
      using aspec_step.call_first [of i "abs_sys s" lv args "lg_name l"]
      by (simp add: abs_sys_def logger_log_def)
  next
    fix e assume "logger_slot (facades s ! i) = None" "r = Inl e" "logger_slot p' = None"
      "registry w' = registry (world s)" "emitted w' = emitted (world s)"
    with len bnd abs show ?thesis
      using aspec_step.call_fails [of i "abs_sys s" lv args e]
      by (simp add: abs_sys_def map_update_same)
  qed
qed

lemma abs_sys_world_same:
  "facades s' = facades s \<Longrightarrow> registry (world s') = registry (world s) \<Longrightarrow>
   emitted (world s') = emitted (world s) \<Longrightarrow> abs_sys s' = abs_sys s"
  by (simp add: abs_sys_def)

text \<open>Every event of the detailed model, from a state satisfying the invariant,
  is a step the contract allows, with the same result.\<close>

lemma exec_event_aspec:
  assumes inv: "sys_inv s" and ex: "exec_event e s = Some (r, s')"
  shows "aspec_step e (abs_sys s) r (abs_sys s')"
proof (cases e)
  case (Construct cfg)
  with ex have "s' = s\<lparr>facades := facades s @ [new_plugin cfg]\<rparr>" "r = Inr ()"
    by (simp_all split: if_splits)
  with Construct show ?thesis
    using aspec_step.construct [of cfg "abs_sys s"] by (simp add: abs_sys_def new_plugin_def)
next
  case (Call i lv args)
  then obtain p' w' where "i < length (facades s)"
    "level_method lv (facades s ! i) (world s) args = (r, p', w')"
    "s' = s\<lparr>facades := (facades s)[i := p'], world := w'\<rparr>"
    using ex by (auto split: if_splits prod.splits)
  with Call inv show ?thesis by (simp add: exec_call_refines)
next
  case (HostWrite v k x)
  with ex have "abs_sys s' = abs_sys s"
    by (auto split: if_splits sum.splits intro: abs_sys_world_same)
  with HostWrite show ?thesis by (simp add: aspec_step.host_write)
next
  case (HostAlloc ob)
  with ex have "abs_sys s' = abs_sys s" "r = Inr ()"
    by (auto split: if_splits intro: abs_sys_world_same)
  with HostAlloc show ?thesis by (simp add: aspec_step.host_alloc)
next
  case (ClockSet t)
  with ex have "abs_sys s' = abs_sys s" "r = Inr ()"
    by (auto intro: abs_sys_world_same)
  with ClockSet show ?thesis by (simp add: aspec_step.clock_set)
qed


lemma exec_events_aspec:
  "sys_inv s \<Longrightarrow> exec_events es s = Some (rs, s') \<Longrightarrow> aspec_run es (abs_sys s) rs (abs_sys s')"
proof (induction es arbitrary: s rs)
  case Nil
  then show ?case by (auto intro: aspec_run.nil)
next
  case (Cons e es)
  then obtain r s1 rs1 where ex: "exec_event e s = Some (r, s1)" and
    rest: "exec_events es s1 = Some (rs1, s')" and rs: "rs = r # rs1"
    by (auto split: option.splits prod.splits)
  have "sys_inv s1" using Cons.prems(1) ex by (rule exec_event_inv)
  with Cons.IH rest have "aspec_run es (abs_sys s1) rs1 (abs_sys s')" by blast
  with exec_event_aspec [OF Cons.prems(1) ex] rs show ?case by (blast intro: aspec_run.cons)
qed

lemma abs_sys_init: "abs_sys (init_sys h t) = \<lparr>a_bound = [], a_names = {}, a_calls = []\<rparr>"
  by (simp add: abs_sys_def init_sys_def)

lemma initialised_update:
  "i < length ps \<Longrightarrow>
   initialised (ps[i := p']) + (if logger_slot (ps ! i) \<noteq> None then 1 else 0) =
   initialised ps + (if logger_slot p' \<noteq> None then 1 else 0)"
  unfolding initialised_def by (rule length_filter_update)

lemma exec_call_bounded:
  assumes inv: "sys_inv s" and b: "registry_bounded s" and i: "i < length (facades s)"
    and m: "level_method lv (facades s ! i) (world s) args = (r, p', w')"
  shows "registry_bounded (s\<lparr>facades := (facades s)[i := p'], world := w'\<rparr>)"
proof -
  have ok: "reg_ok (registry (world s))" using inv by (simp add: sys_inv_def world_ok_def)
  have lg: "plugin_log (facades s ! i) (world s) (JStr (level_name lv) # args) = (r, p', w')"
    using m by (simp add: level_method_log)
  note cnt = initialised_update [OF i, of p']
  from plugin_log_outcomes [OF ok lg] show ?thesis
  proof (elim disjE exE conjE)
    fix l assume "logger_slot (facades s ! i) = Some l" "logger_slot p' = Some l"
      "registry w' = registry (world s)"
    with b cnt show ?thesis by (simp add: registry_bounded_def)
  next
    fix l assume "logger_slot (facades s ! i) = None" "logger_slot p' = Some l"
      "dom (registry w') = insert (lg_name l) (dom (registry (world s)))"
    moreover have "card (insert (lg_name l) (dom (registry (world s)))) \<le> Suc (card (dom (registry (world s))))"
      using b by (simp add: registry_bounded_def card_insert_le_m1)
    ultimately show ?thesis using b cnt by (simp add: registry_bounded_def)
  next
    fix e assume "logger_slot (facades s ! i) = None" "logger_slot p' = None"
      "registry w' = registry (world s)"
    with b cnt show ?thesis by (simp add: registry_bounded_def)
  qed
qed

lemma exec_event_bounded:
  assumes inv: "sys_inv s" and b: "registry_bounded s" and ex: "exec_event e s = Some (r, s')"
  shows "registry_bounded s'"
proof (cases e)
  case (Construct cfg)
  with ex have "s' = s\<lparr>facades := facades s @ [new_plugin cfg]\<rparr>" by (simp split: if_splits)
  with b show ?thesis by (simp add: registry_bounded_def initialised_def new_plugin_def)
next
  case (Call i lv args)
  then obtain p' w' where "i < length (facades s)"
    "level_method lv (facades s ! i) (world s) args = (r, p', w')"
    "s' = s\<lparr>facades := (facades s)[i := p'], world := w'\<rparr>"
    using ex by (auto split: if_splits prod.splits)
  with inv b show ?thesis by (simp add: exec_call_bounded)
qed (use ex b in \<open>auto simp: registry_bounded_def split: if_splits sum.splits\<close>)

subsection \<open>Refinement\<close>

text \<open>C36: every run of the module from a well-formed initial heap is a run of the
  contract from the empty abstract state, with the same results: constructing adds an
  unbound facade; a call of a bound facade sends one call to its logger; a first call
  either binds the facade to a name, registers that name (new or already there) and
  sends one call, or fails with no visible effect; host actions are invisible.\<close>

theorem run_refines_contract:
  "heap_ok h \<Longrightarrow> exec_events es (init_sys h t) = Some (rs, s') \<Longrightarrow>
   aspec_run es \<lparr>a_bound = [], a_names = {}, a_calls = []\<rparr> rs (abs_sys s')"
  using exec_events_aspec [OF init_sys_inv] abs_sys_init by metis

theorem run_refines_contract_witness:
  "heap_ok demo_heap \<and>
   exec_events demo_events (init_sys demo_heap 7) =
     Some ([Inr (), Inr (), Inr (), Inr ()], demo_after_warn\<lparr>world := (world demo_after_warn)\<lparr>clock := 9\<rparr>\<rparr>) \<and>
   aspec_run demo_events \<lparr>a_bound = [], a_names = {}, a_calls = []\<rparr> [Inr (), Inr (), Inr (), Inr ()]
     (abs_sys (demo_after_warn\<lparr>world := (world demo_after_warn)\<lparr>clock := 9\<rparr>\<rparr>))"
proof -
  have h: "heap_ok demo_heap" by (simp add: demo_heap_def heap_ok_def obj_ok_def)
  have ex: "exec_events demo_events (init_sys demo_heap 7) =
     Some ([Inr (), Inr (), Inr (), Inr ()], demo_after_warn\<lparr>world := (world demo_after_warn)\<lparr>clock := 9\<rparr>\<rparr>)"
    by (simp add: demo_simps Let_def)
  show ?thesis using run_refines_contract [OF h ex] h ex by simp
qed


subsection \<open>Bounds\<close>

text \<open>C37: in every reachable state the registry holds at most as many loggers as
  there are facades holding one: the entries that accumulate for the life of the
  process (spec section 5) come one per facade, never one per log call.\<close>

theorem registry_bounded_by_facades:
  assumes "reachable s"
  shows "finite (dom (registry (world s))) \<and>
         card (dom (registry (world s))) \<le> initialised (facades s)"
proof -
  have "sys_inv s \<and> registry_bounded s"
    using assms
  proof (induction rule: reachable.induct)
    case (init h t)
    then show ?case using init_sys_inv [of h t] by (simp add: registry_bounded_def init_sys_def)
  next
    case (step s e r s')
    then show ?case by (blast intro: exec_event_inv exec_event_bounded)
  qed
  then show ?thesis by (simp add: registry_bounded_def)
qed

theorem registry_bounded_by_facades_witness:
  "reachable (demo_after_warn\<lparr>world := (world demo_after_warn)\<lparr>clock := 9\<rparr>\<rparr>) \<and>
   finite (dom (registry (world (demo_after_warn\<lparr>world := (world demo_after_warn)\<lparr>clock := 9\<rparr>\<rparr>)))) \<and>
   card (dom (registry (world (demo_after_warn\<lparr>world := (world demo_after_warn)\<lparr>clock := 9\<rparr>\<rparr>)))) \<le>
     initialised (facades (demo_after_warn\<lparr>world := (world demo_after_warn)\<lparr>clock := 9\<rparr>\<rparr>))"
proof -
  have h: "heap_ok demo_heap" by (simp add: demo_heap_def heap_ok_def obj_ok_def)
  have f: "heap_fns_ok demo_heap" by (simp add: demo_heap_def heap_fns_ok_def obj_fns_ok_def)
  have ex: "exec_events demo_events (init_sys demo_heap 7) =
     Some ([Inr (), Inr (), Inr (), Inr ()], demo_after_warn\<lparr>world := (world demo_after_warn)\<lparr>clock := 9\<rparr>\<rparr>)"
    by (simp add: demo_simps Let_def)
  have r: "reachable (demo_after_warn\<lparr>world := (world demo_after_warn)\<lparr>clock := 9\<rparr>\<rparr>)"
    by (rule reachable_exec_events [OF reachable.init [OF h f] ex])
  show ?thesis using registry_bounded_by_facades [OF r] r by simp
qed

end
