(* ===== verification/NodePath.thy ===== *)
theory NodePath
  imports Prelude
begin

text \<open>
  Node's \<open>path\<close> module on POSIX (required at line 7 of \<open>src/index.js\<close>, used by the
  helpers \<open>path\<close> and \<open>file\<close>; not part of this repository, so modelled from Node's
  documented behaviour).  A path is split at \<open>/\<close>; resolving it against the working
  directory drops empty and \<open>.\<close> segments and lets \<open>..\<close> remove the segment before
  it (never going above the root); \<open>relative(from, to)\<close> climbs with \<open>..\<close> from the
  resolved \<open>from\<close> to the longest common prefix and descends to the resolved
  \<open>to\<close>; \<open>basename\<close> is the last non-empty segment.  Paths are resolved segment
  lists; the working directory is an absolute path.
\<close>

fun split_on :: "char \<Rightarrow> string \<Rightarrow> string list" where
  "split_on c [] = [[]]"
| "split_on c (x # xs) =
     (let r = split_on c xs in if x = c then [] # r else (x # hd r) # tl r)"

fun norm_segs :: "string list \<Rightarrow> string list \<Rightarrow> string list" where
  "norm_segs st [] = rev st"
| "norm_segs st (s # ss) =
     (if s = [] \<or> s = ''.'' then norm_segs st ss
      else if s = ''..'' then norm_segs (tl st) ss
      else norm_segs (s # st) ss)"

definition path_resolve :: "string \<Rightarrow> string \<Rightarrow> string list" where
  "path_resolve cwd p =
     norm_segs [] (if p \<noteq> [] \<and> hd p = CHR ''/'' then split_on CHR ''/'' p
                   else split_on CHR ''/'' cwd @ split_on CHR ''/'' p)"

fun join_segs :: "string list \<Rightarrow> string" where
  "join_segs [] = []"
| "join_segs [s] = s"
| "join_segs (s # ss) = s @ CHR ''/'' # join_segs ss"

fun common_len :: "string list \<Rightarrow> string list \<Rightarrow> nat" where
  "common_len (x # xs) (y # ys) = (if x = y then Suc (common_len xs ys) else 0)"
| "common_len xs ys = 0"

definition path_relative :: "string \<Rightarrow> string \<Rightarrow> string \<Rightarrow> string" where
  "path_relative cwd from to =
     (let fs = path_resolve cwd from; ts = path_resolve cwd to; c = common_len fs ts
      in join_segs (replicate (length fs - c) ''..'' @ drop c ts))"

definition path_basename :: "string \<Rightarrow> string" where
  "path_basename p = (case rev (filter (\<lambda>s. s \<noteq> []) (split_on CHR ''/'' p)) of [] \<Rightarrow> [] | s # _ \<Rightarrow> s)"

text \<open>A segment a normalised path can hold.\<close>

definition plain_seg :: "string \<Rightarrow> bool" where
  "plain_seg s \<longleftrightarrow> s \<noteq> [] \<and> s \<noteq> ''.'' \<and> s \<noteq> ''..'' \<and> CHR ''/'' \<notin> set s"

subsection \<open>Lemmas\<close>

lemma split_on_nonempty [simp]: "split_on c xs \<noteq> []"
  by (induction xs) (auto simp: Let_def)

lemma split_on_no_sep: "c \<notin> set xs \<Longrightarrow> split_on c xs = [xs]"
  by (induction xs) (auto simp: Let_def)

lemma split_on_sep_free: "s \<in> set (split_on c xs) \<Longrightarrow> c \<notin> set s"
proof (induction xs arbitrary: s)
  case Nil
  then show ?case by simp
next
  case (Cons x xs)
  obtain r0 rs where "split_on c xs = r0 # rs"
    using split_on_nonempty [of c xs] by (cases "split_on c xs") auto
  with Cons show ?case by (auto simp: Let_def split: if_splits)
qed


lemma split_on_seg_sep: "c \<notin> set s \<Longrightarrow> split_on c (s @ c # rest) = s # split_on c rest"
  by (induction s) (auto simp: Let_def)

lemma split_on_join:
  "xs \<noteq> [] \<Longrightarrow> \<forall>s \<in> set xs. c \<notin> set s \<Longrightarrow> c = CHR ''/'' \<Longrightarrow> split_on c (join_segs xs) = xs"
proof (induction xs rule: join_segs.induct)
  case (2 s)
  then show ?case by (simp add: split_on_no_sep)
next
  case (3 s v vs)
  then show ?case by (simp add: split_on_seg_sep)
qed simp

lemma norm_plain_prefix:
  "\<forall>s \<in> set xs. plain_seg s \<Longrightarrow> norm_segs st (xs @ ys) = norm_segs (rev xs @ st) ys"
  by (induction xs arbitrary: st) (auto simp: plain_seg_def)

lemma norm_plain: "\<forall>s \<in> set xs. plain_seg s \<Longrightarrow> norm_segs st xs = rev st @ xs"
  using norm_plain_prefix [of xs st "[]"] by simp

lemma norm_dotdot: "norm_segs st (replicate k ''..'' @ ys) = norm_segs (drop k st) ys"
  by (induction k arbitrary: st) (auto simp: drop_Suc tl_drop)

lemma norm_segs_plain:
  "\<forall>s \<in> set st. plain_seg s \<Longrightarrow> \<forall>s \<in> set xs. CHR ''/'' \<notin> set s \<Longrightarrow>
   \<forall>s \<in> set (norm_segs st xs). plain_seg s"
proof (induction st xs rule: norm_segs.induct)
  case (2 st s ss)
  have st: "\<forall>s \<in> set st. plain_seg s" and ss: "\<forall>s \<in> set ss. CHR ''/'' \<notin> set s"
    and s: "CHR ''/'' \<notin> set s" using "2.prems" by simp_all
  show ?case
  proof (cases "s = [] \<or> s = ''.''")
    case True
    then show ?thesis using "2.IH"(1) st ss by simp
  next
    case skip: False
    show ?thesis
    proof (cases "s = ''..''")
      case True
      have "\<forall>s \<in> set (tl st). plain_seg s" using st by (auto dest: in_set_tl_in)
      then show ?thesis using "2.IH"(2) skip True ss by simp
    next
      case False
      have "plain_seg s" using skip False s by (simp add: plain_seg_def)
      then have "\<forall>x \<in> set (s # st). plain_seg x" using st by simp
      then have "\<forall>x \<in> set (norm_segs (s # st) ss). plain_seg x" using "2.IH"(3) skip False ss by blast
      moreover have "norm_segs st (s # ss) = norm_segs (s # st) ss" using skip False by simp
      ultimately show ?thesis by (simp only:)
    qed
  qed
qed simp

lemma path_resolve_plain: "\<forall>s \<in> set (path_resolve cwd p). plain_seg s"
  unfolding path_resolve_def
  by (rule norm_segs_plain) (auto dest: split_on_sep_free)

lemma common_len_le: "common_len xs ys \<le> length xs \<and> common_len xs ys \<le> length ys"
  by (induction xs ys rule: common_len.induct) auto

lemma take_common_len: "take (common_len xs ys) xs = take (common_len xs ys) ys"
  by (induction xs ys rule: common_len.induct) auto

lemma plain_no_slash: "plain_seg s \<Longrightarrow> CHR ''/'' \<notin> set s"
  by (simp add: plain_seg_def)

text \<open>Resolving the relative path from \<open>from\<close> gives the resolved \<open>to\<close>:
  \<open>path.resolve(from, path.relative(from, to)) = path.resolve(to)\<close>.\<close>

lemma path_relative_roundtrip:
  "norm_segs [] (path_resolve cwd from @ split_on CHR ''/'' (path_relative cwd from to))
     = path_resolve cwd to"
proof -
  define fs where "fs = path_resolve cwd from"
  define ts where "ts = path_resolve cwd to"
  define c where "c = common_len fs ts"
  define L where "L = replicate (length fs - c) ''..'' @ drop c ts"
  have fsp: "\<forall>s \<in> set fs. plain_seg s" and tsp: "\<forall>s \<in> set ts. plain_seg s"
    unfolding fs_def ts_def by (rule path_resolve_plain)+
  have le: "c \<le> length fs" "c \<le> length ts" using common_len_le c_def by auto
  have pre: "take c fs = take c ts" unfolding c_def by (rule take_common_len)
  have rel: "path_relative cwd from to = join_segs L"
    by (simp add: path_relative_def L_def fs_def ts_def c_def Let_def)
  have dropped: "norm_segs [] (fs @ L) = ts"
  proof -
    have "norm_segs [] (fs @ L) = norm_segs (drop (length fs - c) (rev fs)) (drop c ts)"
      using fsp by (simp add: L_def norm_plain_prefix norm_dotdot)
    also have "drop (length fs - c) (rev fs) = rev (take c fs)"
      using le by (simp add: rev_take)
    also have "norm_segs (rev (take c fs)) (drop c ts) = take c fs @ drop c ts"
    proof -
      have "\<forall>s \<in> set (drop c ts). plain_seg s" using tsp by (auto dest: in_set_dropD)
      then show ?thesis by (simp add: norm_plain)
    qed
    finally show ?thesis using pre by simp
  qed
  show ?thesis
  proof (cases "L = []")
    case True
    then have "norm_segs [] (fs @ L) = fs" using fsp by (simp add: norm_plain)
    with dropped True have "fs = ts" by simp
    with True fsp show ?thesis
      by (simp add: rel fs_def ts_def norm_plain_prefix)
  next
    case False
    have "\<forall>s \<in> set L. CHR ''/'' \<notin> set s"
    proof
      fix s assume "s \<in> set L"
      then have "s = ''..'' \<or> s \<in> set ts" by (auto simp: L_def dest: in_set_dropD)
      then show "CHR ''/'' \<notin> set s" using tsp plain_no_slash by auto
    qed
    with False have "split_on CHR ''/'' (join_segs L) = L" by (simp add: split_on_join)
    with dropped show ?thesis by (simp add: rel fs_def ts_def)
  qed
qed

lemma path_basename_no_slash: "CHR ''/'' \<notin> set (path_basename p)"
proof (cases "rev (filter (\<lambda>s. s \<noteq> []) (split_on CHR ''/'' p))")
  case Nil
  then show ?thesis by (simp add: path_basename_def)
next
  case (Cons s ss)
  then have "s \<in> set (rev (filter (\<lambda>s. s \<noteq> []) (split_on CHR ''/'' p)))" by simp
  then have "CHR ''/'' \<notin> set s" by (auto dest: split_on_sep_free)
  with Cons show ?thesis by (simp add: path_basename_def)
qed

lemma split_on_append_sep: "split_on c (xs @ c # ys) = split_on c xs @ split_on c ys"
proof (induction xs)
  case (Cons x xs)
  obtain r0 rs where r: "split_on c xs = r0 # rs"
    using split_on_nonempty [of c xs] by (cases "split_on c xs") auto
  with Cons show ?case by (simp add: Let_def)
qed (simp add: Let_def)

lemma path_basename_last:
  "name \<noteq> [] \<Longrightarrow> CHR ''/'' \<notin> set name \<Longrightarrow> path_basename (d @ CHR ''/'' # name) = name"
  by (simp add: path_basename_def split_on_append_sep split_on_no_sep)

end
