(* ===== verification/Helper.thy ===== *)
theory Helper
  imports NodePath Chalk JsValues
begin

text \<open>
  The formatting helpers of \<open>src/index.js\<close> (the object \<open>helper\<close>, lines 12--30,
  shared by every facade as \<open>this.helper\<close>).  \<open>colors\<close> is chalk's colour support
  and \<open>cwd\<close> is \<open>process.cwd()\<close>.  \<open>path\<close> and \<open>file\<close> throw Node's
  \<open>ERR_INVALID_ARG_TYPE\<close> when their path arguments are not strings; \<open>number\<close> and
  \<open>string\<close> convert any value with JavaScript's \<open>ToString\<close>.  \<open>read_int\<close> reads a
  decimal integer back; it is the reference for the round trip of \<open>number\<close>.
\<close>

definition helper_path :: "bool \<Rightarrow> string \<Rightarrow> jsval \<Rightarrow> jsval \<Rightarrow> js_error + string" where
  "helper_path colors cwd dir from =
     (let from' = js_or from (JStr cwd) in
      case from' of
        JStr f \<Rightarrow>
          (case dir of
             JStr d \<Rightarrow> Inr (chalk_style colors underline (path_relative cwd f d))
           | _ \<Rightarrow> Inl (TypeErrorArg ''to'' dir))
      | _ \<Rightarrow> Inl (TypeErrorArg ''from'' from'))"

definition helper_file :: "bool \<Rightarrow> jsval \<Rightarrow> js_error + string" where
  "helper_file colors file =
     (case file of
        JStr f \<Rightarrow> Inr (chalk_style colors underline (path_basename f))
      | _ \<Rightarrow> Inl (TypeErrorArg ''path'' file))"

definition helper_number :: "bool \<Rightarrow> jsval \<Rightarrow> string" where
  "helper_number colors n = chalk_style colors cyan (js_to_string n)"

definition helper_string :: "bool \<Rightarrow> jsval \<Rightarrow> string" where
  "helper_string colors s = chalk_style colors green (CHR ''`'' # js_to_string s @ ''`'')"

definition read_int :: "string \<Rightarrow> int" where
  "read_int s = (case s of c # ds \<Rightarrow> (if c = CHR ''-'' then - int (digits_val 0 ds) else int (digits_val 0 s))
                         | [] \<Rightarrow> 0)"

subsection \<open>Lemmas\<close>

lemma read_int_str: "read_int (int_str n) = n"
proof (cases "n < 0")
  case True
  then show ?thesis by (simp add: read_int_def int_str_def digits_val_nat_str)
next
  case False
  obtain c cs where nc: "nat_str (nat n) = c # cs"
    using nat_str_nonempty [of "nat n"] by (cases "nat_str (nat n)") auto
  have "c \<noteq> CHR ''-''" using nat_str_hd_not_minus [of "nat n"] nc by simp
  with False nc show ?thesis
    using digits_val_nat_str [of "nat n"] by (simp add: read_int_def int_str_def)
qed

lemma esc_not_in_nat_str: "esc \<notin> set (nat_str n)"
  using nat_str_digits [of n] by (auto simp: esc_def dec_digit_def)

lemma esc_not_in_int_str: "esc \<notin> set (int_str n)"
  using esc_not_in_nat_str by (auto simp: int_str_def esc_def)

lemma split_on_chars: "s \<in> set (split_on c xs) \<Longrightarrow> set s \<subseteq> set xs"
proof (induction xs arbitrary: s)
  case (Cons x xs)
  obtain r0 rs where "split_on c xs = r0 # rs"
    using split_on_nonempty [of c xs] by (cases "split_on c xs") auto
  with Cons show ?case by (fastforce simp: Let_def split: if_splits)
qed simp

lemma norm_segs_mem: "s \<in> set (norm_segs st xs) \<Longrightarrow> s \<in> set st \<or> s \<in> set xs"
  by (induction st xs rule: norm_segs.induct) (auto split: if_splits dest: in_set_tl_in)

lemma path_resolve_chars:
  assumes "s \<in> set (path_resolve cwd p)"
  shows "set s \<subseteq> set cwd \<union> set p"
proof -
  from assms have "s \<in> set (split_on CHR ''/'' cwd) \<or> s \<in> set (split_on CHR ''/'' p)"
    unfolding path_resolve_def by (auto split: if_splits dest: norm_segs_mem)
  then show ?thesis by (blast dest: split_on_chars)
qed

lemma join_segs_chars: "set (join_segs xs) \<subseteq> \<Union> (set ` set xs) \<union> {CHR ''/''}"
  by (induction xs rule: join_segs.induct) auto

lemma path_relative_chars:
  "set (path_relative cwd f d) \<subseteq> set cwd \<union> set d \<union> {CHR ''.'', CHR ''/''}"
proof -
  define c where "c = common_len (path_resolve cwd f) (path_resolve cwd d)"
  define k where "k = length (path_resolve cwd f) - c"
  have rel: "path_relative cwd f d = join_segs (replicate k ''..'' @ drop c (path_resolve cwd d))"
    unfolding path_relative_def Let_def c_def k_def ..
  have "\<Union> (set ` set (replicate k ''..'' @ drop c (path_resolve cwd d))) \<subseteq> set cwd \<union> set d \<union> {CHR ''.''}"
  proof (rule UN_least)
    fix s assume "s \<in> set (replicate k ''..'' @ drop c (path_resolve cwd d))"
    then have "s = ''..'' \<or> s \<in> set (path_resolve cwd d)" by (auto dest: in_set_dropD)
    then show "set s \<subseteq> set cwd \<union> set d \<union> {CHR ''.''}" using path_resolve_chars by auto
  qed
  then have "\<Union> (set ` set (replicate k ''..'' @ drop c (path_resolve cwd d))) \<union> {CHR ''/''}
      \<subseteq> set cwd \<union> set d \<union> {CHR ''.'', CHR ''/''}" by blast
  with join_segs_chars show ?thesis unfolding rel by (rule order_trans)
qed

lemma int_str_nonempty: "int_str n \<noteq> []"
  by (simp add: int_str_def)

lemma esc_not_in_path_relative:
  "esc \<notin> set cwd \<Longrightarrow> esc \<notin> set d \<Longrightarrow> esc \<notin> set (path_relative cwd f d)"
  using path_relative_chars [of cwd f d] by (auto simp: esc_def)

lemma helper_path_strings:
  "js_or from (JStr cwd) = JStr f \<Longrightarrow>
   helper_path colors cwd (JStr d) from = Inr (chalk_style colors underline (path_relative cwd f d))"
  by (simp add: helper_path_def)

lemma js_or_cwd: "\<not> js_truthy from \<Longrightarrow> js_or from (JStr cwd) = js_or (JStr cwd) (JStr cwd)"
  by (simp add: js_or_def)

subsection \<open>Properties of the helpers\<close>

text \<open>C20: reading back the text of \<open>helper.number(n)\<close> with its styling removed
  gives \<open>n\<close>, coloured or not: \<open>n + ''\<close> prints an integer exactly.\<close>

theorem helper_number_roundtrip: "read_int (strip_sgr (helper_number colors (JNum n))) = n"
  by (simp add: helper_number_def strip_sgr_style esc_not_in_int_str read_int_str)

text \<open>C21: with colours on, \<open>helper.number(n)\<close> is the decimal text of \<open>n\<close> between
  chalk's cyan opening code 36 and closing code 39 (the spec's example is \<open>n = 42\<close>).\<close>

theorem helper_number_cyan: "helper_number True (JNum n) = sgr 36 @ int_str n @ sgr 39"
  by (simp add: helper_number_def chalk_style_plain esc_not_in_int_str int_str_nonempty cyan_def)

text \<open>C22: with colours on, \<open>helper.string(s)\<close> is the text of \<open>s\<close> in backticks
  between chalk's green codes 32 and 39, when that text holds no escape character.\<close>

theorem helper_string_green:
  "esc \<notin> set (js_to_string s) \<Longrightarrow>
   helper_string True s = sgr 32 @ CHR ''`'' # js_to_string s @ ''`'' @ sgr 39"
  by (simp add: helper_string_def chalk_style_plain green_def esc_def)

theorem helper_string_green_witness:
  "esc \<notin> set (js_to_string (JStr ''x'')) \<and>
   helper_string True (JStr ''x'') = sgr 32 @ ''`x`'' @ sgr 39"
  using helper_string_green [of "JStr ''x''"] by (simp add: esc_def)

text \<open>C23: \<open>helper.path(dir, from)\<close> returns a path that, with its styling removed
  and resolved from \<open>from\<close> (or the working directory when \<open>from\<close> is falsy),
  leads to \<open>dir\<close>: the round trip of \<open>path.relative\<close> through chalk's underline.\<close>

theorem helper_path_roundtrip:
  assumes "esc \<notin> set cwd" and "esc \<notin> set d" and "js_or from (JStr cwd) = JStr f"
  shows "\<exists>r. helper_path colors cwd (JStr d) from = Inr r \<and>
             norm_segs [] (path_resolve cwd f @ split_on CHR ''/'' (strip_sgr r)) = path_resolve cwd d"
proof -
  have "strip_sgr (chalk_style colors underline (path_relative cwd f d)) = path_relative cwd f d"
    using assms(1,2) by (simp add: strip_sgr_style esc_not_in_path_relative)
  then show ?thesis
    using assms(3) by (simp add: helper_path_strings path_relative_roundtrip)
qed

theorem helper_path_roundtrip_witness:
  "esc \<notin> set ''/home/u'' \<and> esc \<notin> set ''/home/u/src'' \<and>
   js_or JUndef (JStr ''/home/u'') = JStr ''/home/u'' \<and>
   (\<exists>r. helper_path True ''/home/u'' (JStr ''/home/u/src'') JUndef = Inr r \<and>
        norm_segs [] (path_resolve ''/home/u'' ''/home/u'' @ split_on CHR ''/'' (strip_sgr r)) =
        path_resolve ''/home/u'' ''/home/u/src'')"
  using helper_path_roundtrip [of "''/home/u''" "''/home/u/src''" JUndef "''/home/u''" True]
  by (simp add: esc_def js_or_def)

text \<open>C24: a falsy \<open>from\<close> (\<open>undefined\<close>, \<open>null\<close>, the empty string, \<open>0\<close>,
  \<open>false\<close>, \<open>NaN\<close>) is replaced by the working directory: \<open>from || process.cwd()\<close>.\<close>

theorem helper_path_default_from:
  "\<not> js_truthy from \<Longrightarrow> helper_path colors cwd dir from = helper_path colors cwd dir (JStr cwd)"
  by (simp add: helper_path_def js_or_cwd)

theorem helper_path_default_from_witness:
  "\<not> js_truthy (JStr '''') \<and>
   helper_path True ''/srv'' (JStr ''/srv/a'') (JStr '''') = helper_path True ''/srv'' (JStr ''/srv/a'') (JStr ''/srv'')"
  using helper_path_default_from [of "JStr ''''" True "''/srv''" "JStr ''/srv/a''"] by simp

text \<open>C25: a truthy \<open>from\<close> that is not a string makes \<open>path.relative\<close> throw its
  argument-type error for \<open>from\<close>, before \<open>dir\<close> is looked at.\<close>

theorem helper_path_bad_from:
  "js_truthy from \<Longrightarrow> typeof from \<noteq> ''string'' \<Longrightarrow>
   helper_path colors cwd dir from = Inl (TypeErrorArg ''from'' from)"
  by (cases "from") (simp_all add: helper_path_def js_or_def)

theorem helper_path_bad_from_witness:
  "js_truthy (JNum 5) \<and> typeof (JNum 5) \<noteq> ''string'' \<and>
   helper_path True ''/srv'' JUndef (JNum 5) = Inl (TypeErrorArg ''from'' (JNum 5))"
  using helper_path_bad_from [of "JNum 5" True "''/srv''" JUndef] by simp

text \<open>C26: a \<open>dir\<close> that is not a string makes \<open>path.relative\<close> throw its
  argument-type error for \<open>to\<close>, whenever \<open>from\<close> is usable.\<close>

theorem helper_path_bad_dir:
  "typeof (js_or from (JStr cwd)) = ''string'' \<Longrightarrow> typeof dir \<noteq> ''string'' \<Longrightarrow>
   helper_path colors cwd dir from = Inl (TypeErrorArg ''to'' dir)"
  by (cases dir) (auto simp: helper_path_def typeof_string_iff)

theorem helper_path_bad_dir_witness:
  "typeof (js_or JUndef (JStr ''/srv'')) = ''string'' \<and> typeof JNull \<noteq> ''string'' \<and>
   helper_path False ''/srv'' JNull JUndef = Inl (TypeErrorArg ''to'' JNull)"
  using helper_path_bad_dir [of JUndef "''/srv''" JNull False] by (simp add: js_or_def)

text \<open>C27: \<open>helper.file(p)\<close> underlines the last segment of \<open>p\<close>: with colours on,
  a path ending in \<open>/name\<close> gives \<open>name\<close> between chalk's underline codes 4 and 24.\<close>

theorem helper_file_basename:
  "name \<noteq> [] \<Longrightarrow> CHR ''/'' \<notin> set name \<Longrightarrow> esc \<notin> set name \<Longrightarrow>
   helper_file True (JStr (d @ CHR ''/'' # name)) = Inr (sgr 4 @ name @ sgr 24)"
  by (simp add: helper_file_def path_basename_last chalk_style_plain underline_def)

theorem helper_file_basename_witness:
  "''index.js'' \<noteq> [] \<and> CHR ''/'' \<notin> set ''index.js'' \<and> esc \<notin> set ''index.js'' \<and>
   helper_file True (JStr (''/srv/app/src'' @ CHR ''/'' # ''index.js'')) = Inr (sgr 4 @ ''index.js'' @ sgr 24)"
  using helper_file_basename [of "''index.js''" "''/srv/app/src''"] by (simp add: esc_def)

text \<open>C28: \<open>helper.file\<close> of a value that is not a string throws
  \<open>path.basename\<close>'s argument-type error.\<close>

theorem helper_file_rejects:
  "typeof file \<noteq> ''string'' \<Longrightarrow> helper_file colors file = Inl (TypeErrorArg ''path'' file)"
  by (cases "file") (simp_all add: helper_file_def)

theorem helper_file_rejects_witness:
  "typeof (JNum 3) \<noteq> ''string'' \<and> helper_file True (JNum 3) = Inl (TypeErrorArg ''path'' (JNum 3))"
  using helper_file_rejects [of "JNum 3" True] by simp

end
