(* ===== verification/Closures.thy ===== *)
theory Closures
  imports FacadeSystem
begin

text \<open>
  The timestamp closures of lines 52--59 in the running module.  The loop of
  \<open>_getLogger\<close> installs a closure only on a transport whose \<open>timestamp\<close> read gave a
  string, and only objects give strings for that key; so every closure in the heap
  of a reachable state captures a transport object, and calling it (as winston does
  when it writes a line) reads \<open>transport.colorize\<close> from an object and cannot
  throw: it returns a string, as section 8 of the spec expects of the produced
  function.
\<close>

subsection \<open>Lemmas\<close>

lemma get_prop_timestamp_string:
  "get_prop h v ''timestamp'' = Inr (JStr pat) \<Longrightarrow> \<exists>a. v = JObj a"
  by (cases v) (auto simp: string_index_timestamp split: option.splits)

lemma obj_fns_ok_iff: "obj_fns_ok ob \<longleftrightarrow> (\<forall>v \<in> snd ` set ob. fn_ok v)"
  by (auto simp: obj_fns_ok_def list_all_iff)

lemma obj_fns_ok_update: "obj_fns_ok ob \<Longrightarrow> fn_ok x \<Longrightarrow> obj_fns_ok (AList.update k x ob)"
  using set_update_vals [of k x ob] unfolding obj_fns_ok_iff by blast

lemma heap_fns_ok_put_prop:
  assumes "heap_fns_ok h" "fn_ok x" "put_prop h v k x = Inr h'"
  shows "heap_fns_ok h'"
proof (cases v)
  case (JObj a)
  have ob: "obj_fns_ok (obj_at h a)"
    using assms(1) by (auto simp: heap_fns_ok_def obj_at_def list_all_length obj_fns_ok_def)
  have "\<forall>ob \<in> set (h[a := AList.update k x (obj_at h a)]). obj_fns_ok ob"
    using assms(1) obj_fns_ok_update [OF ob assms(2)] set_update_subset_insert
    by (fastforce simp: heap_fns_ok_def list_all_iff)
  with JObj assms(3) show ?thesis by (simp add: heap_fns_ok_def list_all_iff)
qed (use assms in auto)

lemma rewrite_transport_fns:
  assumes "heap_fns_ok h" "rewrite_transport h t = Inr h1"
  shows "heap_fns_ok h1"
proof (cases "get_prop h t ''timestamp''")
  case (Inr fmt)
  show ?thesis
  proof (cases fmt)
    case (JStr pat)
    then obtain a where t: "t = JObj a" using Inr get_prop_timestamp_string by blast
    have put: "put_prop h t ''timestamp'' (JFun (TimestampFn pat t)) = Inr h1"
      using Inr JStr assms(2) by (simp add: rewrite_transport_def)
    have "fn_ok (JFun (TimestampFn pat t))" using t by simp
    with assms(1) show ?thesis using put by (rule heap_fns_ok_put_prop)
  qed (use Inr assms in \<open>auto simp: rewrite_transport_def\<close>)
qed (use assms(2) in \<open>simp add: rewrite_transport_def\<close>)

lemma rewrite_loop_fns:
  "heap_fns_ok h \<Longrightarrow> rewrite_loop lo ks h = (r, h') \<Longrightarrow> heap_fns_ok h'"
proof (induction lo ks h rule: rewrite_loop.induct)
  case (2 lo n ns h)
  then show ?case
    by (auto split: sum.splits dest: rewrite_transport_fns)
qed simp

lemma get_logger_fns:
  "heap_fns_ok (heap w) \<Longrightarrow> get_logger p w = (r, p', w') \<Longrightarrow> heap_fns_ok (heap w')"
  by (auto simp: get_logger_def Let_def split: option.splits prod.splits dest: rewrite_loop_fns)

lemma level_method_fns:
  "heap_fns_ok (heap w) \<Longrightarrow> level_method lv p w args = (r, p', w') \<Longrightarrow> heap_fns_ok (heap w')"
  by (auto simp: level_method_log plugin_log_def split: prod.splits sum.splits dest: get_logger_fns)

lemma exec_event_fns:
  "heap_fns_ok (heap (world s)) \<Longrightarrow> exec_event e s = Some (r, s') \<Longrightarrow> heap_fns_ok (heap (world s'))"
proof (induction e)
  case (HostWrite v k x)
  then show ?case by (auto split: if_splits sum.splits intro: heap_fns_ok_put_prop)
next
  case (HostAlloc ob)
  then show ?case by (auto simp: heap_fns_ok_def split: if_splits)
qed (auto split: if_splits prod.splits dest: level_method_fns)

subsection \<open>Properties of the closures\<close>

text \<open>C38: in every reachable state, every timestamp closure stored in a property of
  a heap object captures a transport object, and calling it never throws: it returns
  a string, coloured or not, whatever the heap, the time and the colour support are
  at the call.\<close>

theorem timestamp_closures_callable:
  assumes "reachable s" and "map_of (obj_at (heap (world s)) a) k = Some (JFun (TimestampFn pat t))"
  shows "(\<exists>b. t = JObj b) \<and> (\<forall>df colors h now. \<exists>str. timestamp_call df colors h now pat t = Inr str)"
proof -
  have "heap_fns_ok (heap (world s))"
    using assms(1)
  proof (induction rule: reachable.induct)
    case (init h t)
    then show ?case by (simp add: init_sys_def)
  next
    case (step s e r s')
    then show ?case by (blast intro: exec_event_fns)
  qed
  then have "obj_fns_ok (obj_at (heap (world s)) a)"
    by (auto simp: heap_fns_ok_def obj_at_def list_all_length obj_fns_ok_def)
  then have "fn_ok (JFun (TimestampFn pat t))"
    using assms(2) by (force simp: obj_fns_ok_iff dest: map_of_SomeD)
  then obtain b where "t = JObj b" by (cases t) auto
  then show ?thesis by (simp add: timestamp_call_def Let_def)
qed

theorem timestamp_closures_callable_witness:
  "reachable (demo_after_warn\<lparr>world := (world demo_after_warn)\<lparr>clock := 9\<rparr>\<rparr>) \<and>
   map_of (obj_at (heap (world (demo_after_warn\<lparr>world := (world demo_after_warn)\<lparr>clock := 9\<rparr>\<rparr>))) 1) ''timestamp''
     = Some (JFun (TimestampFn ''HH:MM'' (JObj 1))) \<and>
   (\<exists>b. JObj 1 = JObj b) \<and>
   (\<forall>df colors h now. \<exists>str. timestamp_call df colors h now ''HH:MM'' (JObj 1) = Inr str)"
proof -
  have h: "heap_ok demo_heap" by (simp add: demo_heap_def heap_ok_def obj_ok_def)
  have f: "heap_fns_ok demo_heap" by (simp add: demo_heap_def heap_fns_ok_def obj_fns_ok_def)
  have ex: "exec_events demo_events (init_sys demo_heap 7) =
     Some ([Inr (), Inr (), Inr (), Inr ()], demo_after_warn\<lparr>world := (world demo_after_warn)\<lparr>clock := 9\<rparr>\<rparr>)"
    by (simp add: demo_simps Let_def)
  have r: "reachable (demo_after_warn\<lparr>world := (world demo_after_warn)\<lparr>clock := 9\<rparr>\<rparr>)"
    by (rule reachable_exec_events [OF reachable.init [OF h f] ex])
  have m: "map_of (obj_at (heap (world (demo_after_warn\<lparr>world := (world demo_after_warn)\<lparr>clock := 9\<rparr>\<rparr>))) 1) ''timestamp''
     = Some (JFun (TimestampFn ''HH:MM'' (JObj 1)))"
    by (simp add: demo_simps obj_at_def)
  show ?thesis using timestamp_closures_callable [OF r m] r m by simp
qed

end
