(* ===== verification/ForInLive.thy ===== *)
theory ForInLive
  imports TimestampRewrite
begin

text \<open>
  The \<open>for (var n in logOptions)\<close> loop of lines 46--61 under the other reading that
  JavaScript allows.  \<open>rewrite_loop\<close> takes the keys once, when the loop starts; an
  engine may instead look at the object's current keys before each iteration and
  visit the next key it has not visited yet (keys deleted meanwhile are skipped,
  keys added may be visited).  \<open>rewrite_loop_live\<close> is that reading: it keeps the
  list of visited keys, and since a loop over a changing key set need not end, it
  runs on fuel and returns \<open>None\<close> when the fuel is spent.  The loop body is the same
  as in \<open>rewrite_loop\<close>.

  The body only ever overwrites a \<open>timestamp\<close> property it has just read as a
  string, so no object gains or loses a key: the key set the live reading sees never
  changes, the loop ends after one iteration per key, and both readings agree.
\<close>

fun rewrite_loop_live ::
  "nat \<Rightarrow> jsval \<Rightarrow> string list \<Rightarrow> heap \<Rightarrow> (js_error option \<times> heap) option" where
  "rewrite_loop_live 0 logOptions vs h = None"
| "rewrite_loop_live (Suc f) logOptions vs h =
     (case filter (\<lambda>k. k \<notin> set vs) (for_in_keys h logOptions) of
        [] \<Rightarrow> Some (None, h)
      | n # _ \<Rightarrow>
          (case get_prop h logOptions n of
             Inl e \<Rightarrow> Some (Some e, h)
           | Inr transport \<Rightarrow>
               (case rewrite_transport h transport of
                  Inl e \<Rightarrow> Some (Some e, h)
                | Inr h' \<Rightarrow> rewrite_loop_live f logOptions (vs @ [n]) h')))"

subsection \<open>Lemmas\<close>

text \<open>The loop body keeps the keys of every object.\<close>

lemma rewrite_transport_keys:
  assumes "rewrite_transport h t = Inr h'"
  shows "map fst (obj_at h' b) = map fst (obj_at h b)"
proof (cases "get_prop h t ''timestamp''")
  case (Inr fmt)
  show ?thesis
  proof (cases fmt)
    case (JStr pat)
    show ?thesis
    proof (cases t)
      case (JObj a)
      with Inr JStr have "map_of (obj_at h a) ''timestamp'' = Some (JStr pat)"
        by (auto split: option.splits)
      then have mem: "''timestamp'' \<in> fst ` set (obj_at h a)"
        by (metis map_of_eq_None_iff option.distinct(1))
      have h': "h' = h[a := AList.update ''timestamp'' (JFun (TimestampFn pat (JObj a))) (obj_at h a)]"
        using JObj Inr JStr assms by (simp add: rewrite_transport_def)
      show ?thesis
      proof (cases "b = a")
        case True
        with mem show ?thesis unfolding h' by (simp add: obj_at_update)
      qed (simp add: h' obj_at_update)
    qed (use Inr JStr assms in \<open>auto simp: rewrite_transport_def string_index_timestamp\<close>)
  qed (use Inr assms in \<open>auto simp: rewrite_transport_def\<close>)
qed (use assms in \<open>simp add: rewrite_transport_def\<close>)

lemma for_in_keys_same:
  "\<forall>b. map fst (obj_at h' b) = map fst (obj_at h b) \<Longrightarrow> for_in_keys h' v = for_in_keys h v"
  by (cases v) simp_all

lemma filter_not_visited:
  "distinct (vs @ ks) \<Longrightarrow> filter (\<lambda>k. k \<notin> set vs) (vs @ ks) = ks"
  by (induction ks) auto

lemma rewrite_loop_live_gen:
  "for_in_keys h lo = vs @ ks \<Longrightarrow> distinct (vs @ ks) \<Longrightarrow>
   rewrite_loop_live (Suc (length ks)) lo vs h = Some (rewrite_loop lo ks h)"
proof (induction ks arbitrary: vs h)
  case Nil
  then show ?case by (simp add: filter_not_visited [of vs "[]", simplified])
next
  case (Cons n ns)
  have pick: "filter (\<lambda>k. k \<notin> set vs) (for_in_keys h lo) = n # ns"
    using Cons.prems filter_not_visited [of vs "n # ns"] by simp
  show ?case
  proof (cases "get_prop h lo n")
    case get: (Inr t)
    show ?thesis
    proof (cases "rewrite_transport h t")
      case rw: (Inr h1)
      have "for_in_keys h1 lo = (vs @ [n]) @ ns"
        using Cons.prems(1) for_in_keys_same [of h1 h lo] rewrite_transport_keys [OF rw] by simp
      moreover have "distinct ((vs @ [n]) @ ns)" using Cons.prems(2) by simp
      ultimately have "rewrite_loop_live (Suc (length ns)) lo (vs @ [n]) h1 = Some (rewrite_loop lo ns h1)"
        by (rule Cons.IH)
      with pick get rw show ?thesis by simp
    qed (use pick get in simp)
  qed (use pick in simp)
qed

subsection \<open>Properties of the live reading\<close>

text \<open>C39: under the live reading of \<open>for..in\<close>, the loop over an object with
  distinct keys terminates: one unit of fuel per key, plus one to see that no key is
  left, is enough, and the result (the first error, if any, and the heap) is the one
  of the loop over the keys taken at the start.\<close>

theorem for_in_live_terminates:
  "distinct (for_in_keys h lo) \<Longrightarrow>
   rewrite_loop_live (Suc (length (for_in_keys h lo))) lo [] h =
     Some (rewrite_loop lo (for_in_keys h lo) h)"
  using rewrite_loop_live_gen [of h lo "[]" "for_in_keys h lo"] by simp

theorem for_in_live_terminates_witness:
  "distinct (for_in_keys [[(''console'', JObj 1), (''file'', JObj 1)], [(''timestamp'', JStr ''HH'')]] (JObj 0)) \<and>
   rewrite_loop_live 3 (JObj 0) [] [[(''console'', JObj 1), (''file'', JObj 1)], [(''timestamp'', JStr ''HH'')]] =
     Some (rewrite_loop (JObj 0) [''console'', ''file''] [[(''console'', JObj 1), (''file'', JObj 1)], [(''timestamp'', JStr ''HH'')]])"
  using for_in_live_terminates [of "[[(''console'', JObj 1), (''file'', JObj 1)], [(''timestamp'', JStr ''HH'')]]" "JObj 0"]
  by (simp add: obj_at_def numeral_3_eq_3)

text \<open>C40: the loop never adds or removes a property of any object, whether it
  completes or throws: it only replaces the value of \<open>timestamp\<close> properties that
  already hold a string.\<close>

theorem rewrite_loop_keeps_keys:
  "rewrite_loop lo ks h = (e, h') \<Longrightarrow> map fst (obj_at h' b) = map fst (obj_at h b)"
proof (induction lo ks h rule: rewrite_loop.induct)
  case (2 lo n ns h)
  then show ?case by (auto split: sum.splits dest: rewrite_transport_keys)
qed simp

theorem rewrite_loop_keeps_keys_witness:
  "rewrite_loop (JObj 0) [''console''] [[(''console'', JObj 1)], [(''timestamp'', JStr ''HH'')]] =
     (None, [[(''console'', JObj 1)], [(''timestamp'', JFun (TimestampFn ''HH'' (JObj 1)))]]) \<and>
   map fst (obj_at [[(''console'', JObj 1)], [(''timestamp'', JFun (TimestampFn ''HH'' (JObj 1)))]] 1) =
   map fst (obj_at [[(''console'', JObj 1)], [(''timestamp'', JStr ''HH'')]] 1)"
proof -
  have r: "rewrite_loop (JObj 0) [''console''] [[(''console'', JObj 1)], [(''timestamp'', JStr ''HH'')]] =
     (None, [[(''console'', JObj 1)], [(''timestamp'', JFun (TimestampFn ''HH'' (JObj 1)))]])"
    by (simp add: rewrite_transport_def obj_at_def)
  show ?thesis using rewrite_loop_keeps_keys [OF r, of 1] r by simp
qed

end
