(* ===== verification/Spec2Isabelle.thy ===== *)
theory Spec2Isabelle
  imports FacadeSpec Helper Closures ForInLive
begin

text \<open>
  A verification library for \<open>src/index.js\<close> of tree-config-logger: a logging facade
  (\<open>LoggerPlugin\<close>) that builds, on its first log call, a logger of the winston backend
  from the \<open>log\<close> section of a tree-config configuration, after rewriting each
  transport's \<open>timestamp\<close> pattern into a closure that formats the current date and
  colours it gray when the transport's \<open>colorize\<close> is the string \<open>'true'\<close>; and
  formatting helpers for paths, file names, numbers and strings.

  \<^bold>\<open>Parts and theories.\<close>
  \<^item> \<open>Prelude\<close>: fact collections, heap addresses, decimal digits of naturals with
    their read-back round trip, association-list and map lemmas.
  \<^item> \<open>JsValues\<close>: the JavaScript the module relies on: values (\<open>jsval\<close>, with the
    module's timestamp closure as a constructor capturing \<open>format\<close> and
    \<open>transport\<close>), the heap of plain objects (property tables in enumeration order,
    addresses never freed), property read (\<open>get_prop\<close>, a \<open>TypeError\<close> on \<open>null\<close>
    and \<open>undefined\<close>), strict-mode property write (\<open>put_prop\<close>; line 5 is
    \<open>'use strict'\<close>), \<open>typeof\<close>, number-to-string (\<open>int_str\<close>), the \<open>+\<close> of a
    value and a number (\<open>js_add_num\<close>), the keys of \<open>for..in\<close>, and heap
    well-formedness.
  \<^item> \<open>Chalk\<close>: the chalk styles used (underline, cyan, green, gray) as SGR codes,
    chalk 1.x's wrapping (no-op when colours are off or the text is empty, inner
    closing codes re-opened), and the removal of the codes with its round trip.
  \<^item> \<open>Winston\<close>: the backend's registry \<open>winston.loggers\<close> as a map from id strings
    to loggers with retrieve-or-create \<open>add\<close>, and a logger's \<open>log\<close> observed as a
    call record appended to the calls the backend received.
  \<^item> \<open>TimestampRewrite\<close>: lines 46--61 of \<open>_getLogger\<close> (\<open>rewrite_transport\<close> for
    the body of the inner function, \<open>rewrite_loop\<close> for the \<open>for..in\<close> loop) and the
    closure body of lines 52--59 (\<open>timestamp_call\<close>), with a reference loop
    \<open>rewrite_ref\<close> over the initial heap and the per-object rewrite \<open>rw_obj\<close>.
  \<^item> \<open>TimestampPolicy\<close>: the design of spec section 9 (\<open>timestamp_policy\<close>:
    \<open>Raw\<close> or \<open>Formatted pattern colorized\<close>, resolved from a transport object by
    \<open>policy_of\<close> and rendered per line by \<open>render_timestamp\<close>), and \<open>stamp_at\<close>, the
    stamp the backend obtains from a transport when it writes a line by calling
    its \<open>timestamp\<close> option.
  \<^item> \<open>LoggerPlugin\<close>: the facade record (\<open>config\<close>, \<open>_logger\<close> as \<open>logger_slot\<close>),
    the world it acts on (heap, registry, clock, emitted calls), the constructor
    \<open>new_plugin\<close>, \<open>_getLogger\<close> (\<open>get_logger\<close>), the logger id of line 63
    (\<open>log_id\<close>), \<open>log\<close> (\<open>plugin_log\<close>) and the six level methods.
  \<^item> \<open>FacadeSystem\<close>: the module running in a process: a list of facades and the
    shared world (\<open>sys\<close>), the events a host can cause (\<open>event\<close>: construct a facade,
    call a level method of facade \<open>i\<close>, write a configuration property, allocate an
    object, change the clock; the host can copy the module's closures but not forge
    them), one event as \<open>exec_event\<close> (\<open>None\<close> for an event
    impossible in that state), runs as \<open>exec_events\<close>, the reachable states as the
    inductive \<open>reachable\<close>, and the invariant \<open>sys_inv\<close>.
  \<^item> \<open>FacadeSpec\<close>: the contract of spec sections 4.2, 4.3 and 9 without heaps or
    times (\<open>asys\<close>: the logger name each facade is bound to, the registered names,
    the calls sent), its steps \<open>aspec_step\<close> and runs \<open>aspec_run\<close>, and the
    abstraction \<open>abs_sys\<close> of a runtime state.
  \<^item> \<open>Closures\<close>: the timestamp closures in the running module: every closure
    in a reachable heap captures a transport object (\<open>heap_fns_ok\<close>), preserved by
    the rewrite loop, \<open>_getLogger\<close> and every event.
  \<^item> \<open>ForInLive\<close>: the \<open>for..in\<close> loop of lines 46--61 under the live key
    enumeration JavaScript also permits (\<open>rewrite_loop_live\<close>: keys re-read before
    each iteration, visited keys remembered, fuel bounding the iterations).
  \<^item> \<open>NodePath\<close>: Node's POSIX \<open>path.resolve\<close>, \<open>path.relative\<close> and
    \<open>path.basename\<close> over segment lists (\<open>split_on\<close>, \<open>norm_segs\<close>,
    \<open>join_segs\<close>), with the round trip of \<open>relative\<close>.
  \<^item> \<open>Helper\<close>: the helpers of lines 12--30 (\<open>helper_path\<close>, \<open>helper_file\<close>,
    \<open>helper_number\<close>, \<open>helper_string\<close>); \<open>from || process.cwd()\<close> is
    \<open>js_or\<close> of \<open>JsValues\<close>; a non-string path argument is Node's argument-type error
    as an \<open>Inl\<close> value; \<open>read_int\<close> reads a number's text back.
  Every method takes the facade and the world and returns the outcome (an error for a
  throw), the facade and the world: mutations done before a throw persist, as in the
  code.  \<open>dateFormat\<close> and chalk's colour support are parameters of the closure call.

  \<^bold>\<open>What is proved.\<close>  The facade caches its logger and reuses it whatever happens
  to the configuration (C1, C2); a level method makes exactly one backend call with
  the level first (C3).  The code's loop, which reads each transport from the heap
  its earlier iterations changed, equals the reference loop over the initial heap,
  whatever the aliasing (C4); string timestamps become closures over their
  transport (C5), other objects are untouched even when the loop throws (C6), and the
  loop throws exactly on a \<open>null\<close> or \<open>undefined\<close> transport (C7).  The closure
  colours only for \<open>colorize === 'true'\<close> (C8, C9) and reads \<open>colorize\<close> at call
  time, so a later change of \<open>colorize\<close> makes the stamp depart from the policy
  of section 9 (C10).  A throw leaves the facade uninitialised and the registry unchanged
  (C11) but keeps the rewrite of every transport visited before the throw
  (C19); a missing \<open>log\<close> section does not throw
  (C12).  Logger ids: string ids concatenate (C13) and differ across times (C14);
  numeric ids add, and collide exactly when id plus time agree (C15); an undefined id is always \<open>NaN\<close> (C16); the
  first call registers the logger (C17); same id and millisecond share one logger
  (C18).  The helpers: the number's text reads back to the number (C20) and is
  wrapped in cyan (C21); strings are backticked in green (C22); the path returned
  by \<open>helper.path\<close>, unstyled and resolved from \<open>from\<close>, leads to \<open>dir\<close>
  (C23); a falsy \<open>from\<close> is the working directory (C24); non-string arguments throw
  (C25, C26, C28); \<open>helper.file\<close> underlines the last segment (C27).  A second
  facade over the same configuration leaves the closures of the first as they are
  and succeeds (C29).  The running module: the invariant
  holds in every reachable state, by rule induction (C30); the registry changes only on a
  facade's first successful call, by the entry of the logger it caches (C31); a cached logger is never lost (C32); an event makes at most one backend call
  (C33); a facade with a logger always logs to it (C34).  The logger a
  first \<open>_getLogger\<close> builds refines the timestamp policy of section 9: every
  transport stamps lines as the policy resolved at construction renders them, as long
  as its \<open>colorize\<close> is unchanged (C35).  Every run from a well-formed
  initial heap refines the contract (C36).  The registry of a reachable state holds at
  most one logger per facade that holds one, however many calls were made (C37).  Every timestamp closure of a reachable heap
  captures a transport object and returns a string when called (C38).  Under the live
  reading of \<open>for..in\<close> the loop terminates with one unit of fuel per key and agrees
  with the snapshot loop (C39), because the loop never adds or removes a property of
  any object (C40).

  \<^bold>\<open>Bounds and choices.\<close>  Numbers are integers and \<open>NaN\<close>: the module's numbers are
  millisecond times and ids, exact in doubles below \<open>2^53\<close> and printed without
  exponent below \<open>10^21\<close>.  The code's loops are structural recursion
  over the key list taken when the loop starts.  The live reading of the loop
  (\<open>rewrite_loop_live\<close>) runs on fuel; C39 shows that the number of keys plus one is
  enough.

  \<^bold>\<open>Not modelled.\<close>  What winston's transports write besides the stamp of
  \<open>stamp_at\<close>, prototypes and getters of
  configuration objects, tree-config's merging (its result is an input), and the
  date-formatting library: the spec gives it only as \<open>format(date, pattern)\<close>, so it
  is the parameter \<open>dateFormat\<close> of \<open>timestamp_call\<close>.  Node's \<open>path\<close> is modelled
  for POSIX paths only.  Events are atomic: the model assumes winston calls the
  timestamp closure only when a transport writes a line, after \<open>_logger\<close> is set
  (line 64), so a log call from inside it would find the cached logger.
\<close>

end
